theory Spec2Isabelle
  imports Complex_Main "HOL-Library.Sublist"
begin

section \<open>Failures\<close>

text \<open>
  Every \<^verbatim>\<open>throw new Error(msg)\<close> of the source is the value \<open>Inl (Error msg)\<close>.
  The message of a template literal is kept up to its first interpolation. Two more
  outcomes are not failures of the program but limits of the model: \<open>OutOfFuel\<close> when the
  recursion depth given to a recursive parser is used up, and \<open>Unmodelled\<close> when control
  reaches code that the model does not cover (the number library's transcendental
  functions, and behaviour of the library that neither the specification nor the tests
  pin down).
\<close>

datatype error = Error string | Unmodelled | OutOfFuel

type_synonym 'a result = "error + 'a"

section \<open>BaseParser.parseDefinition\<close>

text \<open>
  A JavaScript string is a sequence of UTF-16 code units; \<^verbatim>\<open>charCodeAt(0)\<close> of a
  one-unit string is that unit and \<^verbatim>\<open>String.fromCharCode\<close> is its inverse, so the
  model works on the code units directly. The hyphen is unit 45.
\<close>

type_synonym code_unit = nat

text \<open>
  The \<^verbatim>\<open>while (i < sequence.length)\<close> loop, on the part of the sequence from \<open>i\<close> on
  and the \<^verbatim>\<open>characters\<close> array built so far. The test \<^verbatim>\<open>i + 2 < sequence.length\<close>
  holds exactly when three units are left.
\<close>

fun parseDefinition_loop :: "code_unit list \<Rightarrow> code_unit list \<Rightarrow> code_unit list result" where
  "parseDefinition_loop (startCode # dash # endCode # rest) characters =
     (if dash = 45 then
        (if startCode > endCode then Inl (Error ''Invalid range: '')
         else parseDefinition_loop rest (characters @ [startCode ..< Suc endCode]))
      else parseDefinition_loop (dash # endCode # rest) (characters @ [startCode]))"
| "parseDefinition_loop (c # rest) characters = parseDefinition_loop rest (characters @ [c])"
| "parseDefinition_loop [] characters = Inr characters"

definition parseDefinition :: "code_unit list \<Rightarrow> code_unit list result" where
  "parseDefinition sequence =
     (if length sequence = 0 then Inl (Error ''Character sequence must be a non-empty string'')
      else case parseDefinition_loop sequence [] of
        Inl e \<Rightarrow> Inl e
      | Inr characters \<Rightarrow>
          if card (set characters) \<noteq> length characters
          then Inl (Error ''Character sequence contains duplicate characters'')
          else if length characters < 2
          then Inl (Error ''Base system must have at least 2 characters'')
          else Inr characters)"

text \<open>
  The reading of a definition string that the claim speaks of: a sequence of items, each a
  single character or a range \<open>c1-c2\<close>. \<open>render\<close> is the text of such a sequence and
  \<open>item_chars\<close> what an item stands for. A sequence is \<open>canonical\<close> when no single
  character is followed by a hyphen and a further character (the scanner would read a
  range there).
\<close>

datatype item = Single code_unit | Range code_unit code_unit

fun render_item :: "item \<Rightarrow> code_unit list" where
  "render_item (Single c) = [c]"
| "render_item (Range c1 c2) = [c1, 45, c2]"

definition render :: "item list \<Rightarrow> code_unit list" where
  "render its = concat (map render_item its)"

fun item_chars :: "item \<Rightarrow> code_unit list" where
  "item_chars (Single c) = [c]"
| "item_chars (Range c1 c2) = [c1 ..< Suc c2]"

definition expansion :: "item list \<Rightarrow> code_unit list" where
  "expansion its = concat (map item_chars its)"

fun opens_range :: "code_unit list \<Rightarrow> bool" where
  "opens_range (dash # e # rest) = (dash = 45)"
| "opens_range _ = False"

fun canonical :: "item list \<Rightarrow> bool" where
  "canonical [] = True"
| "canonical (Single c # its) = (\<not> opens_range (render its) \<and> canonical its)"
| "canonical (Range c1 c2 # its) = canonical its"

fun bad_range :: "item \<Rightarrow> bool" where
  "bad_range (Single c) = False"
| "bad_range (Range c1 c2) = (c1 > c2)"

text \<open>The scanner's own reading of a string, used to show that every string has one.\<close>

fun items_of :: "code_unit list \<Rightarrow> item list" where
  "items_of (s # d # e # rest) =
     (if d = 45 then Range s e # items_of rest else Single s # items_of (d # e # rest))"
| "items_of (c # rest) = Single c # items_of rest"
| "items_of [] = []"


section \<open>JavaScript string primitives\<close>

text \<open>
  The strings of \<^verbatim>\<open>index.js\<close> are modelled as \<open>string\<close>: every character the
  parser tells apart is an ASCII character, and any other code unit is one more character
  that is neither a digit nor an operator.
\<close>

definition isDigit :: "char \<Rightarrow> bool" where
  "isDigit c = (c \<in> set ''0123456789'')"

definition digitValue :: "char \<Rightarrow> nat" where
  "digitValue c = of_char c - 48"

definition BigInt_digits :: "string \<Rightarrow> nat" where
  "BigInt_digits s = foldl (\<lambda>acc c. 10 * acc + digitValue c) 0 s"

definition BigInt :: "string \<Rightarrow> int" where
  "BigInt s = (if prefix ''-'' s then - int (BigInt_digits (tl s)) else int (BigInt_digits s))"

primrec includes_str :: "string \<Rightarrow> string \<Rightarrow> bool" where
  "includes_str [] sub = (sub = [])"
| "includes_str (c # s) sub = (prefix sub (c # s) \<or> includes_str s sub)"

fun split_char :: "char \<Rightarrow> string \<Rightarrow> string list" where
  "split_char sep [] = [[]]"
| "split_char sep (c # s) =
     (if c = sep then [] # split_char sep s
      else (case split_char sep s of p # ps \<Rightarrow> (c # p) # ps | [] \<Rightarrow> [[c]]))"

definition isLineTerminator :: "char \<Rightarrow> bool" where
  "isLineTerminator c = (c = CHR 0x0A \<or> c = CHR 0x0D)"

definition cfMatch :: "string \<Rightarrow> (string \<times> string) option" where
  "cfMatch s =
     (let sg = (if prefix ''-'' s then ''-'' else '''');
          r = drop (length sg) s;
          ds = takeWhile isDigit r;
          r' = dropWhile isDigit r
      in if ds \<noteq> [] \<and> prefix ''.~'' r' \<and> \<not> list_ex isLineTerminator (drop 2 r')
         then Some (sg @ ds, drop 2 r') else None)"

fun cfTerms_loop :: "string list \<Rightarrow> int list \<Rightarrow> int list result" where
  "cfTerms_loop [] cfTerms = Inr cfTerms"
| "cfTerms_loop (term # terms) cfTerms =
     (if \<not> (term \<noteq> [] \<and> list_all isDigit term) then Inl (Error ''Invalid continued fraction term: '')
      else let termValue = BigInt term in
        if termValue \<le> 0 then Inl (Error ''Continued fraction terms must be positive integers: '')
        else cfTerms_loop terms (cfTerms @ [termValue]))"

definition parseContinuedFraction :: "string \<Rightarrow> int list result" where
  "parseContinuedFraction cfString =
     (case cfMatch cfString of
        None \<Rightarrow> Inl (Error ''Invalid continued fraction format'')
      | Some (integerPart, cfTermsStr) \<Rightarrow>
          let intPart = BigInt integerPart in
          if cfTermsStr = ''0'' then Inr [intPart]
          else if cfTermsStr = '''' then Inl (Error ''Continued fraction must have at least one term after .~'')
          else if suffix ''~'' cfTermsStr then Inl (Error ''Continued fraction cannot end with ~'')
          else if includes_str cfTermsStr ''~~'' then Inl (Error ''Invalid continued fraction format: double tilde'')
          else case cfTerms_loop (split_char CHR ''~'' cfTermsStr) [] of
                 Inl e \<Rightarrow> Inl e
               | Inr cfTerms \<Rightarrow> Inr (intPart # cfTerms))"


fun join :: "string \<Rightarrow> string list \<Rightarrow> string" where
  "join sep [] = []"
| "join sep [t] = t"
| "join sep (t # ts) = t @ sep @ join sep ts"

definition positiveDecimal :: "string \<Rightarrow> bool" where
  "positiveDecimal t = (t \<noteq> [] \<and> list_all isDigit t \<and> 0 < BigInt t)"


section \<open>Values, options and the promotion step\<close>

text \<open>
  The three variants of a result. The exact rational of the number library (always reduced,
  denominator positive) is \<open>rat\<close>; \<open>numerator\<close> and \<open>denominator\<close> are its two fields.
  The provenance markers are the properties that \<^verbatim>\<open>index.js\<close> sets on the objects:
  \<^verbatim>\<open>_explicitFraction\<close> on a Rational, \<^verbatim>\<open>_explicitInterval\<close> and \<^verbatim>\<open>_skipPromotion\<close> on
  a RationalInterval. An endpoint of an interval is a plain rational.
\<close>

definition numerator :: "rat \<Rightarrow> int" where
  "numerator r = fst (quotient_of r)"

definition denominator :: "rat \<Rightarrow> int" where
  "denominator r = snd (quotient_of r)"

datatype "value" =
    Integer int
  | Rational rat bool
  | RationalInterval rat rat bool bool

text \<open>
  A BaseSystem of the number library, as far as the parser reads it: its name and its
  ordered digit characters (\<^verbatim>\<open>base\<close> is their number, \<^verbatim>\<open>charMap\<close> maps a character to
  its position).
\<close>

record BaseSystem =
  name :: string
  characters :: "char list"

text \<open>
  \<^verbatim>\<open>options.inputBase\<close> is compared with the object \<^verbatim>\<open>BaseSystem.DECIMAL\<close> by identity,
  so the model tells apart an absent option, that very object, and any other base system.
\<close>

datatype inputBaseOption = Absent | DecimalObject | Other BaseSystem

record options =
  typeAware :: bool
  allowIntegerRangeNotation :: bool
  inputBase :: inputBaseOption
  precision :: "int option"

definition promoteType :: "value \<Rightarrow> options \<Rightarrow> value" where
  "promoteType v opts =
     (if \<not> typeAware opts then v
      else case v of
        Integer z \<Rightarrow> v
      | Rational r explicitFraction \<Rightarrow>
          if denominator r = 1 then (if explicitFraction then v else Integer (numerator r))
          else v
      | RationalInterval low high explicitInterval skipPromotion \<Rightarrow>
          if skipPromotion then v
          else if low = high then
            (if explicitInterval then v
             else if denominator low = 1 then Integer (numerator low)
             else Rational low False)
          else v)"

text \<open>The promotion rule as section 4.D of the specification words it, rule by rule.\<close>

definition promotion_as_specified :: "value \<Rightarrow> value" where
  "promotion_as_specified v =
     (case v of
        RationalInterval low high explicitInterval skipPromotion \<Rightarrow>
          if low = high \<and> denominator low = 1 \<and> \<not> explicitInterval \<and> \<not> skipPromotion
          then Integer (numerator low)
          else if low = high \<and> denominator low \<noteq> 1 then Rational low False
          else v
      | Rational r explicitFraction \<Rightarrow>
          if denominator r = 1 \<and> \<not> explicitFraction then Integer (numerator r) else v
      | Integer z \<Rightarrow> v)"

text \<open>The same rule with the two interval markers guarding the second case as well.\<close>

definition promotion_amended :: "value \<Rightarrow> value" where
  "promotion_amended v =
     (case v of
        RationalInterval low high explicitInterval skipPromotion \<Rightarrow>
          if low = high \<and> \<not> explicitInterval \<and> \<not> skipPromotion
          then (if denominator low = 1 then Integer (numerator low) else Rational low False)
          else v
      | Rational r explicitFraction \<Rightarrow>
          if denominator r = 1 \<and> \<not> explicitFraction then Integer (numerator r) else v
      | Integer z \<Rightarrow> v)"

text \<open>The options of \<^verbatim>\<open>Parser.parse(expression)\<close> when the caller passes none.\<close>

definition defaultOptions :: options where
  "defaultOptions = \<lparr>typeAware = True, allowIntegerRangeNotation = True, inputBase = Absent, precision = None\<rparr>"


section \<open>More string primitives\<close>

definition isLower :: "char \<Rightarrow> bool" where
  "isLower c = (c \<in> set ''abcdefghijklmnopqrstuvwxyz'')"

definition isUpper :: "char \<Rightarrow> bool" where
  "isUpper c = (c \<in> set ''ABCDEFGHIJKLMNOPQRSTUVWXYZ'')"

definition isLetter :: "char \<Rightarrow> bool" where
  "isLetter c = (isLower c \<or> isUpper c)"

text \<open>The class \<^verbatim>\<open>\w\<close> of a regular expression.\<close>

definition isWordChar :: "char \<Rightarrow> bool" where
  "isWordChar c = (isLetter c \<or> isDigit c \<or> c = CHR ''_'')"

text \<open>The class \<^verbatim>\<open>\s\<close>, which is also what \<^verbatim>\<open>trim\<close> strips.\<close>

definition isSpace :: "char \<Rightarrow> bool" where
  "isSpace c = (c \<in> set [CHR 0x09, CHR 0x0A, CHR 0x0B, CHR 0x0C, CHR 0x0D, CHR 0x20, CHR 0xA0])"

definition trim :: "string \<Rightarrow> string" where
  "trim s = rev (dropWhile isSpace (rev (dropWhile isSpace s)))"

definition toLowerChar :: "char \<Rightarrow> char" where
  "toLowerChar c = (if isUpper c then char_of (of_char c + (32 :: nat)) else c)"

definition toUpperChar :: "char \<Rightarrow> char" where
  "toUpperChar c = (if isLower c then char_of (of_char c - (32 :: nat)) else c)"

definition toLowerCase :: "string \<Rightarrow> string" where
  "toLowerCase s = map toLowerChar s"

definition toUpperCase :: "string \<Rightarrow> string" where
  "toUpperCase s = map toUpperChar s"

primrec indexOf :: "string \<Rightarrow> string \<Rightarrow> nat option" where
  "indexOf [] sub = (if sub = [] then Some 0 else None)"
| "indexOf (c # s) sub = (if prefix sub (c # s) then Some 0 else map_option Suc (indexOf s sub))"

text \<open>\<^verbatim>\<open>s.split(sep)\<close> for a separator of one or more characters.\<close>

function split_str :: "string \<Rightarrow> string \<Rightarrow> string list" where
  "split_str sep [] = [[]]"
| "split_str sep (c # s) =
     (if prefix sep (c # s) then [] # split_str sep (drop (length sep - 1) s)
      else (case split_str sep s of p # ps \<Rightarrow> (c # p) # ps | [] \<Rightarrow> [[c]]))"
  by pat_completeness auto
termination
  by (relation "measure (\<lambda>(sep, s). length s)") auto

text \<open>\<^verbatim>\<open>s.split(/[: ,]+/).filter(s => s.length > 0)\<close>: the maximal runs without a separator.\<close>

fun fields :: "(char \<Rightarrow> bool) \<Rightarrow> string \<Rightarrow> string list" where
  "fields isSep [] = [[]]"
| "fields isSep (c # s) =
     (if isSep c then [] # fields isSep s
      else (case fields isSep s of p # ps \<Rightarrow> (c # p) # ps | [] \<Rightarrow> [[c]]))"

definition splitRangeParts :: "string \<Rightarrow> string list" where
  "splitRangeParts s = filter (\<lambda>p. p \<noteq> []) (fields (\<lambda>c. c \<in> set '': ,'') s)"

text \<open>\<^verbatim>\<open>x || d\<close> on strings: the empty string is falsy.\<close>

definition orElse :: "string \<Rightarrow> string \<Rightarrow> string" where
  "orElse x d = (if x = [] then d else x)"

section \<open>Results, failures that are caught, and what is left unmodelled\<close>

definition rbind :: "'a result \<Rightarrow> ('a \<Rightarrow> 'b result) \<Rightarrow> 'b result" where
  "rbind m f = (case m of Inl e \<Rightarrow> Inl e | Inr x \<Rightarrow> f x)"

text \<open>
  \<^verbatim>\<open>try { m } catch { h }\<close>: only a thrown Error is caught; running out of fuel and
  leaving the modelled part of the program are not errors of the program.
\<close>

definition catch :: "'a result \<Rightarrow> 'a result \<Rightarrow> 'a result" where
  "catch m h = (case m of Inl (Error msg) \<Rightarrow> h | _ \<Rightarrow> m)"


section \<open>The number library, as the parser uses it\<close>

definition base :: "BaseSystem \<Rightarrow> nat" where
  "base b = length (characters b)"

definition charMap_has :: "BaseSystem \<Rightarrow> char \<Rightarrow> bool" where
  "charMap_has b c = (c \<in> set (characters b))"

definition charMap_get :: "BaseSystem \<Rightarrow> char \<Rightarrow> nat" where
  "charMap_get b c = length (takeWhile (\<lambda>d. d \<noteq> c) (characters b))"

text \<open>
  Modelled from the spec: \<^verbatim>\<open>BaseSystem.isValidString\<close> of the number library, which is
  not under src/. Section 4.A: the predicate that the decoders use to test a candidate run
  of digits. As the tests of the library pin it down (bases.test.js, \<open>isValidString
  Method\<close>), it accepts one optional leading minus sign, rejects the empty string and a
  lone minus sign, and wants every other character to be a digit of the base.
\<close>

definition isValidString :: "BaseSystem \<Rightarrow> string \<Rightarrow> bool" where
  "isValidString b s =
     (let cleanStr = (if prefix ''-'' s then tl s else s)
      in cleanStr \<noteq> [] \<and> list_all (charMap_has b) cleanStr)"

definition digitsValue :: "BaseSystem \<Rightarrow> string \<Rightarrow> nat" where
  "digitsValue b s = foldl (\<lambda>acc c. acc * base b + charMap_get b c) 0 s"

text \<open>
  Modelled from the spec: \<^verbatim>\<open>BaseSystem.toDecimal\<close> of the number library, which is not
  under src/. Section 4.A: it strips an optional leading minus sign, rejects the empty
  string, maps each digit through the forward table and accumulates in the base, and fails
  on the first character that is not a digit of the base.
\<close>

definition toDecimal :: "BaseSystem \<Rightarrow> string \<Rightarrow> int result" where
  "toDecimal b s =
     (let negative = prefix ''-'' s;
          digits = (if negative then tl s else s)
      in if digits = [] then Inl (Error ''Empty string'')
         else if \<not> list_all (charMap_has b) digits then Inl (Error ''Invalid character'')
         else Inr ((if negative then - 1 else 1) * int (digitsValue b digits)))"

text \<open>
  Modelled from the spec: the preset \<^verbatim>\<open>BaseSystem.DECIMAL\<close> of the number library
  (section 4.A, digits \<open>0-9\<close>).
\<close>

definition DECIMAL :: BaseSystem where
  "DECIMAL = \<lparr>name = ''Decimal'', characters = ''0123456789''\<rparr>"

text \<open>
  The prefix registry is process-wide mutable state of the library; a parse only reads it,
  so it is a parameter: \<^verbatim>\<open>BaseSystem.getSystemForPrefix\<close>.
\<close>

type_synonym registry = "char \<Rightarrow> BaseSystem option"

definition toRational :: "int \<Rightarrow> rat" where
  "toRational z = of_int z"

text \<open>
  Modelled from the spec: the constructor \<^verbatim>\<open>new RationalInterval(a, b)\<close> of the number
  library. Section 3: both endpoints are rationals and the constructor swaps them if
  given reversed. A fresh object carries no marker.
\<close>

definition newRationalInterval :: "rat \<Rightarrow> rat \<Rightarrow> value" where
  "newRationalInterval a b = RationalInterval (min a b) (max a b) False False"

text \<open>The value of a scalar; an interval has none.\<close>

fun scalarOf :: "value \<Rightarrow> rat option" where
  "scalarOf (Integer z) = Some (of_int z)"
| "scalarOf (Rational r ef) = Some r"
| "scalarOf (RationalInterval lo hi ei sp) = None"

fun isInteger :: "value \<Rightarrow> bool" where
  "isInteger (Integer z) = True"
| "isInteger _ = False"

fun isInterval :: "value \<Rightarrow> bool" where
  "isInterval (RationalInterval lo hi ei sp) = True"
| "isInterval _ = False"

text \<open>An operand of interval arithmetic: an interval as it is, a scalar as a point.\<close>

fun boundsOf :: "value \<Rightarrow> rat \<times> rat" where
  "boundsOf (Integer z) = (of_int z, of_int z)"
| "boundsOf (Rational r ef) = (r, r)"
| "boundsOf (RationalInterval lo hi ei sp) = (lo, hi)"

definition intervalHull :: "rat list \<Rightarrow> value" where
  "intervalHull xs = RationalInterval (Min (set xs)) (Max (set xs)) False False"

text \<open>
  Modelled from the spec: the arithmetic of the number library (section 6), which is not
  under src/. Integer, Rational and RationalInterval support add, subtract, multiply and
  divide; the result is an Integer when both operands are Integers (for a division, when
  it is exact), an interval by the standard interval rules when an operand is an interval,
  and a reduced Rational otherwise. Dividing by zero, or by an interval that contains
  zero, is an error. Results are fresh objects and carry no marker.
\<close>

definition value_add :: "value \<Rightarrow> value \<Rightarrow> value result" where
  "value_add a b =
     (case (a, b) of
        (Integer x, Integer y) \<Rightarrow> Inr (Integer (x + y))
      | _ \<Rightarrow>
        (case (scalarOf a, scalarOf b) of
           (Some x, Some y) \<Rightarrow> Inr (Rational (x + y) False)
         | _ \<Rightarrow> (let (al, ah) = boundsOf a; (bl, bh) = boundsOf b
                 in Inr (RationalInterval (al + bl) (ah + bh) False False))))"

definition value_subtract :: "value \<Rightarrow> value \<Rightarrow> value result" where
  "value_subtract a b =
     (case (a, b) of
        (Integer x, Integer y) \<Rightarrow> Inr (Integer (x - y))
      | _ \<Rightarrow>
        (case (scalarOf a, scalarOf b) of
           (Some x, Some y) \<Rightarrow> Inr (Rational (x - y) False)
         | _ \<Rightarrow> (let (al, ah) = boundsOf a; (bl, bh) = boundsOf b
                 in Inr (RationalInterval (al - bh) (ah - bl) False False))))"

definition value_multiply :: "value \<Rightarrow> value \<Rightarrow> value result" where
  "value_multiply a b =
     (case (a, b) of
        (Integer x, Integer y) \<Rightarrow> Inr (Integer (x * y))
      | _ \<Rightarrow>
        (case (scalarOf a, scalarOf b) of
           (Some x, Some y) \<Rightarrow> Inr (Rational (x * y) False)
         | _ \<Rightarrow> (let (al, ah) = boundsOf a; (bl, bh) = boundsOf b
                 in Inr (intervalHull [al * bl, al * bh, ah * bl, ah * bh]))))"

definition value_divide :: "value \<Rightarrow> value \<Rightarrow> value result" where
  "value_divide a b =
     (case (scalarOf a, scalarOf b) of
        (Some x, Some y) \<Rightarrow>
          if y = 0 then Inl (Error ''Division by zero'')
          else if isInteger a \<and> isInteger b \<and> denominator (x / y) = 1
          then Inr (Integer (numerator (x / y)))
          else Inr (Rational (x / y) False)
      | _ \<Rightarrow> (let (al, ah) = boundsOf a; (bl, bh) = boundsOf b
              in if bl \<le> 0 \<and> 0 \<le> bh then Inl (Error ''Division by zero'')
                 else Inr (intervalHull [al / bl, al / bh, ah / bl, ah / bh])))"

text \<open>
  Modelled from the spec: \<^verbatim>\<open>Integer.factorial\<close> and \<^verbatim>\<open>Integer.doubleFactorial\<close> of
  the number library. Section 7 (NegativeFactorial): \<open>n!\<close> and \<open>n!!\<close> with \<open>n < 0\<close> are an
  error; the tests of the parser expect the messages below for \<open>(-1)!\<close> and \<open>(-1)!!\<close>.
\<close>

fun doubleFact :: "nat \<Rightarrow> nat" where
  "doubleFact 0 = 1"
| "doubleFact (Suc 0) = 1"
| "doubleFact (Suc (Suc n)) = Suc (Suc n) * doubleFact n"

definition Integer_factorial :: "int \<Rightarrow> int result" where
  "Integer_factorial z =
     (if z < 0 then Inl (Error ''Factorial is not defined for negative integers'')
      else Inr (int (fact (nat z))))"

definition Integer_doubleFactorial :: "int \<Rightarrow> int result" where
  "Integer_doubleFactorial z =
     (if z < 0 then Inl (Error ''Double factorial is not defined for negative integers'')
      else Inr (int (doubleFact (nat z))))"


section \<open>parseBaseNotation\<close>

text \<open>
  Double quotes inside an error message are left out. The test
  \<^verbatim>\<open>/\[[0-9a-zA-Z]+\]$/\<close> for the deprecated bracket notation reads the string from
  its end.
\<close>

definition isAlnum :: "char \<Rightarrow> bool" where
  "isAlnum c = (isLetter c \<or> isDigit c)"

definition hasBracketBaseSuffix :: "string \<Rightarrow> bool" where
  "hasBracketBaseSuffix s =
     (case rev s of
        [] \<Rightarrow> False
      | c # r \<Rightarrow> c = CHR '']'' \<and> takeWhile isAlnum r \<noteq> [] \<and> prefix ''['' (dropWhile isAlnum r))"

text \<open>
  \<^verbatim>\<open>options.typeAware && result.denominator === 1n ? new Integer(result.numerator) : result\<close>
\<close>

definition integerIfTypeAware :: "options \<Rightarrow> rat \<Rightarrow> value" where
  "integerIfTypeAware opts r =
     (if typeAware opts \<and> denominator r = 1 then Integer (numerator r) else Rational r False)"

text \<open>The prefix \<^verbatim>\<open>0<letter>\<close>: the base system to go on with and the rest of the text.\<close>

definition resolvePrefix :: "registry \<Rightarrow> string \<Rightarrow> BaseSystem \<Rightarrow> (BaseSystem \<times> string) result" where
  "resolvePrefix reg numberStr baseSystem =
     (case numberStr of
        z # p # rest \<Rightarrow>
          if z = CHR ''0'' \<and> isLetter p then
            (case reg p of
               Some registeredBase \<Rightarrow> Inr (registeredBase, rest)
             | None \<Rightarrow>
                 if p = CHR ''D'' then Inr (baseSystem, rest)
                 else if toLowerChar p \<noteq> CHR ''e''
                 then Inl (Error ''Invalid or unregistered prefix '')
                 else Inr (baseSystem, numberStr))
          else Inr (baseSystem, numberStr)
      | _ \<Rightarrow> Inr (baseSystem, numberStr))"

text \<open>
  Where the scientific part starts and how long its marker is: \<^verbatim>\<open>_^\<close> in any base,
  else \<^verbatim>\<open>E\<close> or \<^verbatim>\<open>e\<close> in base 10.
\<close>

definition findENotation :: "string \<Rightarrow> BaseSystem \<Rightarrow> (nat \<times> nat) option" where
  "findENotation numberStr baseSystem =
     (case indexOf numberStr ''_^'' of
        Some explicitSciIndex \<Rightarrow> Some (explicitSciIndex, 2)
      | None \<Rightarrow>
          if base baseSystem = 10 then
            (case indexOf (toUpperCase numberStr) ''E'' of
               Some eIndex \<Rightarrow> Some (eIndex, 1)
             | None \<Rightarrow> None)
          else None)"

definition normalizeCase :: "BaseSystem \<Rightarrow> string \<Rightarrow> string" where
  "normalizeCase baseSystem s =
     (if base baseSystem \<le> 36 \<and> base baseSystem > 10 then
        (let usesLowercase = list_ex isLower (characters baseSystem);
             usesUppercase = list_ex isUpper (characters baseSystem)
         in if usesLowercase \<and> \<not> usesUppercase then toLowerCase s
            else if usesUppercase \<and> \<not> usesLowercase then toUpperCase s
            else s)
      else s)"

text \<open>
  The branches of parseBaseNotation. \<open>self\<close> is the recursive call (with the same
  options).
\<close>

definition pbn_eNotation ::
  "(string \<Rightarrow> BaseSystem \<Rightarrow> value result) \<Rightarrow> BaseSystem \<Rightarrow> options \<Rightarrow> bool \<Rightarrow> string \<Rightarrow> string \<Rightarrow> value result" where
  "pbn_eNotation self baseSystem opts isNegative baseNumber exponentStr =
     rbind (self baseNumber baseSystem) (\<lambda>baseValue.
     rbind (if prefix ''-'' exponentStr
            then rbind (toDecimal baseSystem (tl exponentStr)) (\<lambda>positiveExponent. Inr (- positiveExponent))
            else toDecimal baseSystem exponentStr) (\<lambda>exponentDecimal.
       let baseBigInt = int (base baseSystem);
           powerOfBase = (if exponentDecimal \<ge> 0 then of_int (baseBigInt ^ nat exponentDecimal)
                          else 1 / of_int (baseBigInt ^ nat (- exponentDecimal)))
       in case scalarOf baseValue of
            None \<Rightarrow> Inl (Error ''E notation can only be applied to simple numbers, not intervals'')
          | Some baseRational \<Rightarrow>
              let result = baseRational * powerOfBase;
                  result = (if isNegative then - result else result)
              in Inr (integerIfTypeAware opts result)))"

definition intervalEndpoint :: "value \<Rightarrow> rat result" where
  "intervalEndpoint v =
     (case v of
        Integer z \<Rightarrow> Inr (toRational z)
      | Rational r ef \<Rightarrow> Inr r
      | RationalInterval lo hi ei sp \<Rightarrow>
          if lo = hi then Inr lo
          else Inl (Error ''Interval endpoints must be single values, not intervals''))"

fun markExplicitInterval :: "value \<Rightarrow> value" where
  "markExplicitInterval (RationalInterval lo hi ei sp) = RationalInterval lo hi True sp"
| "markExplicitInterval v = v"

definition pbn_interval ::
  "(string \<Rightarrow> BaseSystem \<Rightarrow> value result) \<Rightarrow> BaseSystem \<Rightarrow> bool \<Rightarrow> string \<Rightarrow> value result" where
  "pbn_interval self baseSystem isNegative baseNumber =
     (case split_char CHR '':'' baseNumber of
        [p0, p1] \<Rightarrow>
          let leftStr = (if isNegative then ''-'' @ trim p0 else trim p0) in
          rbind (self leftStr baseSystem) (\<lambda>leftValue.
          rbind (self (trim p1) baseSystem) (\<lambda>rightValue.
          rbind (intervalEndpoint leftValue) (\<lambda>leftRational.
          rbind (intervalEndpoint rightValue) (\<lambda>rightRational.
            Inr (markExplicitInterval (newRationalInterval leftRational rightRational))))))
      | _ \<Rightarrow> Inl (Error ''Base notation intervals must have exactly two endpoints separated by :''))"

definition pbn_mixed ::
  "(string \<Rightarrow> BaseSystem \<Rightarrow> value result) \<Rightarrow> BaseSystem \<Rightarrow> options \<Rightarrow> bool \<Rightarrow> string \<Rightarrow> value result" where
  "pbn_mixed self baseSystem opts isNegative baseNumber =
     (case split_str ''..'' baseNumber of
        [p0, p1] \<Rightarrow>
          let wholePart = trim p0; fractionPart = trim p1 in
          if \<not> includes_str fractionPart ''/''
          then Inl (Error ''Mixed number fractional part must contain /'')
          else
            rbind (toDecimal baseSystem wholePart) (\<lambda>wholeDecimal.
              let wholeRational = (if isNegative then - of_int wholeDecimal else of_int wholeDecimal) in
              rbind (self fractionPart baseSystem) (\<lambda>fractionResult.
                case scalarOf fractionResult of
                  None \<Rightarrow> Inl (Error ''Mixed number fractional part must be a simple fraction'')
                | Some fractionRational \<Rightarrow>
                    if numerator wholeRational < 0
                    then Inr (integerIfTypeAware opts (wholeRational - abs fractionRational))
                    else Inr (integerIfTypeAware opts (wholeRational + fractionRational))))
      | _ \<Rightarrow> Inl (Error ''Mixed number notation must have exactly one .. separator''))"

definition pbn_fraction ::
  "(string \<Rightarrow> BaseSystem \<Rightarrow> value result) \<Rightarrow> BaseSystem \<Rightarrow> bool \<Rightarrow> string \<Rightarrow> value result" where
  "pbn_fraction self baseSystem isNegative baseNumber =
     (case split_char CHR ''/'' baseNumber of
        [p0, p1] \<Rightarrow>
          rbind (self (trim p0) baseSystem) (\<lambda>numeratorResult.
          rbind (self (trim p1) baseSystem) (\<lambda>denominatorResult.
            case (scalarOf numeratorResult, scalarOf denominatorResult) of
              (Some numRat, Some denRat) \<Rightarrow>
                if numerator denRat = 0 then Inl (Error ''Denominator cannot be zero'')
                else let result = numRat / denRat;
                         result = (if isNegative then - result else result)
                     in Inr (Rational result True)
            | _ \<Rightarrow> Inl Unmodelled))
      | _ \<Rightarrow> Inl (Error ''Fraction notation must have exactly one / separator''))"

definition pbn_decimal :: "BaseSystem \<Rightarrow> options \<Rightarrow> bool \<Rightarrow> string \<Rightarrow> value result" where
  "pbn_decimal baseSystem opts isNegative baseNumber =
     (case split_char CHR ''.'' baseNumber of
        [p0, p1] \<Rightarrow>
          let integerPart = orElse p0 ''0'';
              fractionalPart = orElse p1 '''';
              fullStr = integerPart @ fractionalPart
          in if \<not> isValidString baseSystem fullStr
             then Inl (Error ''String '')
             else
               rbind (toDecimal baseSystem integerPart) (\<lambda>integerDecimal.
                 let baseBigInt = int (base baseSystem);
                     fractionalDecimal = int (digitsValue baseSystem fractionalPart);
                     denom = baseBigInt ^ length fractionalPart;
                     totalNumerator = integerDecimal * denom + fractionalDecimal;
                     result = of_int totalNumerator / of_int denom;
                     result = (if isNegative then - result else result)
                 in Inr (integerIfTypeAware opts result))
      | _ \<Rightarrow> Inl (Error ''Decimal notation must have exactly one . separator''))"

definition pbn_integer :: "BaseSystem \<Rightarrow> options \<Rightarrow> bool \<Rightarrow> string \<Rightarrow> value result" where
  "pbn_integer baseSystem opts isNegative baseNumber =
     (if \<not> isValidString baseSystem baseNumber then Inl (Error ''String '')
      else
        rbind (toDecimal baseSystem baseNumber) (\<lambda>decimalValue.
          let decimalValue = (if isNegative then - decimalValue else decimalValue)
          in if typeAware opts then Inr (Integer decimalValue)
             else Inr (Rational (of_int decimalValue) False)))"

definition parseBaseNotation_body ::
  "(string \<Rightarrow> BaseSystem \<Rightarrow> value result) \<Rightarrow> registry \<Rightarrow> string \<Rightarrow> BaseSystem \<Rightarrow> options \<Rightarrow> value result" where
  "parseBaseNotation_body self reg numberStr0 baseSystem0 opts =
     (if hasBracketBaseSuffix numberStr0
      then Inl (Error ''Bracket base notation (Value[Base]) is no longer supported. Use prefix notation (0xValue, 0bValue) or the BASE command.'')
      else
        let isNegative = prefix ''-'' numberStr0;
            numberStr1 = (if isNegative then tl numberStr0 else numberStr0)
        in rbind (resolvePrefix reg numberStr1 baseSystem0) (\<lambda>(baseSystem, numberStr).
             case findENotation numberStr baseSystem of
               Some (eNotationIndex, markerLength) \<Rightarrow>
                 let baseNumber = take eNotationIndex numberStr;
                     exponentStr = drop (eNotationIndex + markerLength) numberStr
                 in if \<not> isValidString baseSystem (remove1 CHR ''-'' exponentStr)
                    then Inl (Error ''Invalid exponent '')
                    else pbn_eNotation self baseSystem opts isNegative
                           (normalizeCase baseSystem baseNumber) (normalizeCase baseSystem exponentStr)
             | None \<Rightarrow>
                 let baseNumber = normalizeCase baseSystem numberStr
                 in if includes_str baseNumber '':'' then pbn_interval self baseSystem isNegative baseNumber
                    else if includes_str baseNumber ''..'' then pbn_mixed self baseSystem opts isNegative baseNumber
                    else if includes_str baseNumber ''/'' then pbn_fraction self baseSystem isNegative baseNumber
                    else if includes_str baseNumber ''.'' then pbn_decimal baseSystem opts isNegative baseNumber
                    else pbn_integer baseSystem opts isNegative baseNumber))"

text \<open>
  The recursion of parseBaseNotation goes through substrings; the model bounds its depth
  by a fuel argument.
\<close>

fun parseBaseNotation :: "nat \<Rightarrow> registry \<Rightarrow> string \<Rightarrow> BaseSystem \<Rightarrow> options \<Rightarrow> value result" where
  "parseBaseNotation 0 reg numberStr baseSystem opts = Inl OutOfFuel"
| "parseBaseNotation (Suc n) reg numberStr baseSystem opts =
     parseBaseNotation_body (\<lambda>s b. parseBaseNotation n reg s b opts) reg numberStr baseSystem opts"


section \<open>parseNonRepeatingDecimal and parseRepeatingDecimal\<close>

text \<open>
  \<^verbatim>\<open>str.split(".")\<close> followed by \<^verbatim>\<open>decimalParts[0]\<close> and \<^verbatim>\<open>decimalParts[1] || ""\<close>;
  \<open>None\<close> when there are more than two parts.
\<close>

definition decimalPartsOf :: "string \<Rightarrow> (string \<times> string) option" where
  "decimalPartsOf s =
     (case split_char CHR ''.'' s of
        [p0] \<Rightarrow> Some (p0, '''')
      | [p0, p1] \<Rightarrow> Some (p0, p1)
      | _ \<Rightarrow> None)"

text \<open>
  \<^verbatim>\<open>new Rational(integerPart)\<close> on a run of decimal digits is the integer it spells.
\<close>

definition parseNonRepeatingDecimal :: "string \<Rightarrow> bool \<Rightarrow> value result" where
  "parseNonRepeatingDecimal str isNegative =
     (case decimalPartsOf str of
        None \<Rightarrow> Inl (Error ''Invalid decimal format - multiple decimal points'')
      | Some (p0, p1) \<Rightarrow>
          let integerPart = orElse p0 ''0''; fractionalPart = p1 in
          if \<not> (integerPart \<noteq> [] \<and> list_all isDigit integerPart) \<or> \<not> list_all isDigit fractionalPart
          then Inl (Error ''Decimal must contain only digits and at most one decimal point'')
          else if fractionalPart = [] then
            (let rational = of_int (BigInt integerPart)
             in Inr (Rational (if isNegative then - rational else rational) False))
          else
            let lastDigitPlace = (10 :: int) ^ (length fractionalPart + 1);
                baseValue = BigInt (integerPart @ fractionalPart)
            in if isNegative then
                 (let lowerNumerator = - (baseValue * 10 + 5);
                      upperNumerator = - (baseValue * 10 - 5)
                  in Inr (newRationalInterval (of_int lowerNumerator / of_int lastDigitPlace)
                                              (of_int upperNumerator / of_int lastDigitPlace)))
               else
                 (let lowerNumerator = baseValue * 10 - 5;
                      upperNumerator = baseValue * 10 + 5
                  in Inr (newRationalInterval (of_int lowerNumerator / of_int lastDigitPlace)
                                              (of_int upperNumerator / of_int lastDigitPlace))))"

text \<open>The case \<^verbatim>\<open>repeatingPart === "0"\<close>, whose errors are caught and rethrown.\<close>

definition prd_terminating :: "string \<Rightarrow> bool \<Rightarrow> value result" where
  "prd_terminating nonRepeatingPart isNegative =
     catch
       (case decimalPartsOf nonRepeatingPart of
          None \<Rightarrow> Inl (Error ''Invalid decimal format - multiple decimal points'')
        | Some (p0, p1) \<Rightarrow>
            let integerPart = orElse p0 ''0''; fractionalPart = p1 in
            if \<not> list_all isDigit integerPart \<or> \<not> list_all isDigit fractionalPart
            then Inl (Error ''Decimal must contain only digits and at most one decimal point'')
            else
              let (num, den) = (if fractionalPart = [] then (BigInt integerPart, 1)
                                else (BigInt (integerPart @ fractionalPart), (10 :: int) ^ length fractionalPart));
                  rational = of_int num / of_int den
              in Inr (Rational (if isNegative then - rational else rational) False))
       (Inl (Error ''Invalid decimal format: ''))"

definition prd_repeating :: "string \<Rightarrow> string \<Rightarrow> bool \<Rightarrow> value result" where
  "prd_repeating nonRepeatingPart repeatingPart isNegative =
     (case decimalPartsOf nonRepeatingPart of
        None \<Rightarrow> Inl (Error ''Invalid decimal format - multiple decimal points'')
      | Some (p0, p1) \<Rightarrow>
          let integerPart = orElse p0 ''0''; fractionalPart = p1 in
          if \<not> list_all isDigit integerPart \<or> \<not> list_all isDigit fractionalPart
          then Inl (Error ''Non-repeating part must contain only digits and at most one decimal point'')
          else
            let n = length fractionalPart;
                m = length repeatingPart;
                abc = BigInt (integerPart @ fractionalPart @ repeatingPart);
                ab = BigInt (integerPart @ fractionalPart);
                powerOfTenN = (10 :: int) ^ n;
                powerOfTenM = (10 :: int) ^ m;
                den = powerOfTenN * (powerOfTenM - 1);
                num = abc - ab;
                result = of_int num / of_int den
            in Inr (Rational (if isNegative then - result else result) False))"

text \<open>
  \<^verbatim>\<open>new RationalInterval(a, b)\<close> on two parsed values; the library's behaviour when one
  of them is itself an interval is not modelled.
\<close>

definition intervalOfValues :: "value \<Rightarrow> value \<Rightarrow> value result" where
  "intervalOfValues a b =
     (case (scalarOf a, scalarOf b) of
        (Some x, Some y) \<Rightarrow> Inr (newRationalInterval x y)
      | _ \<Rightarrow> Inl Unmodelled)"

definition parseRepeatingDecimalInterval :: "(string \<Rightarrow> value result) \<Rightarrow> string \<Rightarrow> value result" where
  "parseRepeatingDecimalInterval prd str =
     (case split_char CHR '':'' str of
        [p0, p1] \<Rightarrow>
          rbind (prd (trim p0)) (\<lambda>leftEndpoint.
          rbind (prd (trim p1)) (\<lambda>rightEndpoint.
            if isInterval leftEndpoint \<or> isInterval rightEndpoint
            then Inl (Error ''Nested intervals are not supported'')
            else intervalOfValues leftEndpoint rightEndpoint))
      | _ \<Rightarrow> Inl (Error ''Invalid interval format. Use format like 0.#3:0.5#0''))"

text \<open>
  parseRepeatingDecimal, with its call of parseDecimalUncertainty (\<open>pdu\<close>) and its
  recursive call (\<open>prd\<close>) as parameters.
\<close>

definition parseRepeatingDecimal_body ::
  "(string \<Rightarrow> value result) \<Rightarrow> (string \<Rightarrow> value result) \<Rightarrow> string \<Rightarrow> value result" where
  "parseRepeatingDecimal_body prd pdu str0 =
     (if str0 = [] then Inl (Error ''Input must be a non-empty string'')
      else
        let str = trim str0 in
        if includes_str str ''['' \<and> includes_str str '']'' then pdu str
        else if includes_str str '':'' then parseRepeatingDecimalInterval prd str
        else
          let isNegative = prefix ''-'' str;
              str = (if isNegative then tl str else str)
          in if \<not> includes_str str ''#'' then parseNonRepeatingDecimal str isNegative
             else
               (case split_char CHR ''#'' str of
                  [nonRepeatingPart, repeatingPart] \<Rightarrow>
                    if \<not> (repeatingPart \<noteq> [] \<and> list_all isDigit repeatingPart)
                    then Inl (Error ''Repeating part must contain only digits'')
                    else if repeatingPart = ''0'' then prd_terminating nonRepeatingPart isNegative
                    else prd_repeating nonRepeatingPart repeatingPart isNegative
                | _ \<Rightarrow> Inl (Error ''Invalid repeating decimal format. Use format like 0.12#45'')))"

section \<open>parseDecimalUncertainty\<close>

text \<open>The options object \<^verbatim>\<open>{}\<close> of a call that passes none.\<close>

definition noOptions :: options where
  "noOptions = \<lparr>typeAware = False, allowIntegerRangeNotation = True, inputBase = Absent, precision = None\<rparr>"

definition parseRepeatingDecimalOrRegular ::
  "(string \<Rightarrow> value result) \<Rightarrow> nat \<Rightarrow> registry \<Rightarrow> string \<Rightarrow> BaseSystem \<Rightarrow> value result" where
  "parseRepeatingDecimalOrRegular prd n reg str baseSystem =
     (if includes_str str ''#'' then
        (case findENotation str baseSystem of
           Some (eNotationIndex, markerLength) \<Rightarrow>
             let repeatingPart = take eNotationIndex str;
                 exponentPart = drop (eNotationIndex + markerLength) str;
                 absExponentPart = (if prefix ''-'' exponentPart then tl exponentPart else exponentPart)
             in if \<not> isValidString baseSystem absExponentPart
                then Inl (Error '' notation exponent must be a valid integer in base '')
                else
                  rbind (prd repeatingPart) (\<lambda>baseValue.
                  rbind (toDecimal baseSystem exponentPart) (\<lambda>exponent.
                    let scaleBaseNum = (if markerLength = 1 then 10 else int (base baseSystem));
                        scaleBaseRatio = (of_int scaleBaseNum :: rat);
                        scale = (if exponent \<ge> 0 then scaleBaseRatio ^ nat exponent
                                 else 1 / scaleBaseRatio ^ nat (- exponent))
                    in value_multiply baseValue (Rational scale False)))
         | None \<Rightarrow> prd str)
      else parseBaseNotation n reg str baseSystem noOptions)"

definition parseDecimalPointEndpoint ::
  "(string \<Rightarrow> value result) \<Rightarrow> nat \<Rightarrow> registry \<Rightarrow> string \<Rightarrow> string \<Rightarrow> BaseSystem \<Rightarrow> options \<Rightarrow> value result" where
  "parseDecimalPointEndpoint prd n reg baseStr endpointStr baseSystem opts =
     (if prefix ''#'' endpointStr then prd (baseStr @ endpointStr)
      else
        catch
          (rbind (parseBaseNotation n reg (baseStr @ endpointStr) baseSystem (opts\<lparr>typeAware := True\<rparr>))
             (\<lambda>result. case result of Integer z \<Rightarrow> Inr (Rational (toRational z) False) | _ \<Rightarrow> Inr result))
          (Inl (Error ''Invalid endpoint format: '')))"

definition parseDecimalPointUncertainty ::
  "(string \<Rightarrow> value result) \<Rightarrow> nat \<Rightarrow> registry \<Rightarrow> string \<Rightarrow> string \<Rightarrow> BaseSystem \<Rightarrow> options \<Rightarrow> value result" where
  "parseDecimalPointUncertainty prd n reg baseStr uncertaintyStr baseSystem opts =
     (if includes_str uncertaintyStr '','' \<or> includes_str uncertaintyStr '':'' then
        (case splitRangeParts uncertaintyStr of
           [p0, p1] \<Rightarrow>
             rbind (parseDecimalPointEndpoint prd n reg baseStr (trim p0) baseSystem opts) (\<lambda>lowerBound.
             rbind (parseDecimalPointEndpoint prd n reg baseStr (trim p1) baseSystem opts) (\<lambda>upperBound.
               intervalOfValues lowerBound upperBound))
         | _ \<Rightarrow> Inl (Error ''Range notation must have exactly two values separated by colon or comma''))
      else Inl (Error ''Invalid uncertainty format for decimal point notation''))"

text \<open>
  The regular expression of parseDecimalUncertainty,
  \<^verbatim>\<open>^(-?[@\w./:^]+)\[([^\]]+)\]((?:[Ee][+-]?[\w]+|\_?\^-?[\w]+)?)$\<close>:
  none of its three groups can hold the character that ends it, so the match is found by
  reading from the left.
\<close>

definition isUncertaintyBaseChar :: "char \<Rightarrow> bool" where
  "isUncertaintyBaseChar c = (c = CHR ''@'' \<or> isWordChar c \<or> c \<in> set ''./:^'')"

definition stripOne :: "(char \<Rightarrow> bool) \<Rightarrow> string \<Rightarrow> string" where
  "stripOne p s = (case s of [] \<Rightarrow> [] | c # r \<Rightarrow> if p c then r else s)"

definition trailingMatch :: "string \<Rightarrow> bool" where
  "trailingMatch t =
     (case t of
        [] \<Rightarrow> False
      | c # t1 \<Rightarrow>
          if c = CHR ''E'' \<or> c = CHR ''e'' then
            (let t2 = stripOne (\<lambda>d. d = CHR ''+'' \<or> d = CHR ''-'') t1
             in t2 \<noteq> [] \<and> list_all isWordChar t2)
          else
            (case stripOne (\<lambda>d. d = CHR ''_'') t of
               [] \<Rightarrow> False
             | h # t2 \<Rightarrow>
                 h = CHR ''^'' \<and>
                 (let t3 = stripOne (\<lambda>d. d = CHR ''-'') t2
                  in t3 \<noteq> [] \<and> list_all isWordChar t3)))"

definition uncertaintyMatch :: "string \<Rightarrow> (string \<times> string \<times> string) option" where
  "uncertaintyMatch str =
     (let sg = (if prefix ''-'' str then ''-'' else '''');
          r = drop (length sg) str;
          b = takeWhile isUncertaintyBaseChar r;
          r1 = dropWhile isUncertaintyBaseChar r
      in if b = [] then None
         else case r1 of
           [] \<Rightarrow> None
         | c # r2 \<Rightarrow>
             if c \<noteq> CHR ''['' then None
             else
               let u = takeWhile (\<lambda>d. d \<noteq> CHR '']'') r2;
                   r3 = dropWhile (\<lambda>d. d \<noteq> CHR '']'') r2
               in if u = [] then None
                  else case r3 of
                    [] \<Rightarrow> None
                  | d # trailing \<Rightarrow>
                      if trailing = [] \<or> trailingMatch trailing then Some (sg @ b, u, trailing)
                      else None)"

text \<open>\<^verbatim>\<open>baseStr.match(/^(-?[\w./:^]+\.)$/)\<close>\<close>

definition afterDecimalMatch :: "string \<Rightarrow> bool" where
  "afterDecimalMatch baseStr =
     (let b = stripOne (\<lambda>d. d = CHR ''-'') baseStr
      in length b \<ge> 2 \<and> list_all (\<lambda>c. isWordChar c \<or> c \<in> set ''./:^'') b \<and> last b = CHR ''.'')"

text \<open>
  \<^verbatim>\<open>baseStr.match(/\.([\w^/_]+)$/)\<close> and the length of its group, 0 without a match:
  only the last dot can start a match.
\<close>

definition baseDecimalPlacesOf :: "string \<Rightarrow> nat" where
  "baseDecimalPlacesOf baseStr =
     (let tail = rev (takeWhile (\<lambda>c. c \<noteq> CHR ''.'') (rev baseStr))
      in if CHR ''.'' \<in> set baseStr \<and> tail \<noteq> [] \<and> list_all (\<lambda>c. isWordChar c \<or> c \<in> set ''^/'') tail
         then length tail else 0)"

definition hasConfusingENotation :: "BaseSystem \<Rightarrow> string \<Rightarrow> bool" where
  "hasConfusingENotation inputBaseSys baseStr =
     ((base inputBaseSys = 10 \<and> (includes_str baseStr ''E'' \<or> includes_str baseStr ''e''))
      \<or> includes_str baseStr ''_^'')"

definition isValidForBase :: "BaseSystem \<Rightarrow> string \<Rightarrow> bool" where
  "isValidForBase inputBaseSys s =
     (if isValidString inputBaseSys (remove1 CHR ''.'' s) then True
      else if base inputBaseSys \<le> 36 then isValidString inputBaseSys (toLowerCase (remove1 CHR ''.'' s))
      else False)"

definition integerToRational :: "value \<Rightarrow> value" where
  "integerToRational v = (case v of Integer z \<Rightarrow> Rational (toRational z) False | _ \<Rightarrow> v)"

definition pdu_range ::
  "nat \<Rightarrow> registry \<Rightarrow> string \<Rightarrow> string \<Rightarrow> nat \<Rightarrow> bool \<Rightarrow> BaseSystem \<Rightarrow> options \<Rightarrow> value result" where
  "pdu_range n reg baseStr uncertaintyStr baseDecimalPlaces allowIntegerRange inputBaseSys opts =
     (if baseDecimalPlaces = 0 \<and> \<not> allowIntegerRange
      then Inl (Error ''Range notation on integer bases is not supported in this context'')
      else case splitRangeParts uncertaintyStr of
        [p0, p1] \<Rightarrow>
          let lowerUncertainty = trim p0; upperUncertainty = trim p1 in
          if hasConfusingENotation inputBaseSys baseStr
          then Inl (Error ''Uncertainty notation cannot be used with scientific notation in the base value'')
          else if \<not> isValidForBase inputBaseSys lowerUncertainty \<or> \<not> isValidForBase inputBaseSys upperUncertainty
          then Inl (Error ''Range values must be valid for base '')
          else
            rbind (parseBaseNotation n reg (baseStr @ lowerUncertainty) inputBaseSys (opts\<lparr>typeAware := True\<rparr>))
              (\<lambda>lowerBoundResult.
            rbind (parseBaseNotation n reg (baseStr @ upperUncertainty) inputBaseSys (opts\<lparr>typeAware := True\<rparr>))
              (\<lambda>upperBoundResult.
                case (scalarOf (integerToRational lowerBoundResult), scalarOf (integerToRational upperBoundResult)) of
                  (Some lowerBound, Some upperBound) \<Rightarrow>
                    if lowerBound > upperBound then Inr (newRationalInterval upperBound lowerBound)
                    else Inr (newRationalInterval lowerBound upperBound)
                | _ \<Rightarrow> Inl Unmodelled))
      | _ \<Rightarrow> Inl (Error ''Range notation must have exactly two values separated by colon or comma''))"

definition pdu_symmetric ::
  "(string \<Rightarrow> value result) \<Rightarrow> nat \<Rightarrow> registry \<Rightarrow> string \<Rightarrow> value \<Rightarrow> string \<Rightarrow> nat \<Rightarrow> BaseSystem \<Rightarrow> value result" where
  "pdu_symmetric prd n reg baseStr baseValue uncertaintyStr baseDecimalPlaces inputBaseSys =
     (let offsetStr = drop 2 uncertaintyStr in
      if offsetStr = [] then Inl (Error ''Symmetric notation must have a valid number after +- or -+'')
      else
        let isRepeating = prefix ''#'' offsetStr in
        rbind (parseRepeatingDecimalOrRegular prd n reg offsetStr inputBaseSys) (\<lambda>offset.
          let baseVal = int (base inputBaseSys) in
          if baseDecimalPlaces = 0 \<and> \<not> includes_str baseStr ''.'' then
            rbind (value_add baseValue offset) (\<lambda>upperBound.
            rbind (value_subtract baseValue offset) (\<lambda>lowerBound.
              intervalOfValues lowerBound upperBound))
          else
            let scalePower = (if isRepeating then baseDecimalPlaces else baseDecimalPlaces + 1);
                nextPlaceScale = 1 / (of_int baseVal :: rat) ^ scalePower
            in rbind (value_multiply offset (Rational nextPlaceScale False)) (\<lambda>scaledOffset.
               rbind (value_add baseValue scaledOffset) (\<lambda>upperBound.
               rbind (value_subtract baseValue scaledOffset) (\<lambda>lowerBound.
                 intervalOfValues lowerBound upperBound)))))"

text \<open>The \<^verbatim>\<open>for (const part of relativeParts)\<close> loop, on the two offsets found so far.\<close>

fun relativeOffsets ::
  "(string \<Rightarrow> value result) \<Rightarrow> nat \<Rightarrow> registry \<Rightarrow> BaseSystem \<Rightarrow> string list \<Rightarrow> value option \<Rightarrow> value option
     \<Rightarrow> (value option \<times> value option) result" where
  "relativeOffsets prd n reg inputBaseSys [] positiveOffset negativeOffset = Inr (positiveOffset, negativeOffset)"
| "relativeOffsets prd n reg inputBaseSys (part # parts) positiveOffset negativeOffset =
     (if prefix ''+'' part then
        (if positiveOffset \<noteq> None then Inl (Error ''Only one positive offset allowed'')
         else if tl part = [] then Inl (Error ''Offset must be a valid number'')
         else rbind (parseRepeatingDecimalOrRegular prd n reg (tl part) inputBaseSys) (\<lambda>v.
                relativeOffsets prd n reg inputBaseSys parts (Some v) negativeOffset))
      else if prefix ''-'' part then
        (if negativeOffset \<noteq> None then Inl (Error ''Only one negative offset allowed'')
         else if tl part = [] then Inl (Error ''Offset must be a valid number'')
         else rbind (parseRepeatingDecimalOrRegular prd n reg (tl part) inputBaseSys) (\<lambda>v.
                relativeOffsets prd n reg inputBaseSys parts positiveOffset (Some v)))
      else Inl (Error ''Relative notation values must start with + or -''))"

definition pdu_relative ::
  "(string \<Rightarrow> value result) \<Rightarrow> nat \<Rightarrow> registry \<Rightarrow> string \<Rightarrow> value \<Rightarrow> string \<Rightarrow> nat \<Rightarrow> BaseSystem \<Rightarrow> value result" where
  "pdu_relative prd n reg baseStr baseValue uncertaintyStr baseDecimalPlaces inputBaseSys =
     (let relativeParts = map trim (splitRangeParts uncertaintyStr) in
      if length relativeParts > 2 \<or> length relativeParts = 0
      then Inl (Error ''Relative notation must have one or two values separated by colon or comma'')
      else if hasConfusingENotation inputBaseSys baseStr
      then Inl (Error ''Uncertainty notation cannot be used with scientific notation in the base value'')
      else
        rbind (relativeOffsets prd n reg inputBaseSys relativeParts None None) (\<lambda>(pos, neg).
          let positiveOffset = (case pos of None \<Rightarrow> Integer 0 | Some v \<Rightarrow> v);
              negativeOffset = (case neg of None \<Rightarrow> Integer 0 | Some v \<Rightarrow> v);
              baseVal = int (base inputBaseSys)
          in if baseDecimalPlaces = 0 \<and> \<not> includes_str baseStr ''.'' then
               rbind (value_add baseValue positiveOffset) (\<lambda>upperBound.
               rbind (value_subtract baseValue negativeOffset) (\<lambda>lowerBound.
                 intervalOfValues lowerBound upperBound))
             else
               let posPart = find (prefix ''+'') relativeParts;
                   negPart = find (prefix ''-'') relativeParts;
                   posIsRepeating = (case posPart of None \<Rightarrow> False | Some p \<Rightarrow> prefix ''#'' (tl p));
                   negIsRepeating = (case negPart of None \<Rightarrow> False | Some p \<Rightarrow> prefix ''#'' (tl p));
                   posScalePower = (if posIsRepeating then baseDecimalPlaces else baseDecimalPlaces + 1);
                   negScalePower = (if negIsRepeating then baseDecimalPlaces else baseDecimalPlaces + 1);
                   posScale = 1 / (of_int baseVal :: rat) ^ posScalePower;
                   negScale = 1 / (of_int baseVal :: rat) ^ negScalePower
               in rbind (value_multiply positiveOffset (Rational posScale False)) (\<lambda>scaledPositiveOffset.
                  rbind (value_multiply negativeOffset (Rational negScale False)) (\<lambda>scaledNegativeOffset.
                  rbind (value_add baseValue scaledPositiveOffset) (\<lambda>upperBound.
                  rbind (value_subtract baseValue scaledNegativeOffset) (\<lambda>lowerBound.
                    intervalOfValues lowerBound upperBound))))))"

definition inputBaseOf :: "options \<Rightarrow> BaseSystem" where
  "inputBaseOf opts = (case inputBase opts of Absent \<Rightarrow> DECIMAL | DecimalObject \<Rightarrow> DECIMAL | Other b \<Rightarrow> b)"

definition parseDecimalUncertainty ::
  "(string \<Rightarrow> value result) \<Rightarrow> nat \<Rightarrow> registry \<Rightarrow> string \<Rightarrow> options \<Rightarrow> value result" where
  "parseDecimalUncertainty prd n reg str opts =
     (let allowIntegerRange = allowIntegerRangeNotation opts;
          inputBaseSys = inputBaseOf opts
      in case uncertaintyMatch str of
        None \<Rightarrow> Inl (Error ''Invalid uncertainty format'')
      | Some (baseStr, uncertaintyStr, trailingPart) \<Rightarrow>
          let finalize = (\<lambda>interval.
                if trailingPart \<noteq> [] then
                  rbind (parseRepeatingDecimalOrRegular prd n reg (''1'' @ trailingPart) inputBaseSys)
                    (\<lambda>multiplier. value_multiply interval multiplier)
                else Inr interval)
          in if afterDecimalMatch baseStr \<and> \<not> includes_str uncertaintyStr ''+''
                \<and> \<not> includes_str uncertaintyStr ''-''
             then rbind (parseDecimalPointUncertainty prd n reg baseStr uncertaintyStr inputBaseSys opts) finalize
             else
               rbind (parseBaseNotation n reg baseStr inputBaseSys (opts\<lparr>typeAware := True\<rparr>)) (\<lambda>baseValue.
                 let baseDecimalPlaces = baseDecimalPlacesOf baseStr in
                 rbind
                   (if (includes_str uncertaintyStr '','' \<or> includes_str uncertaintyStr '':'')
                       \<and> \<not> includes_str uncertaintyStr ''+'' \<and> \<not> includes_str uncertaintyStr ''-''
                    then pdu_range n reg baseStr uncertaintyStr baseDecimalPlaces allowIntegerRange inputBaseSys opts
                    else if prefix ''+-'' uncertaintyStr \<or> prefix ''-+'' uncertaintyStr
                    then pdu_symmetric prd n reg baseStr baseValue uncertaintyStr baseDecimalPlaces inputBaseSys
                    else pdu_relative prd n reg baseStr baseValue uncertaintyStr baseDecimalPlaces inputBaseSys)
                   finalize))"

text \<open>
  parseRepeatingDecimal calls parseDecimalUncertainty with
  \<^verbatim>\<open>{ allowIntegerRangeNotation: false }\<close>, and is called back by it; the fuel bounds
  the depth of this recursion and of parseBaseNotation.
\<close>

definition repeatingDecimalOptions :: options where
  "repeatingDecimalOptions =
     \<lparr>typeAware = False, allowIntegerRangeNotation = False, inputBase = Absent, precision = None\<rparr>"

fun parseRepeatingDecimal :: "nat \<Rightarrow> registry \<Rightarrow> string \<Rightarrow> value result" where
  "parseRepeatingDecimal 0 reg str = Inl OutOfFuel"
| "parseRepeatingDecimal (Suc n) reg str =
     parseRepeatingDecimal_body (parseRepeatingDecimal n reg)
       (\<lambda>s. parseDecimalUncertainty (parseRepeatingDecimal n reg) n reg s repeatingDecimalOptions) str"


section \<open>The value of a repeating decimal, as the specification gives it\<close>

text \<open>
  Section 4.B.3: for the literal \<open>integer.fractional#repeat\<close> the value is
  \<open>(concat(integer, fractional, repeat) - concat(integer, fractional)) /
  (10^(len fractional + len repeat) - 10^(len fractional))\<close>, and \<open>repeat = 0\<close> gives the
  terminating decimal \<open>integer.fractional\<close>.
\<close>

definition repeatingDecimalValue :: "string \<Rightarrow> string \<Rightarrow> string \<Rightarrow> rat" where
  "repeatingDecimalValue ip fp rp =
     (if rp = ''0'' then of_int (BigInt (ip @ fp)) / 10 ^ length fp
      else (of_int (BigInt (ip @ fp @ rp)) - of_int (BigInt (ip @ fp)))
             / (10 ^ (length fp + length rp) - 10 ^ length fp))"


section \<open>The scale of a symmetric offset\<close>

text \<open>
  A digit of a plain base text: a letter or a decimal digit.
\<close>

definition isPlainDigit :: "char \<Rightarrow> bool" where
  "isPlainDigit c = (isLetter c \<or> isDigit c)"

text \<open>
  The factor applied to the offset \<open>x\<close> of a symmetric literal \<open>base[+-x]\<close> whose base text
  has a decimal point followed by \<open>d\<close> fractional digits: the input base to the power
  \<open>-(d + 1)\<close>, or to the power \<open>-d\<close> when \<open>x\<close> starts with the repeat marker.
\<close>

definition symmetricScale :: "BaseSystem \<Rightarrow> nat \<Rightarrow> string \<Rightarrow> rat" where
  "symmetricScale inputBaseSys d x =
     (if prefix ''#'' x then 1 / of_int (int (base inputBaseSys)) ^ d
      else 1 / of_int (int (base inputBaseSys)) ^ (d + 1))"

section \<open>The value of a decimal literal and half a unit of its last place\<close>

text \<open>
  Section 4.B.4: the exact value of the literal \<open>d.dddd\<close> with the integer part \<open>ip\<close> and
  the fractional digits \<open>fp\<close>, and \<open>5 * 10^-(k + 1)\<close> for its \<open>k\<close> fractional digits.
\<close>

definition decimalValue :: "string \<Rightarrow> string \<Rightarrow> rat" where
  "decimalValue ip fp = of_int (BigInt (ip @ fp)) / 10 ^ length fp"

definition halfUnit :: "string \<Rightarrow> rat" where
  "halfUnit fp = 5 / 10 ^ (length fp + 1)"

section \<open>The expression parser\<close>

text \<open>
  The routines of the two libraries that return an interval to the exponentiation blocks
  are opaque to the parser and are parameters of the model, together with the prefix
  registry: \<^verbatim>\<open>rationalIntervalPower(base, exponent, precision)\<close> and
  \<^verbatim>\<open>newtonRoot(value, rootDegree, precision)\<close> of the second library, and
  \<^verbatim>\<open>RationalInterval.mpow(exponent)\<close> of the number library, with its receiver as the
  first argument. The exponent argument of rationalIntervalPower is what the parser
  passes: a raw BigInt from parseExponent or a parsed value.

  The object that such a routine returns is given by its two endpoints and by the state
  of its property \<^verbatim>\<open>_skipPromotion\<close>, which the parser reads and writes: \<open>None\<close> when the
  property is undefined, \<open>Some b\<close> when it holds the boolean \<open>b\<close>.
\<close>

datatype exponent = BigIntExp int | ValueExp "value"

type_synonym libraryInterval = "rat \<times> rat \<times> bool option"

record library =
  getSystemForPrefix :: registry
  rationalIntervalPower :: "value \<Rightarrow> exponent \<Rightarrow> int \<Rightarrow> libraryInterval result"
  newtonRoot :: "value \<Rightarrow> int \<Rightarrow> int \<Rightarrow> libraryInterval result"
  mpow :: "value \<Rightarrow> int \<Rightarrow> libraryInterval result"

type_synonym presult = "(value \<times> string) result"

definition DEFAULT_PRECISION :: int where
  "DEFAULT_PRECISION = - 6"

text \<open>\<^verbatim>\<open>options.precision || DEFAULT_PRECISION\<close>: an absent precision and 0 are falsy.\<close>

definition precisionOf :: "options \<Rightarrow> int" where
  "precisionOf opts = (case precision opts of None \<Rightarrow> DEFAULT_PRECISION
                       | Some p \<Rightarrow> if p = 0 then DEFAULT_PRECISION else p)"

text \<open>
  Modelled from the spec: \<^verbatim>\<open>pow(bigint)\<close> of the number library (section 4.C), which is
  not under src/. A positive power of an Integer or a Rational is the exact power; the
  other cases (a power of an interval, a power that is not positive) are left unmodelled.
\<close>

definition value_pow :: "value \<Rightarrow> int \<Rightarrow> value result" where
  "value_pow v k =
     (if k \<le> 0 then Inl Unmodelled
      else case v of
        Integer z \<Rightarrow> Inr (Integer (z ^ nat k))
      | Rational r ef \<Rightarrow> Inr (Rational (r ^ nat k) False)
      | RationalInterval lo hi ei sp \<Rightarrow> Inl Unmodelled)"

text \<open>
  Modelled from the spec: the string constructor \<^verbatim>\<open>new Rational("d.ddd")\<close> of the number
  library, which is not under src/. The tests use it as the exact value of a decimal text
  (\<^verbatim>\<open>new Rational("1.2356")\<close>); texts without a digit on both sides of the point are
  left unmodelled.
\<close>

definition Rational_fromString :: "string \<Rightarrow> rat result" where
  "Rational_fromString s =
     (let negative = prefix ''-'' s;
          body = (if negative then tl s else s)
      in case decimalPartsOf body of
           Some (ip, fp) \<Rightarrow>
             if ip \<noteq> [] \<and> fp \<noteq> [] \<and> list_all isDigit ip \<and> list_all isDigit fp \<and> CHR ''.'' \<in> set body
             then (let r = of_int (BigInt (ip @ fp)) / 10 ^ length fp
                   in Inr (if negative then - r else r))
             else Inl Unmodelled
         | None \<Rightarrow> Inl Unmodelled)"

subsection \<open>Parser.parse: the whitespace markers\<close>

function replaceAll :: "string \<Rightarrow> string \<Rightarrow> string \<Rightarrow> string" where
  "replaceAll pat rep [] = []"
| "replaceAll pat rep (c # s) =
     (if prefix pat (c # s) then rep @ replaceAll pat rep (drop (length pat - 1) s)
      else c # replaceAll pat rep s)"
  by pat_completeness auto
termination
  by (relation "measure (\<lambda>(pat, rep, s). length s)") auto

definition preprocess :: "string \<Rightarrow> string" where
  "preprocess expression =
     filter (\<lambda>c. \<not> isSpace c) (replaceAll ''/ '' ''/S'' (replaceAll '' E'' ''TE'' expression))"

subsection \<open>parseExponent\<close>

definition parseExponent :: "string \<Rightarrow> (int \<times> string) result" where
  "parseExponent expr =
     (let isNegative = (expr \<noteq> [] \<and> hd expr = CHR ''-'');
          body = (if isNegative then tl expr else expr);
          exponentStr = takeWhile isDigit body
      in if exponentStr = [] then Inl (Error ''Invalid exponent'')
         else let exponent = (if isNegative then - BigInt exponentStr else BigInt exponentStr)
              in if exponent = 0
                 then Inl (Error ''Multiplicative exponentiation requires at least one factor'')
                 else Inr (exponent, dropWhile isDigit body))"

subsection \<open>The postfix factorial operators\<close>

text \<open>
  The block \<open>Check for factorial operators\<close>, which parseFactor repeats after a
  parenthesised group and after a number: the value parsed so far and the rest of the
  text go in, and come out with one \<^verbatim>\<open>!!\<close> or \<^verbatim>\<open>!\<close> applied if the rest starts with
  it. \<^verbatim>\<open>IntervalClass\<close> is the class of the operand, RationalInterval.
\<close>

definition factorialStep :: "value \<times> string \<Rightarrow> presult" where
  "factorialStep factorialResult =
     (let (v, remainingExpr) = factorialResult in
      if length remainingExpr > 1 \<and> take 2 remainingExpr = ''!!'' then
        (case v of
           Integer z \<Rightarrow>
             rbind (Integer_doubleFactorial z) (\<lambda>f. Inr (Integer f, drop 2 remainingExpr))
         | Rational r ef \<Rightarrow>
             if denominator r = 1 then
               rbind (Integer_doubleFactorial (numerator r))
                 (\<lambda>f. Inr (Rational (toRational f) False, drop 2 remainingExpr))
             else Inl (Error ''Double factorial is not defined for negative integers'')
         | RationalInterval lo hi ei sp \<Rightarrow>
             if lo = hi \<and> denominator lo = 1 then
               rbind (Integer_doubleFactorial (numerator lo))
                 (\<lambda>f. Inr (newRationalInterval (toRational f) (toRational f), drop 2 remainingExpr))
             else Inl (Error ''Double factorial is not defined for negative integers''))
      else if length remainingExpr > 0 \<and> hd remainingExpr = CHR ''!'' then
        (case v of
           Integer z \<Rightarrow>
             rbind (Integer_factorial z) (\<lambda>f. Inr (Integer f, drop 1 remainingExpr))
         | Rational r ef \<Rightarrow>
             if denominator r = 1 then
               rbind (Integer_factorial (numerator r))
                 (\<lambda>f. Inr (Rational (toRational f) False, drop 1 remainingExpr))
             else Inl (Error ''Factorial is not defined for negative integers'')
         | RationalInterval lo hi ei sp \<Rightarrow>
             if lo = hi \<and> denominator lo = 1 then
               rbind (Integer_factorial (numerator lo))
                 (\<lambda>f. Inr (newRationalInterval (toRational f) (toRational f), drop 1 remainingExpr))
             else Inl (Error ''Factorial is not defined for negative integers''))
      else Inr (v, remainingExpr))"

subsection \<open>Exponentiation after a factor\<close>

definition isZeroBase :: "value \<Rightarrow> bool" where
  "isZeroBase v =
     (case v of
        Integer z \<Rightarrow> z = 0
      | Rational r ef \<Rightarrow> numerator r = 0
      | RationalInterval lo hi ei sp \<Rightarrow> lo = 0 \<and> hi = 0)"

text \<open>
  \<open>isZeroExponent\<close> of the \<^verbatim>\<open>^\<close> branches: a raw BigInt is compared with \<^verbatim>\<open>0n\<close>, a
  value must be an Integer or a Rational.
\<close>

definition isZeroExponentPow :: "exponent \<Rightarrow> bool" where
  "isZeroExponentPow pw =
     (case pw of
        BigIntExp k \<Rightarrow> k = 0
      | ValueExp (Integer z) \<Rightarrow> z = 0
      | ValueExp (Rational r ef) \<Rightarrow> numerator r = 0
      | ValueExp (RationalInterval lo hi ei sp) \<Rightarrow> False)"

text \<open>
  \<^verbatim>\<open>try { powerResult = parseExponent(powerExpr) } catch (e) { powerResult = other(powerExpr) }\<close>
\<close>

definition exponentOrElse :: "string \<Rightarrow> (string \<Rightarrow> presult) \<Rightarrow> (exponent \<times> string) result" where
  "exponentOrElse powerExpr other =
     catch (rbind (parseExponent powerExpr) (\<lambda>(k, rest). Inr (BigIntExp k, rest)))
           (rbind (other powerExpr) (\<lambda>(v, rest). Inr (ValueExp v, rest)))"

text \<open>The exponent in parentheses, of the branches after a number.\<close>

definition exponentInParens :: "string \<Rightarrow> (string \<Rightarrow> presult) \<Rightarrow> (exponent \<times> string) result" where
  "exponentInParens powerExpr parseExpression' =
     rbind (parseExpression' (tl powerExpr)) (\<lambda>(v, rest).
       if rest = [] \<or> hd rest \<noteq> CHR '')'' then Inl (Error ''Missing closing parenthesis in exponent'')
       else Inr (ValueExp v, tl rest))"

text \<open>
  What the parser does with the property \<^verbatim>\<open>_skipPromotion\<close> of an interval that a library
  routine has returned, at the three kinds of call sites: \<^verbatim>\<open>result._skipPromotion = true\<close>;
  \<^verbatim>\<open>if (result._skipPromotion === undefined) { result._skipPromotion = true; }\<close>; and
  nothing. promoteType tests the property for truth, and that is what the marker of a
  value records.
\<close>

definition setSkipPromotion :: "libraryInterval \<Rightarrow> value" where
  "setSkipPromotion r = (let (lo, hi, skipPromotion) = r in RationalInterval lo hi False True)"

definition defaultSkipPromotion :: "libraryInterval \<Rightarrow> value" where
  "defaultSkipPromotion r =
     (let (lo, hi, skipPromotion) = r
      in RationalInterval lo hi False (case skipPromotion of None \<Rightarrow> True | Some b \<Rightarrow> b))"

definition asReturned :: "libraryInterval \<Rightarrow> value" where
  "asReturned r = (let (lo, hi, skipPromotion) = r in RationalInterval lo hi False (skipPromotion = Some True))"

definition callRationalIntervalPower ::
  "library \<Rightarrow> options \<Rightarrow> value \<Rightarrow> exponent \<Rightarrow> (libraryInterval \<Rightarrow> value) \<Rightarrow> value result" where
  "callRationalIntervalPower lib opts v pw marked =
     rbind (rationalIntervalPower lib v pw (precisionOf opts)) (\<lambda>r. Inr (marked r))"

text \<open>The base of \<^verbatim>\<open>mpow\<close>: a scalar becomes a point interval.\<close>

definition mpowBase :: "value \<Rightarrow> value" where
  "mpowBase v =
     (case v of
        Integer z \<Rightarrow> newRationalInterval (toRational z) (toRational z)
      | Rational r ef \<Rightarrow> newRationalInterval r r
      | RationalInterval lo hi ei sp \<Rightarrow> v)"

definition callMpow :: "library \<Rightarrow> value \<Rightarrow> int \<Rightarrow> (libraryInterval \<Rightarrow> value) \<Rightarrow> value result" where
  "callMpow lib v k marked = rbind (mpow lib (mpowBase v) k) (\<lambda>r. Inr (marked r))"

text \<open>
  The branch \<open>Use Newton's method for rational exponents with small denominators\<close>. Its
  test \<^verbatim>\<open>!powerResult.value.numerator === 1n\<close> compares a boolean with a BigInt and never
  holds, so the result is the root interval whatever the numerator is.
\<close>

definition callNewtonRoot ::
  "library \<Rightarrow> options \<Rightarrow> value \<Rightarrow> int \<Rightarrow> (libraryInterval \<Rightarrow> value) \<Rightarrow> value result" where
  "callNewtonRoot lib opts v rootDegree marked =
     rbind (newtonRoot lib v rootDegree (precisionOf opts)) (\<lambda>rootInterval. Inr (marked rootInterval))"

text \<open>
  The block \<open>Check for standard exponentiation after factorial\<close> at the end of
  parseFactor (lines 2216-2342): \<^verbatim>\<open>^\<close> and \<^verbatim>\<open>**\<close> after a number.
\<close>

definition powerStep_number ::
  "(string \<Rightarrow> presult) \<Rightarrow> (string \<Rightarrow> presult) \<Rightarrow> library \<Rightarrow> options \<Rightarrow> value \<times> string \<Rightarrow> presult" where
  "powerStep_number parseExpression' parseFactor' lib opts factorialResult =
     (let (v, remainingExpr) = factorialResult in
      if length remainingExpr > 0 \<and> hd remainingExpr = CHR ''^'' then
        (let powerExpr = tl remainingExpr in
         rbind (if prefix ''('' powerExpr then exponentInParens powerExpr parseExpression'
                else exponentOrElse powerExpr parseFactor') (\<lambda>(pw, rest).
           if isZeroBase v \<and> isZeroExponentPow pw
           then Inl (Error ''Zero cannot be raised to the power of zero'')
           else case pw of
             BigIntExp k \<Rightarrow> rbind (value_pow v k) (\<lambda>r. Inr (r, rest))
           | ValueExp e \<Rightarrow> rbind (callRationalIntervalPower lib opts v pw setSkipPromotion) (\<lambda>r. Inr (r, rest))))
      else if length remainingExpr > 1 \<and> remainingExpr ! 0 = CHR ''*'' \<and> remainingExpr ! 1 = CHR ''*'' then
        (let powerExpr = drop 2 remainingExpr in
         rbind (if prefix ''('' powerExpr then exponentInParens powerExpr parseExpression'
                else exponentOrElse powerExpr parseExpression') (\<lambda>(pw, rest).
           let isIntegerExponent =
                 (case pw of ValueExp (Integer z) \<Rightarrow> True
                  | ValueExp (Rational r ef) \<Rightarrow> denominator r = 1
                  | _ \<Rightarrow> False);
               isZeroExponent =
                 (case pw of ValueExp (Integer z) \<Rightarrow> z = 0
                  | ValueExp (Rational r ef) \<Rightarrow> numerator r = 0
                  | _ \<Rightarrow> False)
           in if isZeroExponent
              then Inl (Error ''Multiplicative exponentiation requires at least one factor'')
              else
                rbind (if isIntegerExponent then
                         (case pw of
                            ValueExp (Integer z) \<Rightarrow> callMpow lib v z setSkipPromotion
                          | ValueExp (Rational r ef) \<Rightarrow> callMpow lib v (numerator r) setSkipPromotion
                          | _ \<Rightarrow> Inl Unmodelled)
                       else callRationalIntervalPower lib opts v pw setSkipPromotion)
                  (\<lambda>r. Inr (r, rest))))
      else Inr (v, remainingExpr))"

text \<open>
  The block \<open>Check for exponentiation after factorial\<close> after a parenthesised group
  (lines 1418-1556). Its \<^verbatim>\<open>**\<close> branch calls \<^verbatim>\<open>newtonRoot\<close> for a Rational exponent
  with a denominator from 2 to 10, \<^verbatim>\<open>mpow\<close> for the BigInt of parseExponent and
  \<^verbatim>\<open>rationalIntervalPower\<close> otherwise, and marks the result only if its property is
  undefined.
\<close>

definition powerStep_paren ::
  "(string \<Rightarrow> presult) \<Rightarrow> library \<Rightarrow> options \<Rightarrow> value \<times> string \<Rightarrow> presult" where
  "powerStep_paren parseFactor' lib opts factorialResult =
     (let (v, remainingExpr) = factorialResult in
      if length remainingExpr > 0 \<and> hd remainingExpr = CHR ''^'' then
        (let powerExpr = tl remainingExpr in
         rbind (exponentOrElse powerExpr parseFactor') (\<lambda>(pw, rest).
           if isZeroBase v \<and> isZeroExponentPow pw
           then Inl (Error ''Zero cannot be raised to the power of zero'')
           else case pw of
             BigIntExp k \<Rightarrow> rbind (value_pow v k) (\<lambda>r. Inr (r, rest))
           | ValueExp e \<Rightarrow> rbind (callRationalIntervalPower lib opts v pw asReturned) (\<lambda>r. Inr (r, rest))))
      else if length remainingExpr > 1 \<and> remainingExpr ! 0 = CHR ''*'' \<and> remainingExpr ! 1 = CHR ''*'' then
        (let powerExpr = drop 2 remainingExpr in
         rbind (exponentOrElse powerExpr parseFactor') (\<lambda>(pw, rest).
           if isZeroExponentPow pw
           then Inl (Error ''Multiplicative exponentiation requires at least one factor'')
           else
             rbind (case pw of
                      BigIntExp k \<Rightarrow> callMpow lib v k defaultSkipPromotion
                    | ValueExp (Rational r ef) \<Rightarrow>
                        if denominator r \<le> 10 \<and> denominator r > 1
                        then callNewtonRoot lib opts v (denominator r) defaultSkipPromotion
                        else callRationalIntervalPower lib opts v pw defaultSkipPromotion
                    | ValueExp e \<Rightarrow> callRationalIntervalPower lib opts v pw defaultSkipPromotion)
               (\<lambda>r. Inr (r, rest))))
      else Inr (v, remainingExpr))"



subsection \<open>parseRational\<close>

text \<open>
  The scanning loops that find the end of a decimal: digits, and one decimal point that is
  followed by a character other than a second point. The result is the number of
  characters consumed and whether a point was among them.
\<close>

fun scanDecimal :: "(char \<Rightarrow> bool) \<Rightarrow> bool \<Rightarrow> string \<Rightarrow> nat \<times> bool" where
  "scanDecimal isDig hasDecimalPoint [] = (0, hasDecimalPoint)"
| "scanDecimal isDig hasDecimalPoint (c # s) =
     (if isDig c then (let (k, h) = scanDecimal isDig hasDecimalPoint s in (Suc k, h))
      else if c = CHR ''.'' \<and> \<not> hasDecimalPoint \<and> s \<noteq> [] \<and> hd s \<noteq> CHR ''.''
      then (let (k, h) = scanDecimal isDig True s in (Suc k, h))
      else (0, hasDecimalPoint))"

text \<open>The text of the decimal at the start of \<open>expr\<close>, if the loop finds one.\<close>

definition decimalPrefix :: "(char \<Rightarrow> bool) \<Rightarrow> string \<Rightarrow> string option" where
  "decimalPrefix isDig expr =
     (let negative = (expr \<noteq> [] \<and> hd expr = CHR ''-'');
          start = (if negative then 1 else 0);
          (k, hasDecimalPoint) = scanDecimal isDig False (drop start expr);
          endIndex = start + k
      in if hasDecimalPoint \<and> endIndex > (if negative then 2 else 1) then Some (take endIndex expr)
         else None)"

text \<open>The test \<^verbatim>\<open>/^-?(\d+\.?\d*|\.\d+)$/\<close> on the text before the repeat marker.\<close>

definition looksLikeDecimal :: "string \<Rightarrow> bool" where
  "looksLikeDecimal s =
     (let body = stripOne (\<lambda>d. d = CHR ''-'') s;
          ip = takeWhile isDigit body;
          r = dropWhile isDigit body
      in if ip \<noteq> [] then (r = [] \<or> (hd r = CHR ''.'' \<and> list_all isDigit (tl r)))
         else (r \<noteq> [] \<and> hd r = CHR ''.'' \<and> tl r \<noteq> [] \<and> list_all isDigit (tl r)))"

text \<open>
  The last part of parseRational: an integer, a fraction \<open>a/b\<close> or a mixed number
  \<open>w..a/b\<close> in decimal digits. After the slash, the marker \<open>S\<close> (a space followed the
  slash) or an opening parenthesis ends the literal before the slash.
\<close>

definition parseRational_plain :: "string \<Rightarrow> presult" where
  "parseRational_plain expr =
     (let isNegative0 = (expr \<noteq> [] \<and> hd expr = CHR ''-'');
          r0 = (if isNegative0 then tl expr else expr);
          numeratorStr0 = takeWhile isDigit r0;
          r1 = dropWhile isDigit r0
      in if numeratorStr0 = [] then Inl (Error ''Invalid rational number format'')
         else
           let hasMixedForm = prefix ''..'' r1;
               wholePart = (if hasMixedForm then (if isNegative0 then - BigInt numeratorStr0 else BigInt numeratorStr0) else 0);
               isNegative = (if hasMixedForm then False else isNegative0);
               r2 = (if hasMixedForm then drop 2 r1 else r1);
               numeratorStr = (if hasMixedForm then takeWhile isDigit r2 else numeratorStr0);
               r3 = (if hasMixedForm then dropWhile isDigit r2 else r2)
           in if numeratorStr = []
              then Inl (Error ''Invalid mixed number format: missing numerator after ..'')
              else
                let finish = (\<lambda>explicitFraction denominatorStr rest.
                      if hasMixedForm \<and> rest \<noteq> [] \<and> hd rest = CHR ''E''
                      then Inl (Error ''E notation not allowed directly after mixed number without parentheses'')
                      else
                        let den = BigInt denominatorStr;
                            num = (if hasMixedForm
                                   then (if wholePart < 0 then - 1 else 1) * (\<bar>wholePart\<bar> * den + BigInt numeratorStr)
                                   else (if isNegative then - BigInt numeratorStr else BigInt numeratorStr))
                        in if den = 0 then Inl (Error ''Denominator cannot be zero'')
                           else Inr (Rational (of_int num / of_int den) (explicitFraction \<and> den = 1), rest))
                in if r3 \<noteq> [] \<and> hd r3 = CHR ''/'' then
                     (let r4 = tl r3 in
                      if r4 \<noteq> [] \<and> (hd r4 = CHR ''S'' \<or> hd r4 = CHR ''('') then
                        (if hasMixedForm then Inl (Error ''Invalid mixed number format: missing denominator'')
                         else Inr (Rational (of_int (if isNegative then - BigInt numeratorStr else BigInt numeratorStr)) False, r3))
                      else
                        let denominatorStr = takeWhile isDigit r4; r5 = dropWhile isDigit r4 in
                        if denominatorStr = [] then Inl (Error ''Invalid rational number format'')
                        else if r5 \<noteq> [] \<and> hd r5 = CHR ''E''
                        then Inl (Error ''E notation not allowed directly after fraction without parentheses'')
                        else finish True denominatorStr r5)
                   else if hasMixedForm then Inl (Error ''Invalid mixed number format: missing denominator'')
                   else finish False ''1'' r3)"

text \<open>
  parseRational. A registered prefix \<^verbatim>\<open>0x\<close>, the prefix \<^verbatim>\<open>0D\<close>, and an input base
  other than the decimal preset lead into the base-aware scanner, which is not modelled.
\<close>

definition parseRational :: "nat \<Rightarrow> library \<Rightarrow> string \<Rightarrow> options \<Rightarrow> presult" where
  "parseRational n lib expr0 opts =
     (let expr = trim expr0;
          afterSign = stripOne (\<lambda>d. d = CHR ''-'') expr;
          prefixLetter = (case afterSign of z # p # rest \<Rightarrow> if z = CHR ''0'' \<and> isLetter p then Some p else None
                          | _ \<Rightarrow> None)
      in case (case prefixLetter of
                 None \<Rightarrow> Inr ()
               | Some p \<Rightarrow>
                   if getSystemForPrefix lib p \<noteq> None \<or> p = CHR ''D'' then Inl Unmodelled
                   else if toLowerChar p \<noteq> CHR ''e'' then Inl (Error ''Invalid or unregistered prefix '')
                   else Inr ()) of
           Inl e \<Rightarrow> Inl e
         | Inr u \<Rightarrow>
           if expr = [] then Inl (Error ''Unexpected end of expression'')
           else if (case inputBase opts of Other b \<Rightarrow> True | _ \<Rightarrow> False)
                   \<and> \<not> includes_str expr ''['' \<and> \<not> includes_str expr ''#''
           then Inl Unmodelled
           else
             let afterRepeating =
               (let afterDecimal = parseRational_plain expr in
                case indexOf expr ''.'' of
                  Some decimalIndex \<Rightarrow>
                    if decimalIndex + 1 < length expr \<and> expr ! (decimalIndex + 1) \<noteq> CHR ''.'' then
                      (case decimalPrefix isDigit expr of
                         Some decimalStr \<Rightarrow>
                           catch (rbind (Rational_fromString decimalStr)
                                    (\<lambda>r. Inr (Rational r False, drop (length decimalStr) expr)))
                                 afterDecimal
                       | None \<Rightarrow> afterDecimal)
                    else afterDecimal
                | None \<Rightarrow> afterDecimal)
             in case indexOf expr ''#'' of
                  Some hashIndex \<Rightarrow>
                    if looksLikeDecimal (take hashIndex expr) then
                      (let endIndex = hashIndex + 1 + length (takeWhile isDigit (drop (hashIndex + 1) expr));
                           repeatingDecimalStr = take endIndex expr
                       in case parseRepeatingDecimal n (getSystemForPrefix lib) repeatingDecimalStr of
                            Inl (Error msg) \<Rightarrow> Inl (Error ''Invalid repeating decimal: '')
                          | Inl e \<Rightarrow> Inl e
                          | Inr (RationalInterval lo hi ei sp) \<Rightarrow>
                              Inr (Rational ((lo + hi) / 2) False, drop endIndex expr)
                          | Inr v \<Rightarrow> Inr (v, drop endIndex expr))
                    else afterRepeating
                | None \<Rightarrow> afterRepeating)"

subsection \<open>parseInterval\<close>

text \<open>The test \<^verbatim>\<open>/^-?[@\w./:^]+\[/\<close>.\<close>

definition looksLikeUncertainty :: "string \<Rightarrow> bool" where
  "looksLikeUncertainty expr =
     (let r = stripOne (\<lambda>d. d = CHR ''-'') expr
      in takeWhile isUncertaintyBaseChar r \<noteq> [] \<and> prefix ''['' (dropWhile isUncertaintyBaseChar r))"

text \<open>
  After the first rational: an \<open>E\<close> with an optional minus sign and digits that is followed
  by a colon belongs to the left endpoint of an interval.
\<close>

definition eNotationBeforeColon :: "string \<Rightarrow> bool" where
  "eNotationBeforeColon remainingAfterFirst =
     (case remainingAfterFirst of
        [] \<Rightarrow> False
      | c # r \<Rightarrow>
          c = CHR ''E'' \<and>
          prefix '':'' (dropWhile isDigit (stripOne (\<lambda>d. d = CHR ''-'') r)))"

text \<open>
  parseInterval. Not modelled: continued fractions (the text contains \<^verbatim>\<open>.~\<close>), intervals of
  repeating decimals, the scanner for another input base, and scientific notation inside
  an interval.
\<close>

definition parseInterval :: "nat \<Rightarrow> library \<Rightarrow> string \<Rightarrow> options \<Rightarrow> presult" where
  "parseInterval n lib expr opts =
     (let reg = getSystemForPrefix lib;
          rest5 =
            (if (case inputBase opts of Other b \<Rightarrow> True | _ \<Rightarrow> False)
                \<and> \<not> includes_str expr ''['' \<and> \<not> includes_str expr ''#''
                \<and> \<not> (case stripOne (\<lambda>d. d = CHR ''-'') (trim expr) of
                        z # p # r \<Rightarrow> z = CHR ''0'' \<and> isLetter p | _ \<Rightarrow> False)
             then Inl Unmodelled
             else
               rbind (parseRational n lib expr opts) (\<lambda>(firstValue, remainingAfterFirst).
                 if eNotationBeforeColon remainingAfterFirst then Inl Unmodelled
                 else if remainingAfterFirst = [] \<or> hd remainingAfterFirst \<noteq> CHR '':'' then
                   (if typeAware opts then
                      (case firstValue of
                         Rational r explicitFraction \<Rightarrow>
                           if denominator r = 1 \<and> \<not> explicitFraction
                           then Inr (Integer (numerator r), remainingAfterFirst)
                           else Inr (firstValue, remainingAfterFirst)
                       | _ \<Rightarrow> Inr (firstValue, remainingAfterFirst))
                    else
                      (case scalarOf firstValue of
                         Some r \<Rightarrow> Inr (RationalInterval r r False False, remainingAfterFirst)
                       | None \<Rightarrow> Inl Unmodelled))
                 else
                   rbind (parseRational n lib (tl remainingAfterFirst) opts) (\<lambda>(secondValue, remainingExpr).
                     if remainingExpr \<noteq> [] \<and> (hd remainingExpr = CHR ''E'' \<or> prefix ''_^'' remainingExpr)
                     then Inl Unmodelled
                     else rbind (intervalOfValues firstValue secondValue)
                            (\<lambda>interval. Inr (markExplicitInterval interval, remainingExpr)))));
          rest4 =
            (if includes_str expr ''#'' \<and> includes_str expr '':''
                \<and> (case stripOne (\<lambda>d. d = CHR ''-'') expr of c # r \<Rightarrow> isDigit c \<or> c = CHR ''.'' | [] \<Rightarrow> False)
             then Inl Unmodelled
             else rest5);
          rest3 =
            (if includes_str expr ''.'' \<and> \<not> includes_str expr ''#'' \<and> \<not> includes_str expr '':''
                \<and> \<not> includes_str expr ''[''
             then
               (case decimalPrefix (charMap_has (inputBaseOf opts)) expr of
                  Some decimalStr \<Rightarrow>
                    catch
                      (case inputBase opts of
                         Other b \<Rightarrow>
                           rbind (parseBaseNotation n reg decimalStr b opts)
                             (\<lambda>result. Inr (result, drop (length decimalStr) expr))
                       | _ \<Rightarrow>
                           if typeAware opts then
                             rbind (Rational_fromString decimalStr)
                               (\<lambda>r. Inr (Rational r False, drop (length decimalStr) expr))
                           else
                             (let isNegative = prefix ''-'' decimalStr;
                                  absDecimalStr = (if isNegative then tl decimalStr else decimalStr)
                              in rbind (parseNonRepeatingDecimal absDecimalStr isNegative)
                                   (\<lambda>result. Inr (result, drop (length decimalStr) expr))))
                      rest4
                | None \<Rightarrow> rest4)
             else rest4);
          rest2 = (if includes_str expr ''.~'' then Inl Unmodelled else rest3)
      in if includes_str expr ''['' \<and> includes_str expr '']'' \<and> looksLikeUncertainty expr
         then catch (rbind (parseDecimalUncertainty (parseRepeatingDecimal n reg) n reg expr opts)
                       (\<lambda>result. Inr (result, [])))
                    rest2
         else rest2)"

subsection \<open>parseFactor, parseTerm, parseExpression\<close>

definition startsENotation :: "string \<Rightarrow> bool" where
  "startsENotation remainingExpr =
     (length remainingExpr > 0 \<and>
      (hd remainingExpr = CHR ''E'' \<or> prefix ''TE'' remainingExpr \<or> prefix ''_^'' remainingExpr))"

definition startsWithFunctionName :: "string \<Rightarrow> bool" where
  "startsWithFunctionName expr =
     list_ex (\<lambda>fname. prefix fname expr)
       [''PI'', ''EXP'', ''LN'', ''LOG'', ''SIN'', ''COS'', ''ARCSIN'', ''ARCCOS'', ''TAN'', ''ARCTAN'']"

text \<open>
  The test for the deprecated bracket notation,
  \<^verbatim>\<open>/^([-\w./:^]+(?::[-\w./:^]+)?)\[(\d+)\]/\<close>; the colon is in the first class, so the
  optional group adds nothing.
\<close>

definition baseBracketMatch :: "string \<Rightarrow> bool" where
  "baseBracketMatch expr =
     (let isC = (\<lambda>c. c = CHR ''-'' \<or> isWordChar c \<or> c \<in> set ''./:^'');
          b = takeWhile isC expr;
          r = dropWhile isC expr
      in b \<noteq> [] \<and> prefix ''['' r \<and> takeWhile isDigit (tl r) \<noteq> [] \<and> prefix '']'' (dropWhile isDigit (tl r)))"

text \<open>
  The longest text that \<^verbatim>\<open>(?:[Ee][+-]?[\w]+|\_?\^-?[\w]+)?\<close> matches at the start of
  \<open>t\<close>.
\<close>

definition trailingPrefix :: "string \<Rightarrow> string" where
  "trailingPrefix t =
     (let viaE =
            (case t of
               [] \<Rightarrow> []
             | c # t1 \<Rightarrow>
                 if c = CHR ''E'' \<or> c = CHR ''e'' then
                   (let t2 = stripOne (\<lambda>d. d = CHR ''+'' \<or> d = CHR ''-'') t1;
                        w = takeWhile isWordChar t2
                    in if w = [] then [] else take (length t - length t2 + length w) t)
                 else []);
          viaCaret =
            (let t1 = stripOne (\<lambda>d. d = CHR ''_'') t in
             case t1 of
               [] \<Rightarrow> []
             | h # t2 \<Rightarrow>
                 if h = CHR ''^'' then
                   (let t3 = stripOne (\<lambda>d. d = CHR ''-'') t2;
                        w = takeWhile isWordChar t3
                    in if w = [] then [] else take (length t - length t3 + length w) t)
                 else [])
      in if viaE \<noteq> [] then viaE else viaCaret)"

text \<open>
  The uncertainty pattern of parseFactor, not anchored at the end: the matched text.
\<close>

definition uncertaintyPrefixMatch :: "string \<Rightarrow> string option" where
  "uncertaintyPrefixMatch expr =
     (let sg = (if prefix ''-'' expr then ''-'' else '''');
          r = drop (length sg) expr;
          b = takeWhile isUncertaintyBaseChar r;
          r1 = dropWhile isUncertaintyBaseChar r
      in if b = [] then None
         else case r1 of
           [] \<Rightarrow> None
         | c # r2 \<Rightarrow>
             if c \<noteq> CHR ''['' then None
             else
               let u = takeWhile (\<lambda>d. d \<noteq> CHR '']'') r2;
                   r3 = dropWhile (\<lambda>d. d \<noteq> CHR '']'') r2
               in if u = [] then None
                  else case r3 of
                    [] \<Rightarrow> None
                  | d # after \<Rightarrow>
                      Some (take (length expr - length after + length (trailingPrefix after)) expr))"

definition negateValue :: "options \<Rightarrow> value \<Rightarrow> value result" where
  "negateValue opts v =
     (case v of
        Integer z \<Rightarrow>
          if typeAware opts then Inr (Integer (- z))
          else value_multiply (RationalInterval (- 1) (- 1) False False) v
      | Rational r explicitFraction \<Rightarrow>
          if typeAware opts then Inr (Rational (- r) explicitFraction)
          else value_multiply (RationalInterval (- 1) (- 1) False False) v
      | _ \<Rightarrow> value_multiply (RationalInterval (- 1) (- 1) False False) v)"

text \<open>
  parseFactor from the negation on (lines 1917-2342): unary minus, else a number, then the
  factorial block and the exponentiation block.
\<close>

definition parseFactor_number ::
  "(string \<Rightarrow> presult) \<Rightarrow> (string \<Rightarrow> presult) \<Rightarrow> nat \<Rightarrow> library \<Rightarrow> string \<Rightarrow> options \<Rightarrow> presult" where
  "parseFactor_number parseExpression' parseFactor' n lib expr opts =
     (if hd expr = CHR ''-'' \<and> \<not> includes_str expr ''['' \<and> \<not> includes_str expr '':'' then
        rbind (parseFactor' (tl expr)) (\<lambda>(v, remainingExpr).
          rbind (negateValue opts v) (\<lambda>negatedValue. Inr (negatedValue, remainingExpr)))
      else
        rbind (parseInterval n lib expr opts) (\<lambda>numberResult.
          if startsENotation (snd numberResult) then Inl Unmodelled
          else rbind (factorialStep numberResult)
                 (powerStep_number parseExpression' parseFactor' lib opts)))"

text \<open>
  parseFactor. Not modelled: scientific notation after a group or a number
  (parseENotation), and the named constants and functions.
\<close>

definition parseFactor_body ::
  "(string \<Rightarrow> presult) \<Rightarrow> (string \<Rightarrow> presult) \<Rightarrow> nat \<Rightarrow> library \<Rightarrow> string \<Rightarrow> options \<Rightarrow> presult" where
  "parseFactor_body parseExpression' parseFactor' n lib expr opts =
     (if length expr = 0 then Inl (Error ''Unexpected end of expression'')
      else if hd expr = CHR ''('' then
        rbind (parseExpression' (tl expr)) (\<lambda>(v, remainingExpr).
          if length remainingExpr = 0 \<or> hd remainingExpr \<noteq> CHR '')''
          then Inl (Error ''Missing closing parenthesis'')
          else
            let remainingExpr = tl remainingExpr in
            if startsENotation remainingExpr then Inl Unmodelled
            else rbind (factorialStep (v, remainingExpr)) (powerStep_paren parseFactor' lib opts))
      else if isUpper (hd expr) \<and> startsWithFunctionName expr then Inl Unmodelled
      else if includes_str expr ''['' \<and> includes_str expr '']'' then
        (if baseBracketMatch expr
         then Inl (Error ''Bracket base notation (Value[Base]) is no longer supported. Use prefix notation (0xValue, 0bValue) or the BASE command.'')
         else case uncertaintyPrefixMatch expr of
           Some fullMatch \<Rightarrow>
             rbind (parseDecimalUncertainty (parseRepeatingDecimal n (getSystemForPrefix lib)) n
                      (getSystemForPrefix lib) fullMatch opts)
               (\<lambda>result. Inr (result, drop (length fullMatch) expr))
         | None \<Rightarrow> parseFactor_number parseExpression' parseFactor' n lib expr opts)
      else parseFactor_number parseExpression' parseFactor' n lib expr opts)"

text \<open>
  One round of the loop of parseTerm: the operator at the start of \<open>currentExpr\<close> and the
  factor after it. The operator \<open>E\<close> (also as the marker \<open>TE\<close>) is not modelled.
\<close>

definition parseTerm_step ::
  "(string \<Rightarrow> presult) \<Rightarrow> value \<Rightarrow> string \<Rightarrow> presult" where
  "parseTerm_step parseFactor' v currentExpr =
     (if hd currentExpr = CHR ''E'' \<or> prefix ''TE'' currentExpr then Inl Unmodelled
      else
        let operator = hd currentExpr;
            afterOp = tl currentExpr;
            afterOp = (if operator = CHR ''/'' \<and> length afterOp > 0 \<and> hd afterOp = CHR ''S''
                       then tl afterOp else afterOp)
        in rbind (parseFactor' afterOp) (\<lambda>(factorValue, rest).
             rbind (if operator = CHR ''*'' then value_multiply v factorValue
                    else value_divide v factorValue) (\<lambda>r. Inr (r, rest))))"

definition continuesTerm :: "string \<Rightarrow> bool" where
  "continuesTerm currentExpr =
     (length currentExpr > 0 \<and>
      (hd currentExpr = CHR ''*'' \<or> hd currentExpr = CHR ''/'' \<or> hd currentExpr = CHR ''E''
       \<or> prefix ''TE'' currentExpr))"

definition continuesExpression :: "string \<Rightarrow> bool" where
  "continuesExpression currentExpr =
     (length currentExpr > 0 \<and> (hd currentExpr = CHR ''+'' \<or> hd currentExpr = CHR ''-''))"

definition parseExpression_step ::
  "(string \<Rightarrow> presult) \<Rightarrow> value \<Rightarrow> string \<Rightarrow> presult" where
  "parseExpression_step parseTerm' v currentExpr =
     (let operator = hd currentExpr in
      rbind (parseTerm' (tl currentExpr)) (\<lambda>(termValue, rest).
        rbind (if operator = CHR ''+'' then value_add v termValue
               else value_subtract v termValue) (\<lambda>r. Inr (r, rest))))"

text \<open>
  The mutual recursion of the parser and its two \<^verbatim>\<open>while\<close> loops, with a fuel argument
  that every call and every round of a loop decreases.
\<close>

function parseExpression :: "nat \<Rightarrow> library \<Rightarrow> string \<Rightarrow> options \<Rightarrow> presult"
  and parseExpression_loop :: "nat \<Rightarrow> library \<Rightarrow> value \<Rightarrow> string \<Rightarrow> options \<Rightarrow> presult"
  and parseTerm :: "nat \<Rightarrow> library \<Rightarrow> string \<Rightarrow> options \<Rightarrow> presult"
  and parseTerm_loop :: "nat \<Rightarrow> library \<Rightarrow> value \<Rightarrow> string \<Rightarrow> options \<Rightarrow> presult"
  and parseFactor :: "nat \<Rightarrow> library \<Rightarrow> string \<Rightarrow> options \<Rightarrow> presult" where
  "parseExpression 0 lib expr opts = Inl OutOfFuel"
| "parseExpression (Suc n) lib expr opts =
     rbind (parseTerm n lib expr opts) (\<lambda>(v, currentExpr). parseExpression_loop n lib v currentExpr opts)"
| "parseExpression_loop 0 lib v currentExpr opts = Inl OutOfFuel"
| "parseExpression_loop (Suc n) lib v currentExpr opts =
     (if continuesExpression currentExpr then
        rbind (parseExpression_step (\<lambda>s. parseTerm n lib s opts) v currentExpr)
          (\<lambda>(v', rest). parseExpression_loop n lib v' rest opts)
      else Inr (promoteType v opts, currentExpr))"
| "parseTerm 0 lib expr opts = Inl OutOfFuel"
| "parseTerm (Suc n) lib expr opts =
     rbind (parseFactor n lib expr opts) (\<lambda>(v, currentExpr). parseTerm_loop n lib v currentExpr opts)"
| "parseTerm_loop 0 lib v currentExpr opts = Inl OutOfFuel"
| "parseTerm_loop (Suc n) lib v currentExpr opts =
     (if continuesTerm currentExpr then
        rbind (parseTerm_step (\<lambda>s. parseFactor n lib s opts) v currentExpr)
          (\<lambda>(v', rest). parseTerm_loop n lib v' rest opts)
      else Inr (promoteType v opts, currentExpr))"
| "parseFactor 0 lib expr opts = Inl OutOfFuel"
| "parseFactor (Suc n) lib expr opts =
     parseFactor_body (\<lambda>s. parseExpression n lib s opts) (\<lambda>s. parseFactor n lib s opts) n lib expr opts"
  by pat_completeness auto
termination
  by (relation "measure (\<lambda>x. case x of
        Inl (Inl a) \<Rightarrow> fst a
      | Inl (Inr a) \<Rightarrow> fst a
      | Inr (Inl a) \<Rightarrow> fst a
      | Inr (Inr (Inl a)) \<Rightarrow> fst a
      | Inr (Inr (Inr a)) \<Rightarrow> fst a)") auto

text \<open>Parser.parse.\<close>

definition parse :: "nat \<Rightarrow> library \<Rightarrow> string \<Rightarrow> options \<Rightarrow> value result" where
  "parse n lib expression opts =
     (if expression = [] \<or> trim expression = [] then Inl (Error ''Expression cannot be empty'')
      else
        rbind (parseExpression n lib (preprocess expression) opts) (\<lambda>(v, remainingExpr).
          if length remainingExpr > 0 then Inl (Error ''Unexpected token at end: '')
          else Inr v))"


section \<open>Notions used to state the claims about the parser\<close>

text \<open>A value that is a non-negative integer, or a point interval of one.\<close>

definition nonNegativeIntegerOperand :: "value \<Rightarrow> bool" where
  "nonNegativeIntegerOperand v =
     (case v of
        Integer z \<Rightarrow> 0 \<le> z
      | Rational r ef \<Rightarrow> denominator r = 1 \<and> 0 \<le> numerator r
      | RationalInterval lo hi ei sp \<Rightarrow> lo = hi \<and> denominator lo = 1 \<and> 0 \<le> numerator lo)"

text \<open>
  The texts on which parseFactor goes on to read a number with parseInterval: not empty,
  not a parenthesised group, not a named function, not a bracket form, and not a unary
  minus.
\<close>

definition readsNumber :: "string \<Rightarrow> bool" where
  "readsNumber expr =
     (expr \<noteq> [] \<and> hd expr \<noteq> CHR ''('' \<and>
      \<not> (isUpper (hd expr) \<and> startsWithFunctionName expr) \<and>
      \<not> (includes_str expr ''['' \<and> includes_str expr '']'') \<and>
      \<not> (hd expr = CHR ''-'' \<and> \<not> includes_str expr ''['' \<and> \<not> includes_str expr '':''))"



text \<open>
  A library for the examples: no registered prefix; a rationalIntervalPower that is exact
  on a scalar base and a positive BigInt exponent (as the tests of the parser expect of
  \<^verbatim>\<open>2**3\<close>) and unmodelled elsewhere; an mpow that raises the interval endpoint-wise,
  \<open>[lo^k, hi^k]\<close>, with the reciprocals for a negative \<open>k\<close>; no newtonRoot. Its intervals
  are fresh objects without a marker.
\<close>

definition value_mpow :: "rat \<times> rat \<Rightarrow> int \<Rightarrow> (rat \<times> rat) result" where
  "value_mpow b k =
     (let (lo, hi) = b in
      if k > 0 then (let a = lo ^ nat k; c = hi ^ nat k in Inr (min a c, max a c))
      else if k < 0 then
        (if lo \<le> 0 \<and> 0 \<le> hi then Inl (Error ''Division by zero'')
         else let a = 1 / lo ^ nat (- k); c = 1 / hi ^ nat (- k) in Inr (min a c, max a c))
      else Inl (Error ''Multiplicative exponentiation requires at least one factor''))"

definition exactPowerLibrary :: library where
  "exactPowerLibrary =
     \<lparr>getSystemForPrefix = (\<lambda>c. None),
      rationalIntervalPower = (\<lambda>v pw p.
        case (scalarOf v, pw) of
          (Some b, BigIntExp k) \<Rightarrow> if k > 0 then Inr (b ^ nat k, b ^ nat k, None) else Inl Unmodelled
        | _ \<Rightarrow> Inl Unmodelled),
      newtonRoot = (\<lambda>v rootDegree p. Inl Unmodelled),
      mpow = (\<lambda>v k. rbind (value_mpow (boundsOf v) k) (\<lambda>(lo, hi). Inr (lo, hi, None)))\<rparr>"

section \<open>Theorems: parseDefinition\<close>

lemma render_Cons: "render (it # its) = render_item it @ render its"
  by (simp add: render_def)

lemma expansion_Cons: "expansion (it # its) = item_chars it @ expansion its"
  by (simp add: expansion_def)

lemma loop_single:
  "\<not> opens_range rest \<Longrightarrow> parseDefinition_loop (c # rest) acc = parseDefinition_loop rest (acc @ [c])"
  by (cases rest rule: opens_range.cases) auto

lemma loop_canonical:
  "canonical its \<Longrightarrow>
   parseDefinition_loop (render its) acc =
     (if \<exists>it \<in> set its. bad_range it then Inl (Error ''Invalid range: '')
      else Inr (acc @ expansion its))"
proof (induction its arbitrary: acc rule: canonical.induct)
  case 1
  show ?case by (simp add: render_def expansion_def)
next
  case (2 c its)
  then show ?case
    by (simp add: render_Cons expansion_Cons loop_single)
next
  case (3 c1 c2 its)
  then show ?case
    by (simp add: render_Cons expansion_Cons)
qed

lemma render_items_of: "render (items_of s) = s"
  by (induction s rule: items_of.induct) (simp_all add: render_Cons render_def)

lemma render_Nil: "render [] = []"
  by (simp add: render_def)

lemma canonical_items_of: "canonical (items_of s)"
  by (induction s rule: items_of.induct) (simp_all add: render_items_of render_Cons render_Nil)

lemma loop_length_distinct:
  "parseDefinition s = Inr cs \<Longrightarrow> 2 \<le> length cs \<and> distinct cs"
  by (auto simp: parseDefinition_def card_distinct split: if_splits sum.splits)

lemma parseDefinition_render:
  assumes "canonical its" "its \<noteq> []"
  shows "parseDefinition (render its) =
     (if \<exists>it \<in> set its. bad_range it then Inl (Error ''Invalid range: '')
      else if \<not> distinct (expansion its)
      then Inl (Error ''Character sequence contains duplicate characters'')
      else if length (expansion its) < 2
      then Inl (Error ''Base system must have at least 2 characters'')
      else Inr (expansion its))"
proof -
  from assms(2) have ne: "render its \<noteq> []"
    by (cases its; cases "hd its") (simp_all add: render_Cons)
  have card: "card (set (expansion its)) \<noteq> length (expansion its) \<longleftrightarrow> \<not> distinct (expansion its)"
    using card_distinct distinct_card by blast
  show ?thesis
    using ne card by (simp add: parseDefinition_def loop_canonical [OF assms(1)])
qed

text \<open>
  C10. Whatever parseDefinition returns has at least two characters, all distinct. Every
  string is the text of one canonical sequence of single characters and ranges, and on such
  a text parseDefinition throws when some range has its start code above its end code,
  else when the expansion has a duplicate, else when it has fewer than two characters, and
  otherwise returns the expansion, in which a range \<open>c1-c2\<close> stands for exactly the
  consecutive codes \<open>c1, c1 + 1, ..., c2\<close>.
\<close>

theorem parseDefinition_ranges:
  "(parseDefinition s = Inr cs \<longrightarrow> 2 \<le> length cs \<and> distinct cs) \<and>
   (\<exists>its'. canonical its' \<and> render its' = s) \<and>
   (canonical its \<and> its \<noteq> [] \<longrightarrow>
      parseDefinition (render its) =
        (if \<exists>it \<in> set its. bad_range it then Inl (Error ''Invalid range: '')
         else if \<not> distinct (expansion its)
         then Inl (Error ''Character sequence contains duplicate characters'')
         else if length (expansion its) < 2
         then Inl (Error ''Base system must have at least 2 characters'')
         else Inr (expansion its)))"
  using loop_length_distinct [of s cs] canonical_items_of [of s] render_items_of [of s]
    parseDefinition_render [of its]
  by blast

theorem parseDefinition_ranges_witness:
  "parseDefinition [48, 45, 50, 97] = Inr [48, 49, 50, 97] \<and>
   2 \<le> length [48, 49, 50, 97 :: nat] \<and> distinct [48, 49, 50, 97 :: nat] \<and>
   canonical [Range 48 50, Single 97] \<and> [Range 48 50, Single 97] \<noteq> [] \<and>
   render [Range 48 50, Single 97] = [48, 45, 50, 97] \<and>
   expansion [Range 48 50, Single 97] = [48, 49, 50, 97] \<and>
   parseDefinition [51, 45, 49] = Inl (Error ''Invalid range: '') \<and>
   parseDefinition [48, 45, 50, 49] = Inl (Error ''Character sequence contains duplicate characters'') \<and>
   parseDefinition [48, 45, 48] = Inl (Error ''Base system must have at least 2 characters'')"
proof -
  have c1: "canonical [Range 48 50, Single 97] \<and> [Range 48 50, Single 97] \<noteq> []"
    by (simp add: render_def)
  have r1: "render [Range 48 50, Single 97] = [48, 45, 50, 97]"
    by (simp add: render_def)
  have e1: "expansion [Range 48 50, Single 97] = [48, 49, 50, 97]"
    by code_simp
  have p1: "parseDefinition [48, 45, 50, 97] = Inr [48, 49, 50, 97]"
    using parseDefinition_ranges [of "[]" "[]" "[Range 48 50, Single 97]"] c1 r1 e1 by simp
  have p2: "parseDefinition [51, 45, 49] = Inl (Error ''Invalid range: '')"
    using parseDefinition_ranges [of "[]" "[]" "[Range 51 49]"] by (simp add: render_def)
  have e3: "expansion [Range 48 50, Single 49] = [48, 49, 50, 49]"
    by code_simp
  have p3: "parseDefinition [48, 45, 50, 49] =
      Inl (Error ''Character sequence contains duplicate characters'')"
    using parseDefinition_ranges [of "[]" "[]" "[Range 48 50, Single 49]"] e3
    by (simp add: render_def)
  have e4: "expansion [Range 48 48] = [48]"
    by code_simp
  have p4: "parseDefinition [48, 45, 48] = Inl (Error ''Base system must have at least 2 characters'')"
    using parseDefinition_ranges [of "[]" "[]" "[Range 48 48]"] e4
    by (simp add: render_def)
  from parseDefinition_ranges [of "[48, 45, 50, 97]" "[48, 49, 50, 97]" "[]"] p1
  have "2 \<le> length [48, 49, 50, 97 :: nat] \<and> distinct [48, 49, 50, 97 :: nat]"
    by blast
  with c1 r1 e1 p1 p2 p3 p4 show ?thesis by blast
qed


section \<open>Theorems: Parser.parseContinuedFraction\<close>

lemma split_char_nonempty: "split_char sep s \<noteq> []"
  by (induction s) (auto split: list.splits)

lemma split_char_no_sep: "sep \<notin> set s \<Longrightarrow> split_char sep s = [s]"
  by (induction s) auto

lemma split_char_append:
  "sep \<notin> set t \<Longrightarrow> split_char sep (t @ sep # s) = t # split_char sep s"
  by (induction t) (auto split: list.splits)

lemma split_char_join:
  "ts \<noteq> [] \<Longrightarrow> \<forall>t \<in> set ts. sep \<notin> set t \<Longrightarrow> split_char sep (join [sep] ts) = ts"
  by (induction "[sep]" ts rule: join.induct) (simp_all add: split_char_no_sep split_char_append)

lemma tl_split_char_Cons:
  "set (tl (split_char sep s)) \<subseteq> set (tl (split_char sep (c # s)))"
  by (cases "split_char sep s") (auto simp: split_char_nonempty)

lemma includes_double_split_tl:
  "includes_str s [sep, sep] \<Longrightarrow> [] \<in> set (tl (split_char sep s))"
proof (induction s)
  case Nil
  then show ?case by simp
next
  case (Cons c s)
  show ?case
  proof (cases "prefix [sep, sep] (c # s)")
    case True
    then obtain r where "c # s = sep # sep # r"
      by (auto simp: prefix_def)
    then show ?thesis by simp
  next
    case False
    with Cons.prems have "includes_str s [sep, sep]"
      unfolding includes_str.simps by blast
    with Cons.IH have "[] \<in> set (tl (split_char sep s))" by simp
    then show ?thesis using tl_split_char_Cons by blast
  qed
qed

lemma suffix_sep_split_tl:
  "suffix [sep] s \<Longrightarrow> [] \<in> set (tl (split_char sep s))"
proof (induction s)
  case Nil
  then show ?case by simp
next
  case (Cons c s)
  show ?case
  proof (cases s)
    case Nil
    with Cons.prems show ?thesis by (simp add: suffix_def)
  next
    case (Cons d s')
    with Cons.prems have "suffix [sep] s"
      by (auto simp: suffix_def Cons_eq_append_conv)
    with Cons.IH have "[] \<in> set (tl (split_char sep s))" by simp
    then show ?thesis using tl_split_char_Cons by blast
  qed
qed

lemma includes_double_split:
  "includes_str s [sep, sep] \<Longrightarrow> [] \<in> set (split_char sep s)"
  using includes_double_split_tl [of s sep] by (cases "split_char sep s") auto

lemma suffix_sep_split:
  "suffix [sep] s \<Longrightarrow> [] \<in> set (split_char sep s)"
  using suffix_sep_split_tl [of sep s] by (cases "split_char sep s") auto

lemma set_join: "set (join sep ts) \<subseteq> set sep \<union> \<Union> (set ` set ts)"
  by (induction sep ts rule: join.induct) auto

lemma cfTerms_loop_ok:
  "\<forall>t \<in> set ts. positiveDecimal t \<Longrightarrow> cfTerms_loop ts acc = Inr (acc @ map BigInt ts)"
  by (induction ts arbitrary: acc) (auto simp: positiveDecimal_def Let_def)

lemma cfTerms_loop_Inr:
  "cfTerms_loop ts acc = Inr r \<Longrightarrow> \<forall>t \<in> set ts. positiveDecimal t"
  by (induction ts arbitrary: acc) (auto simp: positiveDecimal_def Let_def split: if_splits)

lemma isDigit_simps:
  "\<not> isDigit CHR ''-''" "\<not> isDigit CHR ''.''" "\<not> isDigit CHR ''~''"
  "isDigit c \<Longrightarrow> \<not> isLineTerminator c" "\<not> isLineTerminator CHR ''~''"
  "isDigit c \<Longrightarrow> c \<noteq> CHR ''~''"
  by (auto simp: isDigit_def isLineTerminator_def)

lemma cfMatch_shape:
  assumes "sg = [] \<or> sg = ''-''" "a0 \<noteq> []" "list_all isDigit a0"
  shows "cfMatch (sg @ a0 @ CHR ''.'' # CHR ''~'' # t) =
           (if list_ex isLineTerminator t then None else Some (sg @ a0, t))"
proof -
  obtain d ds where a0: "a0 = d # ds" using assms(2) by (cases a0) auto
  with assms(3) have d: "isDigit d" by simp
  then have nd: "d \<noteq> CHR ''-''" using isDigit_simps(1) by auto
  have tw: "takeWhile isDigit (a0 @ ''.~'' @ t) = a0"
    using assms(3) by (simp add: takeWhile_append2 list_all_iff isDigit_simps)
  have dw: "dropWhile isDigit (a0 @ ''.~'' @ t) = ''.~'' @ t"
    using assms(3) by (simp add: dropWhile_append2 list_all_iff isDigit_simps)
  from assms(1) show ?thesis
  proof
    assume "sg = []"
    then show ?thesis
      using nd tw dw assms(2) by (simp add: cfMatch_def a0 Let_def)
  next
    assume "sg = ''-''"
    then show ?thesis
      using tw dw assms(2) by (simp add: cfMatch_def Let_def)
  qed
qed

text \<open>
  C9. For an optional minus sign \<open>sg\<close> and a non-empty run of decimal digits \<open>a0\<close>:
  when \<open>ts\<close> is a non-empty list of positive decimal integers, the text
  \<open>sg a0 .~ t1 ~ ... ~ tn\<close> is mapped to the sequence of the values of \<open>sg a0\<close> and of the
  terms; the text \<open>sg a0 .~0\<close> is mapped to the one-element sequence; and a term text other
  than \<open>0\<close> that contains a double tilde, ends with a tilde, or has (between tildes) a
  term that is not a positive decimal integer is rejected.
\<close>

theorem parseContinuedFraction_spec:
  assumes "sg = [] \<or> sg = ''-''" "a0 \<noteq> []" "list_all isDigit a0"
  shows
   "(ts \<noteq> [] \<and> (\<forall>t \<in> set ts. positiveDecimal t) \<longrightarrow>
       parseContinuedFraction (sg @ a0 @ ''.~'' @ join ''~'' ts) =
         Inr (BigInt (sg @ a0) # map BigInt ts)) \<and>
    parseContinuedFraction (sg @ a0 @ ''.~'' @ ''0'') = Inr [BigInt (sg @ a0)] \<and>
    (t \<noteq> ''0'' \<and>
       (includes_str t ''~~'' \<or> suffix ''~'' t \<or>
        (\<exists>x \<in> set (split_char CHR ''~'' t). \<not> positiveDecimal x)) \<longrightarrow>
       (\<exists>e. parseContinuedFraction (sg @ a0 @ ''.~'' @ t) = Inl e))"
proof (intro conjI impI)
  assume wf: "ts \<noteq> [] \<and> (\<forall>t \<in> set ts. positiveDecimal t)"
  let ?j = "join ''~'' ts"
  have nosep: "\<forall>t \<in> set ts. CHR ''~'' \<notin> set t"
    using wf isDigit_simps(6) by (auto simp: positiveDecimal_def list_all_iff)
  have sp: "split_char CHR ''~'' ?j = ts"
    using wf nosep by (simp add: split_char_join)
  have ne: "[] \<notin> set ts"
    using wf by (auto simp: positiveDecimal_def)
  have nlt: "\<not> list_ex isLineTerminator ?j"
  proof -
    have "\<forall>c \<in> set ?j. \<not> isLineTerminator c"
      using set_join [of "''~''" ts] wf
      by (auto simp: positiveDecimal_def list_all_iff isDigit_simps)
    then show ?thesis by (simp add: list_ex_iff)
  qed
  have j0: "?j \<noteq> ''0''"
  proof
    assume "?j = ''0''"
    with sp have "ts = [''0'']" by simp
    with wf show False by (simp add: positiveDecimal_def BigInt_def BigInt_digits_def digitValue_def)
  qed
  have je: "?j \<noteq> []"
  proof
    assume "?j = []"
    with sp have "ts = [[]]" by simp
    with ne show False by simp
  qed
  have ns: "\<not> suffix ''~'' ?j"
    using suffix_sep_split [of "CHR ''~''" ?j] sp ne by auto
  have ni: "\<not> includes_str ?j ''~~''"
    using includes_double_split [of ?j "CHR ''~''"] sp ne by auto
  show "parseContinuedFraction (sg @ a0 @ ''.~'' @ ?j) = Inr (BigInt (sg @ a0) # map BigInt ts)"
    using wf nlt j0 je ns ni sp
    by (simp add: parseContinuedFraction_def cfMatch_shape [OF assms] cfTerms_loop_ok Let_def)
next
  show "parseContinuedFraction (sg @ a0 @ ''.~'' @ ''0'') = Inr [BigInt (sg @ a0)]"
    by (simp add: parseContinuedFraction_def cfMatch_shape [OF assms] isLineTerminator_def Let_def)
next
  assume bad: "t \<noteq> ''0'' \<and>
       (includes_str t ''~~'' \<or> suffix ''~'' t \<or>
        (\<exists>x \<in> set (split_char CHR ''~'' t). \<not> positiveDecimal x))"
  have "\<And>r. cfTerms_loop (split_char CHR ''~'' t) [] = Inr r \<Longrightarrow>
      \<forall>x \<in> set (split_char CHR ''~'' t). positiveDecimal x"
    by (rule cfTerms_loop_Inr)
  with bad show "\<exists>e. parseContinuedFraction (sg @ a0 @ ''.~'' @ t) = Inl e"
    by (auto simp: parseContinuedFraction_def cfMatch_shape [OF assms] Let_def split: sum.splits)
qed

theorem parseContinuedFraction_spec_witness:
  "parseContinuedFraction ''-3.~7~15~1~292'' = Inr [- 3, 7, 15, 1, 292] \<and>
   parseContinuedFraction ''-3.~0'' = Inr [- 3] \<and>
   (\<exists>e. parseContinuedFraction ''-3.~7~~1'' = Inl e)"
proof -
  have a: "''-'' = [] \<or> ''-'' = ''-''" "''3'' \<noteq> []" "list_all isDigit ''3''"
    by (simp_all add: isDigit_def)
  have wf: "[''7'', ''15'', ''1'', ''292''] \<noteq> [] \<and>
      (\<forall>t \<in> set [''7'', ''15'', ''1'', ''292'']. positiveDecimal t)"
    by code_simp
  have bad: "''7~~1'' \<noteq> ''0'' \<and>
      (includes_str ''7~~1'' ''~~'' \<or> suffix ''~'' ''7~~1'' \<or>
       (\<exists>x \<in> set (split_char CHR ''~'' ''7~~1''). \<not> positiveDecimal x))"
    by code_simp
  have v: "BigInt (''-'' @ ''3'') = - 3" "map BigInt [''7'', ''15'', ''1'', ''292''] = [7, 15, 1, 292]"
    by code_simp+
  from parseContinuedFraction_spec [OF a, of "[''7'', ''15'', ''1'', ''292'']" "''7~~1''"] wf bad v
  show ?thesis by simp
qed

section \<open>Theorems: Parser.promoteType\<close>

text \<open>
  C2, as stated, fails: a point interval with a non-integer value that was written as an
  explicit interval is left as it is, where the second rule of the claim replaces it by
  the Rational.
\<close>

theorem promoteType_explicit_point_counterexample:
  "typeAware \<lparr>typeAware = True, allowIntegerRangeNotation = True, inputBase = Absent, precision = None\<rparr> \<and>
   denominator (1 / 2) \<noteq> 1 \<and>
   promotion_as_specified (RationalInterval (1 / 2) (1 / 2) True False) = Rational (1 / 2) False \<and>
   promoteType (RationalInterval (1 / 2) (1 / 2) True False)
     \<lparr>typeAware = True, allowIntegerRangeNotation = True, inputBase = Absent, precision = None\<rparr>
     = RationalInterval (1 / 2) (1 / 2) True False \<and>
   promoteType (RationalInterval (1 / 2) (1 / 2) True False)
     \<lparr>typeAware = True, allowIntegerRangeNotation = True, inputBase = Absent, precision = None\<rparr>
     \<noteq> promotion_as_specified (RationalInterval (1 / 2) (1 / 2) True False)"
  by code_simp

text \<open>
  C2, amended. In type-aware mode the promotion step replaces a point interval that
  carries neither the explicit-interval nor the skip-promotion marker by the Integer of
  its value when that value is an integer and by the Rational of its value otherwise; it
  replaces a Rational with denominator 1 and no explicit-fraction marker by the Integer of
  its numerator; and it leaves every other value unchanged.
\<close>

theorem promoteType_amended:
  "typeAware opts \<Longrightarrow> promoteType v opts = promotion_amended v"
  by (cases v) (auto simp: promoteType_def promotion_amended_def)

theorem promoteType_amended_witness:
  "typeAware \<lparr>typeAware = True, allowIntegerRangeNotation = True, inputBase = Absent, precision = None\<rparr> \<and>
   promoteType (RationalInterval (6 / 2) (3 / 1) False False)
     \<lparr>typeAware = True, allowIntegerRangeNotation = True, inputBase = Absent, precision = None\<rparr>
     = Integer 3 \<and>
   promoteType (RationalInterval (1 / 2) (2 / 4) False False)
     \<lparr>typeAware = True, allowIntegerRangeNotation = True, inputBase = Absent, precision = None\<rparr>
     = Rational (1 / 2) False \<and>
   promoteType (Rational (4 / 2) False)
     \<lparr>typeAware = True, allowIntegerRangeNotation = True, inputBase = Absent, precision = None\<rparr>
     = Integer 2"
proof -
  let ?o = "\<lparr>typeAware = True, allowIntegerRangeNotation = True, inputBase = Absent, precision = None\<rparr>"
  have h: "typeAware ?o" by simp
  have a: "promotion_amended (RationalInterval (6 / 2) (3 / 1) False False) = Integer 3"
    by code_simp
  have b: "promotion_amended (RationalInterval (1 / 2) (2 / 4) False False) = Rational (1 / 2) False"
    by code_simp
  have c: "promotion_amended (Rational (4 / 2) False) = Integer 2"
    by code_simp
  show ?thesis
    using h a b c promoteType_amended [OF h, of "RationalInterval (6 / 2) (3 / 1) False False"]
      promoteType_amended [OF h, of "RationalInterval (1 / 2) (2 / 4) False False"]
      promoteType_amended [OF h, of "Rational (4 / 2) False"]
    by simp
qed

section \<open>Theorems: parseRepeatingDecimal\<close>

lemma includes_str_single: "includes_str s [c] \<longleftrightarrow> c \<in> set s"
  by (induction s) auto

lemma trim_id: "s \<noteq> [] \<Longrightarrow> \<not> isSpace (hd s) \<Longrightarrow> \<not> isSpace (last s) \<Longrightarrow> trim s = s"
proof -
  assume a: "s \<noteq> []" "\<not> isSpace (hd s)" "\<not> isSpace (last s)"
  then have 1: "dropWhile isSpace s = s" by (cases s) auto
  from a have "rev s \<noteq> []" "\<not> isSpace (hd (rev s))" by (auto simp: hd_rev)
  then have 2: "dropWhile isSpace (rev s) = rev s" by (cases "rev s") auto
  show ?thesis by (simp add: trim_def 1 2)
qed

lemma isDigit_other:
  assumes "isDigit c"
  shows "c \<noteq> CHR ''-''" "c \<noteq> CHR ''.''" "c \<noteq> CHR ''#''" "c \<noteq> CHR ''[''" "c \<noteq> CHR '']''"
    "c \<noteq> CHR '':''" "\<not> isSpace c"
  using assms by (auto simp: isDigit_def isSpace_def)

lemma BigInt_digits_zero: "BigInt_digits (CHR ''0'' # s) = BigInt_digits s"
  by (simp add: BigInt_digits_def digitValue_def)

lemma BigInt_digits_conv: "list_all isDigit s \<Longrightarrow> BigInt s = int (BigInt_digits s)"
  by (cases s) (auto simp: BigInt_def isDigit_def)

lemma BigInt_orElse:
  "list_all isDigit ip \<Longrightarrow> list_all isDigit t \<Longrightarrow> BigInt (orElse ip ''0'' @ t) = int (BigInt_digits (ip @ t))"
proof (cases ip)
  case Nil
  assume "list_all isDigit t"
  then have "list_all isDigit (CHR ''0'' # t)" by (simp add: isDigit_def)
  then have "BigInt (CHR ''0'' # t) = int (BigInt_digits (CHR ''0'' # t))"
    by (rule BigInt_digits_conv)
  with Nil show ?thesis by (simp add: orElse_def BigInt_digits_zero)
next
  case (Cons c cs)
  assume "list_all isDigit ip" "list_all isDigit t"
  then have "list_all isDigit (ip @ t)" by simp
  then have "BigInt (ip @ t) = int (BigInt_digits (ip @ t))"
    by (rule BigInt_digits_conv)
  with Cons show ?thesis by (simp add: orElse_def)
qed

lemma list_all_orElse: "list_all isDigit ip \<Longrightarrow> list_all isDigit (orElse ip ''0'')"
  by (simp add: orElse_def isDigit_def)

lemma decimalPartsOf_dot:
  "list_all isDigit ip \<Longrightarrow> list_all isDigit fp \<Longrightarrow> decimalPartsOf (ip @ CHR ''.'' # fp) = Some (ip, fp)"
proof -
  assume a: "list_all isDigit ip" "list_all isDigit fp"
  then have "CHR ''.'' \<notin> set ip" "CHR ''.'' \<notin> set fp"
    using isDigit_other(2) by (auto simp: list_all_iff)
  then show ?thesis
    by (simp add: decimalPartsOf_def split_char_append split_char_no_sep)
qed

lemma prd_repeating_value:
  assumes "list_all isDigit ip" "list_all isDigit fp" "list_all isDigit rp"
  shows "prd_repeating (ip @ CHR ''.'' # fp) rp neg =
    Inr (Rational (if neg
        then - ((of_int (BigInt (ip @ fp @ rp)) - of_int (BigInt (ip @ fp)))
          / (10 ^ (length fp + length rp) - 10 ^ length fp))
        else (of_int (BigInt (ip @ fp @ rp)) - of_int (BigInt (ip @ fp)))
          / (10 ^ (length fp + length rp) - 10 ^ length fp)) False)"
proof -
  have den: "(of_int (10 ^ length fp * (10 ^ length rp - 1)) :: rat) = 10 ^ (length fp + length rp) - 10 ^ length fp"
    by (simp add: power_add algebra_simps)
  have a: "BigInt (orElse ip ''0'' @ fp @ rp) = BigInt (ip @ fp @ rp)"
    "BigInt (orElse ip ''0'' @ fp) = BigInt (ip @ fp)"
    using assms by (simp_all add: BigInt_orElse BigInt_digits_conv)
  show ?thesis
    using assms den a
    by (simp add: prd_repeating_def decimalPartsOf_dot list_all_orElse Let_def)
qed


lemma prd_terminating_value:
  assumes "list_all isDigit ip" "list_all isDigit fp"
  shows "prd_terminating (ip @ CHR ''.'' # fp) neg =
    Inr (Rational (if neg then - (of_int (BigInt (ip @ fp)) / 10 ^ length fp)
                   else of_int (BigInt (ip @ fp)) / 10 ^ length fp) False)"
proof -
  have a: "BigInt (orElse ip ''0'' @ fp) = BigInt (ip @ fp)"
    using assms by (simp add: BigInt_orElse BigInt_digits_conv)
  have b: "BigInt (orElse ip ''0'') = BigInt ip"
    using BigInt_orElse [of ip "[]"] assms by (simp add: BigInt_digits_conv)
  show ?thesis
    using assms a b
    by (cases "fp = []") (simp_all add: prd_terminating_def catch_def decimalPartsOf_dot list_all_orElse Let_def)
qed

lemma parseRepeatingDecimal_body_scalar:
  assumes "str0 \<noteq> []" "trim str0 = str" "\<not> includes_str str ''[''" "\<not> includes_str str '':''"
    "(if prefix ''-'' str then tl str else str) = body" "includes_str body ''#''"
    "split_char CHR ''#'' body = [nrp, rp]" "rp \<noteq> []" "list_all isDigit rp"
  shows "parseRepeatingDecimal_body prd pdu str0 =
     (if rp = ''0'' then prd_terminating nrp (prefix ''-'' str)
      else prd_repeating nrp rp (prefix ''-'' str))"
proof -
  have "(let isNegative = prefix ''-'' str; str' = (if isNegative then tl str else str)
         in if \<not> includes_str str' ''#'' then parseNonRepeatingDecimal str' isNegative
            else (case split_char CHR ''#'' str' of
                  [nonRepeatingPart, repeatingPart] \<Rightarrow>
                    if \<not> (repeatingPart \<noteq> [] \<and> list_all isDigit repeatingPart)
                    then Inl (Error ''Repeating part must contain only digits'')
                    else if repeatingPart = ''0'' then prd_terminating nonRepeatingPart isNegative
                    else prd_repeating nonRepeatingPart repeatingPart isNegative
                | _ \<Rightarrow> Inl (Error ''Invalid repeating decimal format. Use format like 0.12#45'')))
      = (if rp = ''0'' then prd_terminating nrp (prefix ''-'' str)
         else prd_repeating nrp rp (prefix ''-'' str))"
    unfolding Let_def assms(5) using assms(6-9) by simp
  then show ?thesis
    unfolding parseRepeatingDecimal_body_def using assms(1-4) by (simp add: Let_def)
qed

text \<open>
  C1. For an optional minus sign and runs of decimal digits \<open>ip\<close>, \<open>fp\<close> and \<open>rp\<close>
  (\<open>rp\<close> not empty), parseRepeatingDecimal returns on \<open>ip.fp#rp\<close> the Rational with the
  value of section 4.B.3, negated under a leading minus sign; for \<open>rp = 0\<close> this is the
  terminating decimal \<open>ip.fp\<close>. One level of recursion depth suffices.
\<close>

theorem parseRepeatingDecimal_exact:
  assumes sg: "sg = [] \<or> sg = ''-''"
    and ip: "list_all isDigit ip" and fp: "list_all isDigit fp"
    and rp: "rp \<noteq> []" "list_all isDigit rp"
  shows "parseRepeatingDecimal (Suc n) reg (sg @ ip @ ''.'' @ fp @ ''#'' @ rp) =
    Inr (Rational (if sg = ''-'' then - repeatingDecimalValue ip fp rp
                   else repeatingDecimalValue ip fp rp) False)"
proof -
  let ?body = "ip @ CHR ''.'' # fp @ CHR ''#'' # rp"
  let ?str = "sg @ ?body"
  have chars: "set ?str \<subseteq> {c. isDigit c} \<union> {CHR ''-'', CHR ''.'', CHR ''#''}"
    using sg ip fp rp by (auto simp: list_all_iff)
  have ne: "?str \<noteq> []" by simp
  have hd: "\<not> isSpace (hd ?str)"
  proof -
    have "hd ?str \<in> set ?str" using ne by (rule hd_in_set)
    with chars show ?thesis by (auto simp: isDigit_def isSpace_def)
  qed
  have last: "\<not> isSpace (last ?str)"
    using rp by (auto simp: list_all_iff isDigit_other)
  have trim: "trim ?str = ?str"
    using ne hd last by (rule trim_id)
  have nobr: "\<not> includes_str ?str ''[''"
    using chars by (auto simp: includes_str_single isDigit_def)
  have nocol: "\<not> includes_str ?str '':''"
    using chars by (auto simp: includes_str_single isDigit_def)
  have neg: "prefix ''-'' ?str \<longleftrightarrow> sg = ''-''"
  proof (cases "sg = ''-''")
    case True
    then show ?thesis by simp
  next
    case False
    with sg have e: "sg = []" by simp
    have "hd ?body \<noteq> CHR ''-''"
      using ip by (cases ip) (auto simp: isDigit_def)
    then have "\<not> prefix ''-'' ?body"
      by (cases ?body) auto
    with e False show ?thesis by simp
  qed
  have strip: "(if prefix ''-'' ?str then tl ?str else ?str) = ?body"
    using neg sg by auto
  have hash: "includes_str ?body ''#''"
    by (simp add: includes_str_single)
  have nh: "CHR ''#'' \<notin> set (ip @ CHR ''.'' # fp)" "CHR ''#'' \<notin> set rp"
    using ip fp rp isDigit_other(3) by (auto simp: list_all_iff)
  have split: "split_char CHR ''#'' ?body = [ip @ CHR ''.'' # fp, rp]"
    using split_char_append [of "CHR ''#''" "ip @ CHR ''.'' # fp" rp] nh
    by (simp add: split_char_no_sep)
  have "parseRepeatingDecimal (Suc n) reg ?str =
      (if rp = ''0'' then prd_terminating (ip @ CHR ''.'' # fp) (prefix ''-'' ?str)
       else prd_repeating (ip @ CHR ''.'' # fp) rp (prefix ''-'' ?str))"
    unfolding parseRepeatingDecimal.simps
    by (rule parseRepeatingDecimal_body_scalar [OF ne trim nobr nocol strip hash split rp])
  then have "parseRepeatingDecimal (Suc n) reg ?str =
      (if rp = ''0'' then prd_terminating (ip @ CHR ''.'' # fp) (sg = ''-'')
       else prd_repeating (ip @ CHR ''.'' # fp) rp (sg = ''-''))"
    unfolding neg .
  then show ?thesis
    using ip fp rp
    by (simp add: prd_terminating_value prd_repeating_value repeatingDecimalValue_def)
qed

theorem parseRepeatingDecimal_exact_witness:
  "parseRepeatingDecimal 1 (\<lambda>c. None) ''-0.12#45'' = Inr (Rational (- (137 / 1100)) False) \<and>
   parseRepeatingDecimal 1 (\<lambda>c. None) ''1.23#0'' = Inr (Rational (123 / 100) False) \<and>
   parseRepeatingDecimal 1 (\<lambda>c. None) ''733.#3'' = Inr (Rational (2200 / 3) False)"
proof -
  have d: "list_all isDigit ''0''" "list_all isDigit ''12''" "list_all isDigit ''45''"
    "list_all isDigit ''1''" "list_all isDigit ''23''" "list_all isDigit ''733''"
    "list_all isDigit []" "list_all isDigit ''3''"
    by code_simp+
  have v: "repeatingDecimalValue ''0'' ''12'' ''45'' = 137 / 1100"
    "repeatingDecimalValue ''1'' ''23'' ''0'' = 123 / 100"
    "repeatingDecimalValue ''733'' [] ''3'' = 2200 / 3"
    by code_simp+
  have 1: "parseRepeatingDecimal 1 (\<lambda>c. None) ''-0.12#45'' = Inr (Rational (- (137 / 1100)) False)"
    using parseRepeatingDecimal_exact [of "''-''" "''0''" "''12''" "''45''" 0 "\<lambda>c. None"] d v by simp
  have 2: "parseRepeatingDecimal 1 (\<lambda>c. None) ''1.23#0'' = Inr (Rational (123 / 100) False)"
    using parseRepeatingDecimal_exact [of "[]" "''1''" "''23''" "''0''" 0 "\<lambda>c. None"] d v by simp
  have 3: "parseRepeatingDecimal 1 (\<lambda>c. None) ''733.#3'' = Inr (Rational (2200 / 3) False)"
    using parseRepeatingDecimal_exact [of "[]" "''733''" "[]" "''3''" 0 "\<lambda>c. None"] d v by simp
  from 1 2 3 show ?thesis by simp
qed

section \<open>Theorems: parseDecimalUncertainty\<close>

lemma uncertaintyMatch_shape:
  assumes "sg = [] \<or> sg = ''-''" "b \<noteq> []" "list_all isUncertaintyBaseChar b"
    "u \<noteq> []" "CHR '']'' \<notin> set u"
  shows "uncertaintyMatch (sg @ b @ CHR ''['' # u @ '']'') = Some (sg @ b, u, [])"
proof -
  have nb: "\<not> isUncertaintyBaseChar CHR ''[''" "\<not> isUncertaintyBaseChar CHR ''-''"
    by (simp_all add: isUncertaintyBaseChar_def isWordChar_def isLetter_def isLower_def isUpper_def isDigit_def)
  have tw: "takeWhile isUncertaintyBaseChar (b @ CHR ''['' # u @ '']'') = b"
    using assms(3) nb by (simp add: takeWhile_append2 list_all_iff)
  have dw: "dropWhile isUncertaintyBaseChar (b @ CHR ''['' # u @ '']'') = CHR ''['' # u @ '']''"
    using assms(3) nb by (simp add: dropWhile_append2 list_all_iff)
  have tu: "takeWhile (\<lambda>d. d \<noteq> CHR '']'') (u @ '']'') = u"
    using assms(5) by (induction u) auto
  have du: "dropWhile (\<lambda>d. d \<noteq> CHR '']'') (u @ '']'') = '']''"
    using assms(5) by (induction u) auto
  have pre: "prefix ''-'' (sg @ b @ CHR ''['' # u @ '']'') \<longleftrightarrow> sg = ''-''"
  proof (cases "sg = ''-''")
    case True
    then show ?thesis by simp
  next
    case False
    with assms(1) have e: "sg = []" by simp
    obtain c cs where b: "b = c # cs" using assms(2) by (cases b) auto
    with assms(3) nb(2) have "c \<noteq> CHR ''-''" by auto
    with e b False show ?thesis by simp
  qed
  from assms(1) show ?thesis
  proof
    assume "sg = []"
    with pre have "\<not> prefix ''-'' (b @ CHR ''['' # u @ '']'')" by simp
    with \<open>sg = []\<close> show ?thesis
      using tw dw tu du assms(2,4) by (simp add: uncertaintyMatch_def Let_def)
  next
    assume "sg = ''-''"
    then show ?thesis
      using tw dw tu du assms(2,4) by (simp add: uncertaintyMatch_def Let_def)
  qed
qed

lemma value_add_scalar:
  "scalarOf a = Some x \<Longrightarrow> scalarOf b = Some y \<Longrightarrow> \<exists>v. value_add a b = Inr v \<and> scalarOf v = Some (x + y)"
  by (cases a; cases b) (auto simp: value_add_def)

lemma value_subtract_scalar:
  "scalarOf a = Some x \<Longrightarrow> scalarOf b = Some y \<Longrightarrow> \<exists>v. value_subtract a b = Inr v \<and> scalarOf v = Some (x - y)"
  by (cases a; cases b) (auto simp: value_subtract_def)

lemma value_multiply_scalar:
  "scalarOf a = Some x \<Longrightarrow> scalarOf b = Some y \<Longrightarrow> \<exists>v. value_multiply a b = Inr v \<and> scalarOf v = Some (x * y)"
  by (cases a; cases b) (auto simp: value_multiply_def)

lemma symmetric_bounds:
  assumes "scalarOf bv = Some b" "scalarOf sv = Some s"
  shows "rbind (value_add bv sv) (\<lambda>upperBound.
         rbind (value_subtract bv sv) (\<lambda>lowerBound. intervalOfValues lowerBound upperBound))
         = Inr (newRationalInterval (b - s) (b + s))"
proof -
  obtain u where u: "value_add bv sv = Inr u" "scalarOf u = Some (b + s)"
    using value_add_scalar [OF assms] by blast
  obtain l where l: "value_subtract bv sv = Inr l" "scalarOf l = Some (b - s)"
    using value_subtract_scalar [OF assms] by blast
  show ?thesis by (simp add: rbind_def u l intervalOfValues_def)
qed

lemma pdu_symmetric_value:
  assumes "x \<noteq> []" "length pm = 2"
    "parseRepeatingDecimalOrRegular prd n reg x ib = Inr ov" "scalarOf ov = Some off"
    "scalarOf bv = Some b"
  shows "pdu_symmetric prd n reg baseStr bv (pm @ x) d ib =
           Inr (newRationalInterval
                  (b - off * (if d = 0 \<and> CHR ''.'' \<notin> set baseStr then 1 else symmetricScale ib d x))
                  (b + off * (if d = 0 \<and> CHR ''.'' \<notin> set baseStr then 1 else symmetricScale ib d x)))"
proof (cases "d = 0 \<and> CHR ''.'' \<notin> set baseStr")
  case True
  show ?thesis
    using assms True symmetric_bounds [OF assms(5) assms(4)]
    by (simp add: pdu_symmetric_def rbind_def includes_str_single Let_def)
next
  case False
  define p where "p = (if prefix ''#'' x then d else d + 1)"
  define s where "s = 1 / (of_int (int (base ib)) :: rat) ^ p"
  have ss: "symmetricScale ib d x = s"
    by (simp add: symmetricScale_def s_def p_def)
  have sc: "scalarOf (Rational s False) = Some s" by simp
  obtain so where so: "value_multiply ov (Rational s False) = Inr so" "scalarOf so = Some (off * s)"
    using value_multiply_scalar [OF assms(4) sc] by blast
  have "pdu_symmetric prd n reg baseStr bv (pm @ x) d ib =
      rbind (value_multiply ov (Rational s False)) (\<lambda>scaledOffset.
        rbind (value_add bv scaledOffset) (\<lambda>upperBound.
        rbind (value_subtract bv scaledOffset) (\<lambda>lowerBound.
          intervalOfValues lowerBound upperBound)))"
    using assms(1-3) False
    by (auto simp: pdu_symmetric_def includes_str_single Let_def s_def p_def rbind_def)
  also have "\<dots> = Inr (newRationalInterval (b - off * s) (b + off * s))"
    using symmetric_bounds [OF assms(5) so(2)] by (simp add: so(1) rbind_def)
  finally show ?thesis using False by (auto simp: ss)
qed

lemma isPlainDigit_other:
  assumes "isPlainDigit c"
  shows "c \<noteq> CHR ''.''" "c \<noteq> CHR ''-''" "isWordChar c" "isUncertaintyBaseChar c"
  using assms
  by (auto simp: isPlainDigit_def isUncertaintyBaseChar_def isWordChar_def isLetter_def isLower_def
      isUpper_def isDigit_def)

lemma plain_no_point: "list_all isPlainDigit s \<Longrightarrow> CHR ''.'' \<notin> set s"
  using isPlainDigit_other(1) by (induction s) auto

lemma plain_base_chars: "list_all isPlainDigit s \<Longrightarrow> list_all isUncertaintyBaseChar s"
  using isPlainDigit_other(4) by (induction s) auto

lemma plain_word_chars: "list_all isPlainDigit s \<Longrightarrow> list_all (\<lambda>c. isWordChar c \<or> c \<in> set ''^/'') s"
  using isPlainDigit_other(3) by (induction s) auto

text \<open>
  The count that the regular expression of the code yields on a plain base text is the
  number of digits after the decimal point.
\<close>

lemma baseDecimalPlacesOf_plain:
  assumes sg: "sg = [] \<or> sg = ''-''" and ip: "list_all isPlainDigit ip" and fp: "list_all isPlainDigit fp"
  shows "baseDecimalPlacesOf (sg @ ip @ CHR ''.'' # fp) = length fp"
proof -
  have "takeWhile (\<lambda>c. c \<noteq> CHR ''.'') (rev fp @ CHR ''.'' # rev ip @ rev sg) = rev fp"
    using plain_no_point [OF fp] by (subst takeWhile_append2) auto
  then have t: "rev (takeWhile (\<lambda>c. c \<noteq> CHR ''.'') (rev (sg @ ip @ CHR ''.'' # fp))) = fp"
    by simp
  show ?thesis
    unfolding baseDecimalPlacesOf_def t Let_def
    using plain_word_chars [OF fp] by simp
qed

lemma baseDecimalPlacesOf_integer:
  assumes sg: "sg = [] \<or> sg = ''-''" and ip: "list_all isPlainDigit ip"
  shows "baseDecimalPlacesOf (sg @ ip) = 0" "CHR ''.'' \<notin> set (sg @ ip)"
proof -
  show p: "CHR ''.'' \<notin> set (sg @ ip)"
    using sg plain_no_point [OF ip] by auto
  then show "baseDecimalPlacesOf (sg @ ip) = 0"
    by (simp add: baseDecimalPlacesOf_def)
qed

lemma finalize_none:
  "rbind m (\<lambda>interval. if ([]::string) \<noteq> [] then f interval else Inr interval) = m"
  by (cases m) (simp_all add: rbind_def)

lemma parseDecimalUncertainty_symmetric:
  assumes sg: "sg = [] \<or> sg = ''-''"
    and bs: "bs \<noteq> []" "list_all isUncertaintyBaseChar bs"
    and pm: "pm = ''+-'' \<or> pm = ''-+''"
    and x: "x \<noteq> []" "CHR '']'' \<notin> set x"
    and bv: "parseBaseNotation n reg (sg @ bs) (inputBaseOf opts) (opts\<lparr>typeAware := True\<rparr>) = Inr bv"
  shows "parseDecimalUncertainty prd n reg (sg @ bs @ ''['' @ pm @ x @ '']'') opts =
     pdu_symmetric prd n reg (sg @ bs) bv (pm @ x) (baseDecimalPlacesOf (sg @ bs)) (inputBaseOf opts)"
proof -
  let ?u = "pm @ x"
  have u: "?u \<noteq> []" "CHR '']'' \<notin> set ?u"
    using pm x by auto
  have m: "uncertaintyMatch (sg @ bs @ CHR ''['' # ?u @ '']'') = Some (sg @ bs, ?u, [])"
    by (rule uncertaintyMatch_shape [OF sg bs u])
  have plus: "includes_str ?u ''+''"
    using pm by (auto simp: includes_str_single)
  have pre: "prefix ''+-'' ?u \<or> prefix ''-+'' ?u"
    using pm by auto
  have "parseDecimalUncertainty prd n reg (sg @ bs @ CHR ''['' # ?u @ '']'') opts =
      pdu_symmetric prd n reg (sg @ bs) bv ?u (baseDecimalPlacesOf (sg @ bs)) (inputBaseOf opts)"
    unfolding parseDecimalUncertainty_def Let_def m
    using plus pre bv by (simp add: finalize_none) (simp add: rbind_def split: sum.splits)
  then show ?thesis by simp
qed

text \<open>
  C3, amended. Take a symmetric literal \<open>base[+-x]\<close> or \<open>base[-+x]\<close> whose base text is
  plain: an optional minus sign, digits (letters or decimal digits; in base ten neither
  \<open>E\<close> nor \<open>e\<close>) and at most one decimal point. Let the base text be decoded (by
  parseBaseNotation, type-aware) to the scalar \<open>b\<close> and the offset text to the scalar
  \<open>off\<close>. If the base text has no decimal point, the offset is applied unscaled and the
  result is the interval from \<open>b - off\<close> to \<open>b + off\<close>. If it has a decimal point followed
  by \<open>d\<close> digits (\<open>d\<close> may be 0), the result is the interval from \<open>b - off * s\<close> to
  \<open>b + off * s\<close>, where \<open>s\<close> is the input base to the power \<open>-(d + 1)\<close>, or to the power
  \<open>-d\<close> when \<open>x\<close> starts with \<open>#\<close>.
\<close>

theorem symmetric_uncertainty_amended:
  assumes sg: "sg = [] \<or> sg = ''-''"
    and ip: "list_all isPlainDigit ip" and fp: "list_all isPlainDigit fp"
    and sci: "base (inputBaseOf opts) = 10 \<longrightarrow> CHR ''E'' \<notin> set (ip @ fp) \<and> CHR ''e'' \<notin> set (ip @ fp)"
    and pm: "pm = ''+-'' \<or> pm = ''-+''"
    and x: "x \<noteq> []" "CHR '']'' \<notin> set x"
    and ov: "parseRepeatingDecimalOrRegular prd n reg x (inputBaseOf opts) = Inr ov"
      "scalarOf ov = Some off"
  shows "(ip \<noteq> [] \<and>
          parseBaseNotation n reg (sg @ ip) (inputBaseOf opts) (opts\<lparr>typeAware := True\<rparr>) = Inr bv \<and>
          scalarOf bv = Some b
          \<longrightarrow> parseDecimalUncertainty prd n reg (sg @ ip @ ''['' @ pm @ x @ '']'') opts
                = Inr (newRationalInterval (b - off) (b + off))) \<and>
         (parseBaseNotation n reg (sg @ ip @ ''.'' @ fp) (inputBaseOf opts) (opts\<lparr>typeAware := True\<rparr>) = Inr bv' \<and>
          scalarOf bv' = Some b'
          \<longrightarrow> parseDecimalUncertainty prd n reg (sg @ ip @ ''.'' @ fp @ ''['' @ pm @ x @ '']'') opts
                = Inr (newRationalInterval
                         (b' - off * symmetricScale (inputBaseOf opts) (length fp) x)
                         (b' + off * symmetricScale (inputBaseOf opts) (length fp) x)))"
proof (intro conjI impI)
  have len: "length pm = 2" using pm by auto
  {
    assume h: "ip \<noteq> [] \<and>
          parseBaseNotation n reg (sg @ ip) (inputBaseOf opts) (opts\<lparr>typeAware := True\<rparr>) = Inr bv \<and>
          scalarOf bv = Some b"
    note z = baseDecimalPlacesOf_integer [OF sg ip]
    have "parseDecimalUncertainty prd n reg (sg @ ip @ ''['' @ pm @ x @ '']'') opts =
        pdu_symmetric prd n reg (sg @ ip) bv (pm @ x) (baseDecimalPlacesOf (sg @ ip)) (inputBaseOf opts)"
      using h by (intro parseDecimalUncertainty_symmetric [OF sg _ plain_base_chars [OF ip] pm x]) simp_all
    also have "\<dots> = Inr (newRationalInterval (b - off) (b + off))"
      unfolding z(1) using pdu_symmetric_value [OF x(1) len ov, of bv b "sg @ ip" 0] h z(2) by simp
    finally show "parseDecimalUncertainty prd n reg (sg @ ip @ ''['' @ pm @ x @ '']'') opts
                = Inr (newRationalInterval (b - off) (b + off))" .
  }
  {
    assume h: "parseBaseNotation n reg (sg @ ip @ ''.'' @ fp) (inputBaseOf opts) (opts\<lparr>typeAware := True\<rparr>) = Inr bv' \<and>
          scalarOf bv' = Some b'"
    let ?bs = "ip @ CHR ''.'' # fp"
    have d: "baseDecimalPlacesOf (sg @ ?bs) = length fp"
      by (rule baseDecimalPlacesOf_plain [OF sg ip fp])
    have pt: "CHR ''.'' \<in> set (sg @ ?bs)" by simp
    have bc: "list_all isUncertaintyBaseChar ?bs"
      using plain_base_chars [OF ip] plain_base_chars [OF fp] by (simp add: isUncertaintyBaseChar_def)
    have "parseDecimalUncertainty prd n reg (sg @ ?bs @ ''['' @ pm @ x @ '']'') opts =
        pdu_symmetric prd n reg (sg @ ?bs) bv' (pm @ x) (baseDecimalPlacesOf (sg @ ?bs)) (inputBaseOf opts)"
      using h by (intro parseDecimalUncertainty_symmetric [OF sg _ bc pm x]) simp_all
    also have "\<dots> = Inr (newRationalInterval
                         (b' - off * symmetricScale (inputBaseOf opts) (length fp) x)
                         (b' + off * symmetricScale (inputBaseOf opts) (length fp) x))"
      unfolding d using pdu_symmetric_value [OF x(1) len ov, of bv' b' "sg @ ?bs" "length fp"] h pt
      by simp
    finally show "parseDecimalUncertainty prd n reg (sg @ ip @ ''.'' @ fp @ ''['' @ pm @ x @ '']'') opts
                = Inr (newRationalInterval
                         (b' - off * symmetricScale (inputBaseOf opts) (length fp) x)
                         (b' + off * symmetricScale (inputBaseOf opts) (length fp) x))"
      by simp
  }
qed

theorem symmetric_uncertainty_amended_witness:
  "list_all isPlainDigit ''1'' \<and> list_all isPlainDigit ''3'' \<and> list_all isPlainDigit ''2'' \<and>
   list_all isPlainDigit ''78'' \<and>
   base (inputBaseOf defaultOptions) = 10 \<and> CHR ''E'' \<notin> set (''1'' @ ''3'') \<and> CHR ''e'' \<notin> set (''1'' @ ''3'') \<and>
   parseBaseNotation 2 (\<lambda>c. None) ''1.3'' (inputBaseOf defaultOptions) (defaultOptions\<lparr>typeAware := True\<rparr>)
     = Inr (Rational (13 / 10) False) \<and>
   parseRepeatingDecimalOrRegular (parseRepeatingDecimal 1 (\<lambda>c. None)) 2 (\<lambda>c. None) ''1'' (inputBaseOf defaultOptions)
     = Inr (Rational 1 False) \<and>
   symmetricScale (inputBaseOf defaultOptions) (length ''3'') ''1'' = 1 / 100 \<and>
   symmetricScale (inputBaseOf defaultOptions) (length ''2'') ''#3'' = 1 / 10 \<and>
   parseDecimalUncertainty (parseRepeatingDecimal 1 (\<lambda>c. None)) 2 (\<lambda>c. None) ''1.3[+-1]'' defaultOptions
     = Inr (RationalInterval (129 / 100) (131 / 100) False False) \<and>
   parseDecimalUncertainty (parseRepeatingDecimal 1 (\<lambda>c. None)) 2 (\<lambda>c. None) ''-1.2[-+#3]'' defaultOptions
     = Inr (RationalInterval (- (37 / 30)) (- (7 / 6)) False False) \<and>
   parseDecimalUncertainty (parseRepeatingDecimal 1 (\<lambda>c. None)) 2 (\<lambda>c. None) ''78[+-10]'' defaultOptions
     = Inr (RationalInterval 68 88 False False)"
proof -
  let ?prd = "parseRepeatingDecimal 1 (\<lambda>c. None)"
  let ?reg = "\<lambda>c :: char. None :: BaseSystem option"
  let ?ib = "inputBaseOf defaultOptions"
  let ?ta = "defaultOptions\<lparr>typeAware := True\<rparr>"
  have sg: "[] = [] \<or> [] = ''-''" "''-'' = [] \<or> ''-'' = ''-''" by simp_all
  have pd: "list_all isPlainDigit ''1''" "list_all isPlainDigit ''3''" "list_all isPlainDigit ''2''"
    "list_all isPlainDigit ''78''" "list_all isPlainDigit []"
    by code_simp+
  have sci: "base ?ib = 10 \<longrightarrow> CHR ''E'' \<notin> set (''1'' @ ''3'') \<and> CHR ''e'' \<notin> set (''1'' @ ''3'')"
    "base ?ib = 10 \<longrightarrow> CHR ''E'' \<notin> set (''1'' @ ''2'') \<and> CHR ''e'' \<notin> set (''1'' @ ''2'')"
    "base ?ib = 10 \<longrightarrow> CHR ''E'' \<notin> set (''78'' @ []) \<and> CHR ''e'' \<notin> set (''78'' @ [])"
    by simp_all
  have ten: "base ?ib = 10" "CHR ''E'' \<notin> set (''1'' @ ''3'')" "CHR ''e'' \<notin> set (''1'' @ ''3'')"
    by code_simp+
  have pm: "''+-'' = ''+-'' \<or> ''+-'' = ''-+''" "''-+'' = ''+-'' \<or> ''-+'' = ''-+''" by simp_all
  have x: "''1'' \<noteq> []" "CHR '']'' \<notin> set ''1''" "''#3'' \<noteq> []" "CHR '']'' \<notin> set ''#3''"
    "''10'' \<noteq> []" "CHR '']'' \<notin> set ''10''"
    by simp_all
  have sc: "symmetricScale ?ib (length ''3'') ''1'' = 1 / 100"
    "symmetricScale ?ib (length ''2'') ''#3'' = 1 / 10"
    by code_simp+
  have sc': "symmetricScale ?ib (Suc 0) ''1'' = 1 / 100"
    "symmetricScale ?ib (Suc 0) ''#3'' = 1 / 10"
    by code_simp+
  have b1: "parseBaseNotation 2 ?reg ''1.3'' ?ib ?ta = Inr (Rational (13 / 10) False)"
    by code_simp
  have o1: "parseRepeatingDecimalOrRegular ?prd 2 ?reg ''1'' ?ib = Inr (Rational 1 False)"
    by code_simp
  have r1: "newRationalInterval (13 / 10 - 1 * (1 / 100)) (13 / 10 + 1 * (1 / 100))
      = RationalInterval (129 / 100) (131 / 100) False False"
    by code_simp
  have 1: "parseDecimalUncertainty ?prd 2 ?reg ''1.3[+-1]'' defaultOptions
     = Inr (RationalInterval (129 / 100) (131 / 100) False False)"
    using symmetric_uncertainty_amended [OF sg(1) pd(1) pd(2) sci(1) pm(1) x(1,2) o1,
        where off = 1 and bv' = "Rational (13 / 10) False" and b' = "13 / 10"] b1 r1
    by (simp add: sc')
  have b2: "parseBaseNotation 2 ?reg ''-1.2'' ?ib ?ta = Inr (Rational (- (6 / 5)) False)"
    by code_simp
  have o2: "parseRepeatingDecimalOrRegular ?prd 2 ?reg ''#3'' ?ib = Inr (Rational (1 / 3) False)"
    by code_simp
  have r2: "newRationalInterval (- (6 / 5) - 1 / 3 * (1 / 10)) (- (6 / 5) + 1 / 3 * (1 / 10))
      = RationalInterval (- (37 / 30)) (- (7 / 6)) False False"
    by code_simp
  have 2: "parseDecimalUncertainty ?prd 2 ?reg ''-1.2[-+#3]'' defaultOptions
     = Inr (RationalInterval (- (37 / 30)) (- (7 / 6)) False False)"
    using symmetric_uncertainty_amended [OF sg(2) pd(1) pd(3) sci(2) pm(2) x(3,4) o2,
        where off = "1 / 3" and bv' = "Rational (- (6 / 5)) False" and b' = "- (6 / 5)"] b2 r2
    by (simp add: sc')
  have b3: "parseBaseNotation 2 ?reg ''78'' ?ib ?ta = Inr (Integer 78)"
    by code_simp
  have o3: "parseRepeatingDecimalOrRegular ?prd 2 ?reg ''10'' ?ib = Inr (Rational 10 False)"
    by code_simp
  have r3: "newRationalInterval (78 - 10) (78 + 10) = RationalInterval 68 88 False False"
    by code_simp
  have 3: "parseDecimalUncertainty ?prd 2 ?reg ''78[+-10]'' defaultOptions
     = Inr (RationalInterval 68 88 False False)"
    using symmetric_uncertainty_amended [OF sg(1) pd(4) pd(5) sci(3) pm(1) x(5,6) o3,
        where off = 10 and bv = "Integer 78" and b = 78] b3 r3
    by simp
  from pd ten b1 o1 sc 1 2 3 show ?thesis by blast
qed

text \<open>
  C3, as stated, fails twice. On the integer base \<open>78\<close> (no fractional digits, \<open>d = 0\<close>) the
  offset 10 is not scaled by \<open>10^-1\<close>: the result is [68, 88], not [77, 79]. And the
  offset \<open>33.#3\<close>, a repeating-decimal literal, is scaled by \<open>10^-(d+1)\<close> and not by
  \<open>10^-d\<close> after the base \<open>0.5\<close>: the result is [1/6, 5/6].
\<close>

theorem symmetric_integer_base_counterexample:
  "parseDecimalUncertainty (parseRepeatingDecimal 1 (\<lambda>c. None)) 2 (\<lambda>c. None) ''78[+-10]'' defaultOptions
     = Inr (RationalInterval 68 88 False False) \<and>
   baseDecimalPlacesOf ''78'' = 0 \<and>
   RationalInterval 68 88 False False
     \<noteq> newRationalInterval (78 - 10 * (1 / 10 ^ (0 + 1))) (78 + 10 * (1 / 10 ^ (0 + 1))) \<and>
   parseDecimalUncertainty (parseRepeatingDecimal 1 (\<lambda>c. None)) 2 (\<lambda>c. None) ''0.5[+-33.#3]'' defaultOptions
     = Inr (RationalInterval (1 / 6) (5 / 6) False False) \<and>
   baseDecimalPlacesOf ''0.5'' = 1 \<and>
   parseRepeatingDecimal 1 (\<lambda>c. None) ''33.#3'' = Inr (Rational (100 / 3) False) \<and>
   RationalInterval (1 / 6) (5 / 6) False False
     \<noteq> newRationalInterval (1 / 2 - 100 / 3 * (1 / 10 ^ 1)) (1 / 2 + 100 / 3 * (1 / 10 ^ 1))"
  by (intro conjI; code_simp)

text \<open>
  C6. The symmetric form does not reject scientific notation in its base: \<open>1E2[+-1]\<close> is
  decoded to [99, 101] and \<open>1.5_^2[-+1]\<close> to an interval around 150, while the range and
  the relative form of the same base are rejected with the message of the check.
\<close>

theorem symmetric_accepts_scientific_base:
  "parseDecimalUncertainty (parseRepeatingDecimal 1 (\<lambda>c. None)) 2 (\<lambda>c. None) ''1E2[+-1]'' defaultOptions
     = Inr (RationalInterval 99 101 False False) \<and>
   parseDecimalUncertainty (parseRepeatingDecimal 1 (\<lambda>c. None)) 2 (\<lambda>c. None) ''1.5_^2[-+1]'' defaultOptions
     = Inr (RationalInterval (14999999 / 100000) (15000001 / 100000) False False) \<and>
   parseDecimalUncertainty (parseRepeatingDecimal 1 (\<lambda>c. None)) 2 (\<lambda>c. None) ''1E2[56,67]'' defaultOptions
     = Inl (Error ''Uncertainty notation cannot be used with scientific notation in the base value'') \<and>
   parseDecimalUncertainty (parseRepeatingDecimal 1 (\<lambda>c. None)) 2 (\<lambda>c. None) ''1E2[+4,-5]'' defaultOptions
     = Inl (Error ''Uncertainty notation cannot be used with scientific notation in the base value'')"
  by (intro conjI; code_simp)


section \<open>Theorems: the expression parser\<close>

lemma parseTerm_done:
  "parseFactor (Suc j) lib e opts = Inr (v, rest) \<Longrightarrow> \<not> continuesTerm rest \<Longrightarrow>
   parseTerm (Suc (Suc j)) lib e opts = Inr (promoteType v opts, rest)"
  by (simp add: rbind_def)

lemma parseExpression_done:
  "parseTerm (Suc j) lib e opts = Inr (v, rest) \<Longrightarrow> \<not> continuesExpression rest \<Longrightarrow>
   parseExpression (Suc (Suc j)) lib e opts = Inr (promoteType v opts, rest)"
  by (simp add: rbind_def)

lemma parse_done:
  "parseExpression n lib (preprocess s) opts = Inr (v, []) \<Longrightarrow> trim s \<noteq> [] \<Longrightarrow>
   parse n lib s opts = Inr v"
  by (auto simp: parse_def rbind_def trim_def)

lemma parse_of_factor:
  assumes "parseFactor (Suc j) lib (preprocess s) opts = Inr (v, [])" "trim s \<noteq> []"
  shows "parse (Suc (Suc (Suc j))) lib s opts = Inr (promoteType (promoteType v opts) opts)"
proof -
  have t: "parseTerm (Suc (Suc j)) lib (preprocess s) opts = Inr (promoteType v opts, [])"
    using assms(1) by (rule parseTerm_done) (simp add: continuesTerm_def)
  have e: "parseExpression (Suc (Suc (Suc j))) lib (preprocess s) opts
      = Inr (promoteType (promoteType v opts) opts, [])"
    using t by (rule parseExpression_done) (simp add: continuesExpression_def)
  show ?thesis using e assms(2) by (rule parse_done)
qed

lemma promoteType_idem: "promoteType (promoteType v opts) opts = promoteType v opts"
  by (cases v) (auto simp: promoteType_def)


subsection \<open>Factorials\<close>

lemma factorialStep_single:
  assumes "\<not> prefix ''!'' r"
  shows "factorialStep (v, CHR ''!'' # r) =
     (case v of
           Integer z \<Rightarrow>
             rbind (Integer_factorial z) (\<lambda>f. Inr (Integer f, r))
         | Rational q ef \<Rightarrow>
             if denominator q = 1 then
               rbind (Integer_factorial (numerator q))
                 (\<lambda>f. Inr (Rational (toRational f) False, r))
             else Inl (Error ''Factorial is not defined for negative integers'')
         | RationalInterval lo hi ei sp \<Rightarrow>
             if lo = hi \<and> denominator lo = 1 then
               rbind (Integer_factorial (numerator lo))
                 (\<lambda>f. Inr (newRationalInterval (toRational f) (toRational f), r))
             else Inl (Error ''Factorial is not defined for negative integers''))"
  using assms by (cases r; cases v) (auto simp: factorialStep_def One_nat_def)

lemma factorialStep_double:
  "factorialStep (v, CHR ''!'' # CHR ''!'' # r) =
     (case v of
           Integer z \<Rightarrow>
             rbind (Integer_doubleFactorial z) (\<lambda>f. Inr (Integer f, r))
         | Rational q ef \<Rightarrow>
             if denominator q = 1 then
               rbind (Integer_doubleFactorial (numerator q))
                 (\<lambda>f. Inr (Rational (toRational f) False, r))
             else Inl (Error ''Double factorial is not defined for negative integers'')
         | RationalInterval lo hi ei sp \<Rightarrow>
             if lo = hi \<and> denominator lo = 1 then
               rbind (Integer_doubleFactorial (numerator lo))
                 (\<lambda>f. Inr (newRationalInterval (toRational f) (toRational f), r))
             else Inl (Error ''Double factorial is not defined for negative integers''))"
  by (cases v) (auto simp: factorialStep_def numeral_2_eq_2)

lemma factorialStep_none:
  "\<not> prefix ''!'' rest \<Longrightarrow> factorialStep (v, rest) = Inr (v, rest)"
  by (cases rest) (auto simp: factorialStep_def)

lemma startsENotation_bang: "prefix ''!'' rest \<Longrightarrow> \<not> startsENotation rest"
  by (auto simp: startsENotation_def prefix_def)

lemma parseFactor_readsNumber:
  assumes "readsNumber expr"
  shows "parseFactor (Suc n) lib expr opts =
     rbind (parseInterval n lib expr opts) (\<lambda>numberResult.
       if startsENotation (snd numberResult) then Inl Unmodelled
       else rbind (factorialStep numberResult)
              (powerStep_number (\<lambda>s. parseExpression n lib s opts) (\<lambda>s. parseFactor n lib s opts) lib opts))"
proof -
  from assms have a: "expr \<noteq> []" "hd expr \<noteq> CHR ''(''"
    "\<not> (isUpper (hd expr) \<and> startsWithFunctionName expr)"
    "\<not> (includes_str expr ''['' \<and> includes_str expr '']'')"
    "\<not> (hd expr = CHR ''-'' \<and> \<not> includes_str expr ''['' \<and> \<not> includes_str expr '':'')"
    by (simp_all add: readsNumber_def)
  have "parseFactor_number pe pf n lib expr opts =
     rbind (parseInterval n lib expr opts) (\<lambda>numberResult.
       if startsENotation (snd numberResult) then Inl Unmodelled
       else rbind (factorialStep numberResult) (powerStep_number pe pf lib opts))" for pe pf
    unfolding parseFactor_number_def by (rule if_not_P) (rule a(5))
  then show ?thesis
    unfolding parseFactor.simps parseFactor_body_def using a(1-4) by auto
qed

lemma parseFactor_number_factorial_error:
  assumes "readsNumber expr" "parseInterval n lib expr opts = Inr (v, rest)" "prefix ''!'' rest"
    "factorialStep (v, rest) = Inl err"
  shows "parseFactor (Suc n) lib expr opts = Inl err"
  unfolding parseFactor_readsNumber [OF assms(1)]
  using assms(2-4) startsENotation_bang [OF assms(3)]
  by (simp add: rbind_def)

lemma parseFactor_paren_factorial_error:
  assumes "parseExpression n lib e opts = Inr (v, CHR '')'' # rest)" "prefix ''!'' rest"
    "factorialStep (v, rest) = Inl err"
  shows "parseFactor (Suc n) lib (CHR ''('' # e) opts = Inl err"
  using assms startsENotation_bang [OF assms(2)]
  by (simp add: parseFactor_body_def rbind_def)

text \<open>
  C8. When the text after an operand \<open>v\<close> starts with \<open>!\<close> (so for \<open>!\<close> and for \<open>!!\<close>), the
  factorial block succeeds exactly when \<open>v\<close> is a non-negative integer or a point interval
  of one. For any other operand it throws, and so does parseFactor, both when the operand
  is a parenthesised group and when it is a number.
\<close>

theorem factorial_operand:
  assumes "prefix ''!'' rest"
  shows "((\<exists>r. factorialStep (v, rest) = Inr r) \<longleftrightarrow> nonNegativeIntegerOperand v) \<and>
         (\<not> nonNegativeIntegerOperand v \<longrightarrow>
            (\<exists>msg. factorialStep (v, rest) = Inl (Error msg)) \<and>
            (parseExpression n lib e opts = Inr (v, CHR '')'' # rest) \<longrightarrow>
               (\<exists>msg. parseFactor (Suc n) lib (CHR ''('' # e) opts = Inl (Error msg))) \<and>
            (readsNumber expr \<and> parseInterval n lib expr opts = Inr (v, rest) \<longrightarrow>
               (\<exists>msg. parseFactor (Suc n) lib expr opts = Inl (Error msg))))"
proof -
  from assms obtain r where rest: "rest = CHR ''!'' # r"
    by (auto simp: prefix_def)
  have step: "((\<exists>r. factorialStep (v, rest) = Inr r) \<longleftrightarrow> nonNegativeIntegerOperand v) \<and>
         (\<not> nonNegativeIntegerOperand v \<longrightarrow> (\<exists>msg. factorialStep (v, rest) = Inl (Error msg)))"
  proof (cases "prefix ''!'' r")
    case True
    then obtain r' where "r = CHR ''!'' # r'" by (auto simp: prefix_def)
    with rest show ?thesis
      by (cases v)
        (auto simp: factorialStep_double nonNegativeIntegerOperand_def Integer_doubleFactorial_def rbind_def)
  next
    case False
    with rest show ?thesis
      by (cases v)
        (auto simp: factorialStep_single nonNegativeIntegerOperand_def Integer_factorial_def rbind_def)
  qed
  show ?thesis
    using step parseFactor_paren_factorial_error [OF _ assms, of n lib e opts v]
      parseFactor_number_factorial_error [OF _ _ assms, of expr n lib opts v]
    by blast
qed

theorem factorial_operand_witness:
  "prefix ''!'' ''!'' \<and> prefix ''!'' ''!!'' \<and>
   nonNegativeIntegerOperand (Integer 5) \<and>
   factorialStep (Integer 5, ''!'') = Inr (Integer 120, []) \<and>
   \<not> nonNegativeIntegerOperand (Integer (- 1)) \<and>
   (\<exists>msg. factorialStep (Integer (- 1), ''!!'') = Inl (Error msg)) \<and>
   parseExpression 4 exactPowerLibrary ''-1)!'' defaultOptions = Inr (Integer (- 1), '')!'') \<and>
   (\<exists>msg. parseFactor 5 exactPowerLibrary ''(-1)!'' defaultOptions = Inl (Error msg)) \<and>
   \<not> nonNegativeIntegerOperand (Rational (1 / 2) False) \<and>
   readsNumber ''1/2!'' \<and>
   parseInterval 0 exactPowerLibrary ''1/2!'' defaultOptions = Inr (Rational (1 / 2) False, ''!'') \<and>
   (\<exists>msg. parseFactor 1 exactPowerLibrary ''1/2!'' defaultOptions = Inl (Error msg)) \<and>
   parse 7 exactPowerLibrary ''(-1)!'' defaultOptions
     = Inl (Error ''Factorial is not defined for negative integers'') \<and>
   parse 3 exactPowerLibrary ''1/2!'' defaultOptions
     = Inl (Error ''Factorial is not defined for negative integers'')"
proof -
  have p: "prefix ''!'' ''!''" "prefix ''!'' ''!!''" by simp_all
  have a: "nonNegativeIntegerOperand (Integer 5)" "\<not> nonNegativeIntegerOperand (Integer (- 1))"
    "\<not> nonNegativeIntegerOperand (Rational (1 / 2) False)"
    by code_simp+
  have f5: "factorialStep (Integer 5, ''!'') = Inr (Integer 120, [])"
    by code_simp
  have e1: "parseExpression 4 exactPowerLibrary ''-1)!'' defaultOptions = Inr (Integer (- 1), '')!'')"
    by code_simp
  have rn: "readsNumber ''1/2!''"
    by code_simp
  have i1: "parseInterval 0 exactPowerLibrary ''1/2!'' defaultOptions = Inr (Rational (1 / 2) False, ''!'')"
    by code_simp
  have w1: "\<exists>msg. factorialStep (Integer (- 1), ''!!'') = Inl (Error msg)"
    using factorial_operand [OF p(2), of "Integer (- 1)"] a(2) by blast
  have w2: "\<exists>msg. parseFactor 5 exactPowerLibrary ''(-1)!'' defaultOptions = Inl (Error msg)"
    using factorial_operand [OF p(1), of "Integer (- 1)" 4 exactPowerLibrary "''-1)!''" defaultOptions] a(2) e1
    by simp
  have w3: "\<exists>msg. parseFactor 1 exactPowerLibrary ''1/2!'' defaultOptions = Inl (Error msg)"
    using factorial_operand [OF p(1), of "Rational (1 / 2) False" 0 exactPowerLibrary _ defaultOptions "''1/2!''"]
      a(3) rn i1
    by simp
  have x1: "parse 7 exactPowerLibrary ''(-1)!'' defaultOptions
     = Inl (Error ''Factorial is not defined for negative integers'')"
    by code_simp
  have x2: "parse 3 exactPowerLibrary ''1/2!'' defaultOptions
     = Inl (Error ''Factorial is not defined for negative integers'')"
    by code_simp
  from p a f5 e1 rn i1 w1 w2 w3 x1 x2 show ?thesis by blast
qed

subsection \<open>Multiplicative exponentiation\<close>







lemma defaultSkipPromotion_interval:
  "\<exists>lo hi sp. defaultSkipPromotion r = RationalInterval lo hi False sp"
  by (cases r) (auto simp: defaultSkipPromotion_def)












subsection \<open>Fraction literals and the division operator\<close>

lemma isDigit_chars:
  assumes "isDigit c"
  shows "c \<noteq> CHR ''/''" "c \<noteq> CHR ''S''" "c \<noteq> CHR ''(''" "c \<noteq> CHR ''E''" "c \<noteq> CHR ''*''"
    "c \<noteq> CHR ''^''" "c \<noteq> CHR ''!''" "c \<noteq> CHR '' ''" "c \<noteq> CHR ''T''" "c \<noteq> CHR ''_''"
    "c \<noteq> CHR ''+''" "\<not> isUpper c" "\<not> isLetter c"
  using assms by (auto simp: isDigit_def isUpper_def isLetter_def isLower_def)

lemma digits_not_in:
  assumes "list_all isDigit d" "\<not> isDigit c"
  shows "c \<notin> set d"
  using assms by (auto simp: list_all_iff)

lemma takeWhile_digits:
  "list_all isDigit d \<Longrightarrow> r = [] \<or> \<not> isDigit (hd r) \<Longrightarrow> takeWhile isDigit (d @ r) = d"
  by (induction d) (auto, cases r, auto)

lemma dropWhile_digits:
  "list_all isDigit d \<Longrightarrow> r = [] \<or> \<not> isDigit (hd r) \<Longrightarrow> dropWhile isDigit (d @ r) = r"
  by (induction d) (auto, cases r, auto)

lemma indexOf_single_None: "c \<notin> set s \<Longrightarrow> indexOf s [c] = None"
  by (induction s) auto

lemma includes_str_subset: "includes_str s sub \<Longrightarrow> set sub \<subseteq> set s"
proof (induction s)
  case Nil
  then show ?case by simp
next
  case (Cons a s)
  show ?case
  proof (cases "prefix sub (a # s)")
    case True
    then show ?thesis by (rule set_mono_prefix)
  next
    case False
    with Cons show ?thesis by auto
  qed
qed

lemma replaceAll_skip:
  "pat \<noteq> [] \<Longrightarrow> hd pat \<notin> set u \<Longrightarrow> replaceAll pat rep (u @ w) = u @ replaceAll pat rep w"
  by (induction u) (cases pat; auto)+

lemma replaceAll_none:
  "pat \<noteq> [] \<Longrightarrow> hd pat \<notin> set u \<Longrightarrow> replaceAll pat rep u = u"
  using replaceAll_skip [of pat u rep "[]"] by simp

lemma filter_nospace: "\<forall>c\<in>set s. \<not> isSpace c \<Longrightarrow> filter (\<lambda>c. \<not> isSpace c) s = s"
  by (induction s) auto

lemma BigInt_one: "BigInt ''1'' = 1"
  by code_simp

lemma hd_digits:
  assumes "d \<noteq> []" "list_all isDigit d"
  shows "isDigit (hd (d @ r))"
  using assms by (cases d) auto

lemma parseRational_plain_int:
  assumes d: "d \<noteq> []" "list_all isDigit d"
  shows "parseRational_plain d = Inr (Rational (of_int (BigInt d)) False, [])"
proof -
  have h: "hd d \<noteq> CHR ''-''"
    using hd_digits [OF d, of "[]"] isDigit_other(1) by auto
  have tw: "takeWhile isDigit d = d" and dw: "dropWhile isDigit d = []"
    using d(2) takeWhile_digits [of d "[]"] dropWhile_digits [of d "[]"] by simp_all
  show ?thesis
    unfolding parseRational_plain_def
    using d(1) by (simp add: h tw dw Let_def BigInt_one)
qed

lemma hd_digits_minus:
  assumes "d \<noteq> []" "list_all isDigit d"
  shows "hd d \<noteq> CHR ''-''"
  using hd_digits [OF assms, of "[]"] isDigit_other(1) by auto

lemma parseRational_plain_marker:
  assumes d: "d \<noteq> []" "list_all isDigit d"
  shows "parseRational_plain (d @ CHR ''/'' # CHR ''S'' # t)
         = Inr (Rational (of_int (BigInt d)) False, CHR ''/'' # CHR ''S'' # t)"
proof -
  let ?r = "CHR ''/'' # CHR ''S'' # t"
  have nd: "\<not> isDigit (CHR ''/'')" by (simp add: isDigit_def)
  note h = hd_digits_minus [OF d]
  have tw: "takeWhile isDigit (d @ ?r) = d"
    using takeWhile_digits [OF d(2), of ?r] nd by simp
  have dw: "dropWhile isDigit (d @ ?r) = ?r"
    using dropWhile_digits [OF d(2), of ?r] nd by simp
  show ?thesis
    unfolding parseRational_plain_def
    using d(1) by (simp add: h tw dw Let_def)
qed

lemma parseRational_plain_fraction:
  assumes d: "d \<noteq> []" "list_all isDigit d" and e: "e \<noteq> []" "list_all isDigit e"
  shows "parseRational_plain (d @ CHR ''/'' # e)
         = (if BigInt e = 0 then Inl (Error ''Denominator cannot be zero'')
            else Inr (Rational (of_int (BigInt d) / of_int (BigInt e)) (BigInt e = 1), []))"
proof -
  let ?r = "CHR ''/'' # e"
  have nd: "\<not> isDigit (CHR ''/'')" by (simp add: isDigit_def)
  note h = hd_digits_minus [OF d]
  have he: "hd e \<noteq> CHR ''S''" "hd e \<noteq> CHR ''(''"
    using hd_digits [OF e, of "[]"] isDigit_chars(2,3) by auto
  have tw: "takeWhile isDigit (d @ ?r) = d"
    using takeWhile_digits [OF d(2), of ?r] nd by simp
  have dw: "dropWhile isDigit (d @ ?r) = ?r"
    using dropWhile_digits [OF d(2), of ?r] nd by simp
  have twe: "takeWhile isDigit e = e" and dwe: "dropWhile isDigit e = []"
    using e(2) takeWhile_digits [of e "[]"] dropWhile_digits [of e "[]"] by simp_all
  show ?thesis
    unfolding parseRational_plain_def
    using d(1) e(1) by (simp add: h he tw dw twe dwe Let_def)
qed

lemma parseRational_is_plain:
  assumes "trim expr = expr" "expr \<noteq> []"
    and "(case stripOne (\<lambda>d. d = CHR ''-'') expr of
            z # p # rest \<Rightarrow> if z = CHR ''0'' \<and> isLetter p then Some p else None
          | _ \<Rightarrow> None) = None"
    and "CHR ''.'' \<notin> set expr" "CHR ''#'' \<notin> set expr"
    and "\<not> (case inputBase opts of Other b \<Rightarrow> True | _ \<Rightarrow> False)"
  shows "parseRational n lib expr opts = parseRational_plain expr"
  unfolding parseRational_def
  using assms(2,6)
  by (simp add: assms(1,3) indexOf_single_None [OF assms(4)] indexOf_single_None [OF assms(5)] Let_def)

lemma digits_then_plain:
  assumes d: "d \<noteq> []" "list_all isDigit d"
    and r: "r = [] \<or> (\<not> isLetter (hd r) \<and> \<not> isSpace (last r))"
      "CHR ''.'' \<notin> set r" "CHR ''#'' \<notin> set r"
    and o: "\<not> (case inputBase opts of Other b \<Rightarrow> True | _ \<Rightarrow> False)"
  shows "parseRational n lib (d @ r) opts = parseRational_plain (d @ r)"
proof (rule parseRational_is_plain)
  obtain z d' where dz: "d = z # d'" using d(1) by (cases d) auto
  have z: "isDigit z" "list_all isDigit d'" using d(2) dz by auto
  have ld: "isDigit (last d)" using d by (induction d) auto
  show "trim (d @ r) = d @ r"
  proof (rule trim_id)
    show "d @ r \<noteq> []" using d(1) by simp
    show "\<not> isSpace (hd (d @ r))" using z(1) dz isDigit_other(7) by simp
    show "\<not> isSpace (last (d @ r))" using r(1) ld isDigit_other(7) by (cases "r = []") auto
  qed
  show "d @ r \<noteq> []" using d(1) by simp
  have "stripOne (\<lambda>d. d = CHR ''-'') (d @ r) = d @ r"
    using z(1) isDigit_other(1) by (auto simp: stripOne_def dz)
  moreover have "(case d @ r of
            z # p # rest \<Rightarrow> if z = CHR ''0'' \<and> isLetter p then Some p else None
          | _ \<Rightarrow> None) = None"
  proof (cases d')
    case Nil
    then show ?thesis using r(1) dz by (cases r) auto
  next
    case (Cons p d'')
    then have "\<not> isLetter p" using z(2) isDigit_chars(13) by auto
    then show ?thesis using dz Cons by simp
  qed
  ultimately show "(case stripOne (\<lambda>d. d = CHR ''-'') (d @ r) of
            z # p # rest \<Rightarrow> if z = CHR ''0'' \<and> isLetter p then Some p else None
          | _ \<Rightarrow> None) = None" by simp
  show "CHR ''.'' \<notin> set (d @ r)" "CHR ''#'' \<notin> set (d @ r)"
    using r(2,3) d(2) isDigit_other(2,3) by (auto simp: list_all_iff)
  show "\<not> (case inputBase opts of Other b \<Rightarrow> True | _ \<Rightarrow> False)" by (rule o)
qed

lemma parseInterval_is_rational:
  assumes c: "CHR ''['' \<notin> set expr" "CHR ''.'' \<notin> set expr" "CHR ''#'' \<notin> set expr"
    and o: "\<not> (case inputBase opts of Other b \<Rightarrow> True | _ \<Rightarrow> False)"
  shows "parseInterval n lib expr opts =
     rbind (parseRational n lib expr opts) (\<lambda>(firstValue, remainingAfterFirst).
       if eNotationBeforeColon remainingAfterFirst then Inl Unmodelled
       else if remainingAfterFirst = [] \<or> hd remainingAfterFirst \<noteq> CHR '':'' then
         (if typeAware opts then
            (case firstValue of
               Rational r explicitFraction \<Rightarrow>
                 if denominator r = 1 \<and> \<not> explicitFraction
                 then Inr (Integer (numerator r), remainingAfterFirst)
                 else Inr (firstValue, remainingAfterFirst)
             | _ \<Rightarrow> Inr (firstValue, remainingAfterFirst))
          else
            (case scalarOf firstValue of
               Some r \<Rightarrow> Inr (RationalInterval r r False False, remainingAfterFirst)
             | None \<Rightarrow> Inl Unmodelled))
       else
         rbind (parseRational n lib (tl remainingAfterFirst) opts) (\<lambda>(secondValue, remainingExpr).
           if remainingExpr \<noteq> [] \<and> (hd remainingExpr = CHR ''E'' \<or> prefix ''_^'' remainingExpr)
           then Inl Unmodelled
           else rbind (intervalOfValues firstValue secondValue)
                  (\<lambda>interval. Inr (markExplicitInterval interval, remainingExpr))))"
proof -
  have i: "\<not> includes_str expr ''[''" "\<not> includes_str expr ''.''" "\<not> includes_str expr ''#''"
    using c by (simp_all add: includes_str_single)
  have t: "\<not> includes_str expr ''.~''"
    using includes_str_subset [of expr "''.~''"] c(2) by auto
  show ?thesis
    unfolding parseInterval_def
    using o by (simp add: i t Let_def)
qed

lemma parseInterval_rational:
  assumes c: "CHR ''['' \<notin> set expr" "CHR ''.'' \<notin> set expr" "CHR ''#'' \<notin> set expr"
    and o: "\<not> (case inputBase opts of Other b \<Rightarrow> True | _ \<Rightarrow> False)" "typeAware opts"
    and p: "parseRational n lib expr opts = Inr (Rational q ef, rem)"
      "rem = [] \<or> hd rem = CHR ''/''"
  shows "parseInterval n lib expr opts = Inr (promoteType (Rational q ef) opts, rem)"
proof -
  have e: "\<not> eNotationBeforeColon rem"
    using p(2) by (cases rem) (auto simp: eNotationBeforeColon_def)
  have h: "rem = [] \<or> hd rem \<noteq> CHR '':''" using p(2) by auto
  show ?thesis
    unfolding parseInterval_is_rational [OF c o(1)]
    using e h o(2) by (auto simp: p(1) rbind_def promoteType_def)
qed

lemma parseInterval_error:
  assumes c: "CHR ''['' \<notin> set expr" "CHR ''.'' \<notin> set expr" "CHR ''#'' \<notin> set expr"
    and o: "\<not> (case inputBase opts of Other b \<Rightarrow> True | _ \<Rightarrow> False)"
    and p: "parseRational n lib expr opts = Inl e"
  shows "parseInterval n lib expr opts = Inl e"
  unfolding parseInterval_is_rational [OF c o]
  by (simp add: p rbind_def)

lemma powerStep_number_none:
  "rem = [] \<or> hd rem = CHR ''/'' \<Longrightarrow> powerStep_number pe pf lib opts (v, rem) = Inr (v, rem)"
  by (cases rem) (auto simp: powerStep_number_def)

lemma parseFactor_plain_number:
  assumes rn: "readsNumber expr" and p: "parseInterval n lib expr opts = Inr (v, rem)"
    and rem: "rem = [] \<or> hd rem = CHR ''/''"
  shows "parseFactor (Suc n) lib expr opts = Inr (v, rem)"
proof -
  have e: "\<not> startsENotation rem" using rem by (cases rem) (auto simp: startsENotation_def)
  have f: "factorialStep (v, rem) = Inr (v, rem)"
    using rem by (intro factorialStep_none) (cases rem; auto)
  show ?thesis
    unfolding parseFactor_readsNumber [OF rn]
    using e by (simp add: p f rbind_def powerStep_number_none [OF rem])
qed

lemma parseFactor_number_error:
  assumes rn: "readsNumber expr" and p: "parseInterval n lib expr opts = Inl e"
  shows "parseFactor (Suc n) lib expr opts = Inl e"
  unfolding parseFactor_readsNumber [OF rn] by (simp add: p rbind_def)

lemma readsNumber_digits:
  assumes d: "d \<noteq> []" "list_all isDigit d" and r: "CHR ''['' \<notin> set r"
  shows "readsNumber (d @ r)"
proof -
  have h: "isDigit (hd (d @ r))" using d by (rule hd_digits)
  have b: "CHR ''['' \<notin> set (d @ r)" using r d(2) isDigit_other(4) by (auto simp: list_all_iff)
  show ?thesis
    unfolding readsNumber_def
    using h d(1) b isDigit_chars(3,12) isDigit_other(1)
    by (auto simp: includes_str_single simp del: hd_append2)
qed

lemma parseFactor_negation:
  assumes "CHR ''['' \<notin> set e" "CHR '':'' \<notin> set e"
  shows "parseFactor (Suc n) lib (CHR ''-'' # e) opts =
     rbind (parseFactor n lib e opts) (\<lambda>(v, remainingExpr).
       rbind (negateValue opts v) (\<lambda>negatedValue. Inr (negatedValue, remainingExpr)))"
proof -
  have i: "\<not> includes_str e ''[''" "\<not> includes_str e '':''"
    using assms by (simp_all add: includes_str_single)
  have u: "\<not> isUpper (CHR ''-'')" by (simp add: isUpper_def)
  show ?thesis
    unfolding parseFactor.simps parseFactor_body_def parseFactor_number_def
    by (simp add: i u)
qed

lemma numerator_of_int: "numerator (of_int z) = z" and denominator_of_int: "denominator (of_int z) = 1"
  by (simp_all add: numerator_def denominator_def)

lemma numerator_uminus: "numerator (- q) = - numerator q"
  and denominator_uminus: "denominator (- q) = denominator q"
  by (simp_all add: numerator_def denominator_def rat_uminus_code split: prod.splits)

lemma promoteType_negate:
  assumes "typeAware opts"
  shows "rbind (Inr (promoteType (Rational q ef) opts, rem))
           (\<lambda>(v, remainingExpr). rbind (negateValue opts v) (\<lambda>negatedValue. Inr (negatedValue, remainingExpr)))
         = Inr (promoteType (Rational (- q) ef) opts, rem)"
  using assms
  by (simp add: rbind_def promoteType_def negateValue_def numerator_uminus denominator_uminus)

lemma replaceAll_slash_none: "CHR '' '' \<notin> set s \<Longrightarrow> replaceAll ''/ '' ''/S'' s = s"
  by (induction s) (auto simp: prefix_def Cons_eq_append_conv)

lemma preprocess_nospace:
  assumes "\<forall>c\<in>set s. \<not> isSpace c"
  shows "preprocess s = s"
proof -
  have sp: "CHR '' '' \<notin> set s" using assms by (auto simp: isSpace_def)
  have 1: "replaceAll '' E'' ''TE'' s = s" using sp by (intro replaceAll_none) simp_all
  show ?thesis
    unfolding preprocess_def 1 replaceAll_slash_none [OF sp]
    using assms by (rule filter_nospace)
qed

lemma preprocess_division:
  assumes u: "\<forall>c\<in>set u. \<not> isSpace c" "CHR ''/'' \<notin> set u"
    and v: "\<forall>c\<in>set v. \<not> isSpace c" "v = [] \<or> hd v \<noteq> CHR ''E''"
  shows "preprocess (u @ ''/ '' @ v) = u @ ''/S'' @ v"
proof -
  have su: "CHR '' '' \<notin> set u" using u(1) by (auto simp: isSpace_def)
  have sv: "CHR '' '' \<notin> set v" using v(1) by (auto simp: isSpace_def)
  have pv: "\<not> prefix ''E'' v" using v(2) by (cases v) auto
  have v1: "replaceAll '' E'' ''TE'' v = v" using sv by (intro replaceAll_none) simp_all
  have 1: "replaceAll '' E'' ''TE'' (u @ ''/ '' @ v) = u @ ''/ '' @ v"
    using su pv by (subst replaceAll_skip) (simp_all add: v1)
  have 2: "replaceAll ''/ '' ''/S'' (u @ ''/ '' @ v) = u @ ''/S'' @ v"
    using u(2) by (subst replaceAll_skip) (simp_all add: replaceAll_slash_none [OF sv])
  have 3: "filter (\<lambda>c. \<not> isSpace c) (u @ ''/S'' @ v) = u @ ''/S'' @ v"
    using u(1) v(1) by (intro filter_nospace) (auto simp: isSpace_def)
  show ?thesis unfolding preprocess_def 1 2 3 ..
qed

lemma digits_no_special:
  assumes "list_all isDigit d"
  shows "CHR ''['' \<notin> set d" "CHR ''.'' \<notin> set d" "CHR ''#'' \<notin> set d" "CHR '':'' \<notin> set d"
    "CHR ''/'' \<notin> set d"
  by (rule digits_not_in [OF assms], simp add: isDigit_def)+

lemma digits_no_space:
  assumes "list_all isDigit d"
  shows "\<forall>c\<in>set d. \<not> isSpace c"
  using assms by (induction d) (simp_all add: isDigit_other(7))

lemma last_digits: "d \<noteq> [] \<Longrightarrow> list_all isDigit d \<Longrightarrow> isDigit (last d)"
  by (induction d) auto

lemma parseFactor_integer_text:
  assumes d: "d \<noteq> []" "list_all isDigit d"
    and o: "\<not> (case inputBase opts of Other b \<Rightarrow> True | _ \<Rightarrow> False)" "typeAware opts"
  shows "parseFactor (Suc n) lib d opts = Inr (promoteType (Rational (of_int (BigInt d)) False) opts, [])"
proof -
  note c = digits_no_special(1-3) [OF d(2)]
  have r: "parseRational n lib d opts = Inr (Rational (of_int (BigInt d)) False, [])"
    using digits_then_plain [OF d _ _ _ o(1), of "[]" n lib] parseRational_plain_int [OF d] by simp
  have i: "parseInterval n lib d opts = Inr (promoteType (Rational (of_int (BigInt d)) False) opts, [])"
    using c o r by (rule parseInterval_rational) simp
  have rn: "readsNumber d" using readsNumber_digits [OF d, of "[]"] by simp
  show ?thesis using rn i by (rule parseFactor_plain_number) simp
qed

lemma parseFactor_marker_text:
  assumes d: "d \<noteq> []" "list_all isDigit d"
    and t: "CHR ''['' \<notin> set t" "CHR ''.'' \<notin> set t" "CHR ''#'' \<notin> set t" "t = [] \<or> \<not> isSpace (last t)"
    and o: "\<not> (case inputBase opts of Other b \<Rightarrow> True | _ \<Rightarrow> False)" "typeAware opts"
  shows "parseFactor (Suc n) lib (d @ CHR ''/'' # CHR ''S'' # t) opts
         = Inr (promoteType (Rational (of_int (BigInt d)) False) opts, CHR ''/'' # CHR ''S'' # t)"
proof -
  let ?r = "CHR ''/'' # CHR ''S'' # t"
  note dc = digits_no_special(1-3) [OF d(2)]
  have c: "CHR ''['' \<notin> set (d @ ?r)" "CHR ''.'' \<notin> set (d @ ?r)" "CHR ''#'' \<notin> set (d @ ?r)"
    using dc t(1-3) by simp_all
  have l: "?r = [] \<or> (\<not> isLetter (hd ?r) \<and> \<not> isSpace (last ?r))"
    using t(4) by (auto simp: isLetter_def isLower_def isUpper_def isSpace_def)
  have rc: "CHR ''.'' \<notin> set ?r" "CHR ''#'' \<notin> set ?r" using t(2,3) by simp_all
  have r: "parseRational n lib (d @ ?r) opts = Inr (Rational (of_int (BigInt d)) False, ?r)"
    unfolding digits_then_plain [OF d l rc o(1)] by (rule parseRational_plain_marker [OF d])
  have i: "parseInterval n lib (d @ ?r) opts
      = Inr (promoteType (Rational (of_int (BigInt d)) False) opts, ?r)"
    using c o r by (rule parseInterval_rational) simp
  have rn: "readsNumber (d @ ?r)" using d by (rule readsNumber_digits) (simp add: t(1))
  show ?thesis using rn i by (rule parseFactor_plain_number) simp
qed

lemma parseFactor_fraction_text:
  assumes d: "d \<noteq> []" "list_all isDigit d" and e: "e \<noteq> []" "list_all isDigit e"
    and o: "\<not> (case inputBase opts of Other b \<Rightarrow> True | _ \<Rightarrow> False)" "typeAware opts"
  shows "parseFactor (Suc n) lib (d @ CHR ''/'' # e) opts
         = (if BigInt e = 0 then Inl (Error ''Denominator cannot be zero'')
            else Inr (promoteType (Rational (of_int (BigInt d) / of_int (BigInt e)) (BigInt e = 1)) opts, []))"
proof -
  let ?r = "CHR ''/'' # e"
  note dc = digits_no_special(1-3) [OF d(2)]
  note ec = digits_no_special(1-3) [OF e(2)]
  have c: "CHR ''['' \<notin> set (d @ ?r)" "CHR ''.'' \<notin> set (d @ ?r)" "CHR ''#'' \<notin> set (d @ ?r)"
    using dc ec by simp_all
  have le: "\<not> isSpace (last e)" using last_digits [OF e] isDigit_other(7) by blast
  have l: "?r = [] \<or> (\<not> isLetter (hd ?r) \<and> \<not> isSpace (last ?r))"
    using e(1) le by (auto simp: isLetter_def isLower_def isUpper_def)
  have rc: "CHR ''.'' \<notin> set ?r" "CHR ''#'' \<notin> set ?r" using ec(2,3) by simp_all
  have r: "parseRational n lib (d @ ?r) opts = parseRational_plain (d @ ?r)"
    by (rule digits_then_plain [OF d l rc o(1)])
  have rn: "readsNumber (d @ ?r)" using d by (rule readsNumber_digits) (simp add: ec(1))
  show ?thesis
  proof (cases "BigInt e = 0")
    case True
    then have "parseRational n lib (d @ ?r) opts = Inl (Error ''Denominator cannot be zero'')"
      unfolding r parseRational_plain_fraction [OF d e] by simp
    then have "parseInterval n lib (d @ ?r) opts = Inl (Error ''Denominator cannot be zero'')"
      by (rule parseInterval_error [OF c o(1)])
    then show ?thesis using True parseFactor_number_error [OF rn] by simp
  next
    case False
    then have "parseRational n lib (d @ ?r) opts
        = Inr (Rational (of_int (BigInt d) / of_int (BigInt e)) (BigInt e = 1), [])"
      unfolding r parseRational_plain_fraction [OF d e] by simp
    then have "parseInterval n lib (d @ ?r) opts
        = Inr (promoteType (Rational (of_int (BigInt d) / of_int (BigInt e)) (BigInt e = 1)) opts, [])"
      by (rule parseInterval_rational [OF c o]) simp
    then show ?thesis using False parseFactor_plain_number [OF rn] by simp
  qed
qed

lemma BigInt_signed:
  assumes sg: "sa = [] \<or> sa = ''-''" and d: "d \<noteq> []" "list_all isDigit d"
  shows "BigInt (sa @ d) = (if sa = [] then BigInt d else - BigInt d)"
proof -
  have "\<not> prefix ''-'' d" using hd_digits_minus [OF d] d(1) by (cases d) auto
  then have "BigInt d = int (BigInt_digits d)" by (simp add: BigInt_def)
  then show ?thesis using sg by (auto simp: BigInt_def)
qed

lemma parseFactor_signed:
  assumes sg: "sa = [] \<or> sa = ''-''" and c: "CHR ''['' \<notin> set X" "CHR '':'' \<notin> set X"
    and o: "typeAware opts"
    and p: "\<And>n. parseFactor (Suc n) lib X opts = Inr (promoteType (Rational q ef) opts, rem)"
  shows "parseFactor (Suc (Suc n)) lib (sa @ X) opts
         = Inr (promoteType (Rational (if sa = [] then q else - q) ef) opts, rem)"
proof (cases "sa = []")
  case True
  show ?thesis unfolding True by (simp add: p del: parseFactor.simps)
next
  case False
  then have sa: "sa = ''-''" using sg by simp
  show ?thesis
    unfolding sa using False
    by (simp add: parseFactor_negation [OF c] p promoteType_negate [OF o] sa del: parseFactor.simps)
qed

lemma parseFactor_signed_error:
  assumes sg: "sa = [] \<or> sa = ''-''" and c: "CHR ''['' \<notin> set X" "CHR '':'' \<notin> set X"
    and p: "\<And>n. parseFactor (Suc n) lib X opts = Inl e"
  shows "parseFactor (Suc (Suc n)) lib (sa @ X) opts = Inl e"
proof (cases "sa = []")
  case True
  show ?thesis unfolding True by (simp add: p del: parseFactor.simps)
next
  case False
  then have sa: "sa = ''-''" using sg by simp
  show ?thesis
    unfolding sa
    by (simp add: parseFactor_negation [OF c] p rbind_def del: parseFactor.simps)
qed

lemma parse_factor_error:
  assumes "parseFactor (Suc j) lib (preprocess s) opts = Inl e" "trim s \<noteq> []"
  shows "parse (Suc (Suc (Suc j))) lib s opts = Inl e"
  using assms by (auto simp: parse_def rbind_def trim_def simp del: parseFactor.simps)

lemma parse_division:
  assumes pa: "\<And>n. parseFactor (Suc (Suc n)) lib (A @ CHR ''/'' # CHR ''S'' # B) opts
                 = Inr (va, CHR ''/'' # CHR ''S'' # B)"
    and pb: "\<And>n. parseFactor (Suc (Suc n)) lib B opts = Inr (vb, [])"
    and pre: "preprocess s = A @ CHR ''/'' # CHR ''S'' # B" "trim s \<noteq> []"
  shows "parse (Suc (Suc (Suc (Suc (Suc n))))) lib s opts
         = rbind (value_divide va vb) (\<lambda>r. Inr (promoteType (promoteType r opts) opts))"
proof -
  have st: "parseTerm_step (\<lambda>s. parseFactor (Suc (Suc n)) lib s opts) va (CHR ''/'' # CHR ''S'' # B)
      = rbind (value_divide va vb) (\<lambda>r. Inr (r, []))"
    unfolding parseTerm_step_def by (simp add: pb rbind_def Let_def del: parseFactor.simps)
  have ct: "continuesTerm (CHR ''/'' # CHR ''S'' # B)" "\<not> continuesTerm []"
    by (simp_all add: continuesTerm_def)
  have tl: "parseTerm_loop (Suc (Suc (Suc n))) lib va (CHR ''/'' # CHR ''S'' # B) opts
      = rbind (value_divide va vb) (\<lambda>r. Inr (promoteType r opts, []))"
    by (cases "value_divide va vb") (simp_all add: ct st rbind_def del: parseFactor.simps)
  have t: "parseTerm (Suc (Suc (Suc (Suc n)))) lib (preprocess s) opts
      = rbind (value_divide va vb) (\<lambda>r. Inr (promoteType r opts, []))"
    unfolding pre(1) parseTerm.simps pa
    using tl by (simp add: rbind_def del: parseFactor.simps parseTerm_loop.simps)
  have e: "parseExpression (Suc (Suc (Suc (Suc (Suc n))))) lib (preprocess s) opts
      = rbind (value_divide va vb) (\<lambda>r. Inr (promoteType (promoteType r opts) opts, []))"
    unfolding parseExpression.simps t
    by (cases "value_divide va vb") (simp_all add: rbind_def continuesExpression_def)
  show ?thesis
    unfolding parse_def e using pre(2)
    by (cases "value_divide va vb") (auto simp: rbind_def trim_def)
qed

lemma signed_no_special:
  assumes "sa = [] \<or> sa = ''-''" "list_all isDigit d"
  shows "CHR ''['' \<notin> set (sa @ d)" "CHR ''.'' \<notin> set (sa @ d)" "CHR ''#'' \<notin> set (sa @ d)"
    "CHR '':'' \<notin> set (sa @ d)" "CHR ''/'' \<notin> set (sa @ d)"
  using assms(1) digits_no_special [OF assms(2)] by (elim disjE; simp)+

lemma signed_no_space:
  assumes "sa = [] \<or> sa = ''-''" "list_all isDigit d"
  shows "\<forall>c\<in>set (sa @ d). \<not> isSpace c"
  using assms(1) digits_no_space [OF assms(2)] by (elim disjE) (simp_all add: isSpace_def)

lemma integer_text_value:
  assumes o: "typeAware opts" and sg: "sa = [] \<or> sa = ''-''" and d: "d \<noteq> []" "list_all isDigit d"
  shows "promoteType (Rational (if sa = [] then of_int (BigInt d) else - of_int (BigInt d)) False) opts
         = Integer (BigInt (sa @ d))"
proof -
  have "(if sa = [] then of_int (BigInt d) else - of_int (BigInt d)) = (of_int (BigInt (sa @ d)) :: rat)"
    by (simp add: BigInt_signed [OF sg d])
  then show ?thesis
    using o by (simp add: promoteType_def numerator_of_int denominator_of_int)
qed

lemma value_divide_promoted:
  assumes "value_divide (Integer a) (Integer b) = Inr r"
  shows "promoteType r opts = r"
  using assms by (auto simp: value_divide_def promoteType_def split: if_splits)

lemma value_divide_one: "value_divide (Integer a) (Integer 1) = Inr (Integer a)"
  by (simp add: value_divide_def numerator_of_int denominator_of_int)

lemma defaultOptions_simps:
  "typeAware defaultOptions" "\<not> (case inputBase defaultOptions of Other b \<Rightarrow> True | _ \<Rightarrow> False)"
  by (simp_all add: defaultOptions_def)

lemma trim_nonempty: "s \<noteq> [] \<Longrightarrow> \<not> isSpace (hd s) \<Longrightarrow> trim s \<noteq> []"
  by (cases s) (auto simp: trim_def dropWhile_eq_Nil_conv)

lemma trim_text_nonempty:
  assumes "u \<noteq> []" "\<forall>c\<in>set u. \<not> isSpace c"
  shows "trim (u @ r) \<noteq> []"
proof (rule trim_nonempty)
  show "u @ r \<noteq> []" using assms(1) by simp
  have "hd (u @ r) \<in> set u" using assms(1) by (cases u) auto
  then show "\<not> isSpace (hd (u @ r))" using assms(2) by blast
qed

text \<open>
  C7, as stated, fails for a denominator with a sign: after the slash parseRational reads
  digits only, so \<^verbatim>\<open>3/-4\<close> is not read as a fraction literal but rejected, while
  \<^verbatim>\<open>3/ -4\<close> is the division of 3 by -4.
\<close>

theorem negative_denominator_counterexample:
  "parse 8 exactPowerLibrary ''3/-4'' defaultOptions = Inl (Error ''Invalid rational number format'') \<and>
   parse 8 exactPowerLibrary ''3/ -4'' defaultOptions = Inr (Rational (- (3 / 4)) False)"
  by (intro conjI; code_simp)

text \<open>
  C7, amended. Let \<open>a\<close> be an integer text (digits with an optional minus sign) and \<open>b\<close> a
  run of digits. Parser.parse leaves the text \<open>a/b\<close> as it is, parseRational reads the
  whole of it as one fraction literal, and the parse returns the promoted Rational \<open>a/b\<close>,
  which carries the explicit-fraction marker exactly when \<open>b\<close> is 1 (for \<open>b = 0\<close> the
  literal is rejected with \<open>Denominator cannot be zero\<close>). In \<open>a/ b'\<close>, for any integer
  text \<open>b'\<close>, Parser.parse replaces the space by the marker \<open>S\<close>, parseRational stops
  before the slash, and the parse returns what the division of the Integer \<open>a\<close> by the
  Integer \<open>b'\<close> returns. In particular \<open>a/1\<close> is the Rational \<open>a\<close> with the
  explicit-fraction marker and \<open>a/ 1\<close> is the Integer \<open>a\<close>. The fuel \<open>n + 4\<close> and
  \<open>n + 5\<close> is any fuel from 4 and 5 on.
\<close>

theorem fraction_versus_division:
  assumes a: "sa = [] \<or> sa = ''-''" "da \<noteq> []" "list_all isDigit da"
    and b: "sb = [] \<or> sb = ''-''" "db \<noteq> []" "list_all isDigit db"
  shows "preprocess (sa @ da @ ''/'' @ db) = sa @ da @ ''/'' @ db \<and>
     parseRational n lib (da @ ''/'' @ db) defaultOptions
       = (if BigInt db = 0 then Inl (Error ''Denominator cannot be zero'')
          else Inr (Rational (of_int (BigInt da) / of_int (BigInt db)) (BigInt db = 1), [])) \<and>
     parse (n + 4) lib (sa @ da @ ''/'' @ db) defaultOptions
       = (if BigInt db = 0 then Inl (Error ''Denominator cannot be zero'')
          else Inr (promoteType (Rational (of_int (BigInt (sa @ da)) / of_int (BigInt db)) (BigInt db = 1))
                      defaultOptions)) \<and>
     preprocess (sa @ da @ ''/ '' @ sb @ db) = sa @ da @ ''/S'' @ sb @ db \<and>
     parseRational n lib (da @ ''/S'' @ sb @ db) defaultOptions
       = Inr (Rational (of_int (BigInt da)) False, ''/S'' @ sb @ db) \<and>
     parse (n + 5) lib (sa @ da @ ''/ '' @ sb @ db) defaultOptions
       = value_divide (Integer (BigInt (sa @ da))) (Integer (BigInt (sb @ db))) \<and>
     parse (n + 4) lib (sa @ da @ ''/1'') defaultOptions = Inr (Rational (of_int (BigInt (sa @ da))) True) \<and>
     parse (n + 5) lib (sa @ da @ ''/ 1'') defaultOptions = Inr (Integer (BigInt (sa @ da)))"
proof -
  note o = defaultOptions_simps
  let ?A = "sa @ da" and ?B = "sb @ db"
  note ac = signed_no_special [OF a(1,3)] and asp = signed_no_space [OF a(1,3)]
  note bc = signed_no_special [OF b(1,3)] and bsp = signed_no_space [OF b(1,3)]
  note dc = digits_no_special [OF a(3)] and ec = digits_no_special [OF b(3)]
  have lastB: "\<not> isSpace (last ?B)"
    using b(2) last_digits [OF b(2,3)] isDigit_other(7) by simp
  have hdB: "hd ?B \<noteq> CHR ''E''"
    using b(1) hd_digits [OF b(2,3), of "[]"] isDigit_chars(4) by (elim disjE) auto

  have frac_text: "\<And>e. list_all isDigit e \<Longrightarrow> preprocess (sa @ da @ CHR ''/'' # e) = sa @ da @ CHR ''/'' # e"
  proof -
    fix e assume "list_all isDigit e"
    then have "\<forall>c\<in>set (sa @ da @ CHR ''/'' # e). \<not> isSpace c"
      using asp digits_no_space [of e] by (auto simp: isSpace_def)
    then show "preprocess (sa @ da @ CHR ''/'' # e) = sa @ da @ CHR ''/'' # e"
      by (rule preprocess_nospace)
  qed
  have Ane: "sa @ da \<noteq> []" using a(2) by simp
  have frac_trim: "\<And>e. trim (sa @ da @ CHR ''/'' # e) \<noteq> []"
    using trim_text_nonempty [OF Ane asp] by simp
  have frac_rat: "\<And>e. e \<noteq> [] \<Longrightarrow> list_all isDigit e \<Longrightarrow>
      parseRational n lib (da @ CHR ''/'' # e) defaultOptions
       = (if BigInt e = 0 then Inl (Error ''Denominator cannot be zero'')
          else Inr (Rational (of_int (BigInt da) / of_int (BigInt e)) (BigInt e = 1), []))"
  proof -
    fix e :: string assume e: "e \<noteq> []" "list_all isDigit e"
    have le: "\<not> isSpace (last e)" using last_digits [OF e] isDigit_other(7) by blast
    have l: "CHR ''/'' # e = [] \<or> (\<not> isLetter (hd (CHR ''/'' # e)) \<and> \<not> isSpace (last (CHR ''/'' # e)))"
      using e(1) le by (auto simp: isLetter_def isLower_def isUpper_def)
    have rc: "CHR ''.'' \<notin> set (CHR ''/'' # e)" "CHR ''#'' \<notin> set (CHR ''/'' # e)"
      using digits_no_special(2,3) [OF e(2)] by simp_all
    show "parseRational n lib (da @ CHR ''/'' # e) defaultOptions
       = (if BigInt e = 0 then Inl (Error ''Denominator cannot be zero'')
          else Inr (Rational (of_int (BigInt da) / of_int (BigInt e)) (BigInt e = 1), []))"
      unfolding digits_then_plain [OF a(2,3) l rc o(2)]
      by (rule parseRational_plain_fraction [OF a(2,3) e])
  qed
  have frac_parse: "\<And>e. e \<noteq> [] \<Longrightarrow> list_all isDigit e \<Longrightarrow>
      parse (n + 4) lib (sa @ da @ CHR ''/'' # e) defaultOptions
       = (if BigInt e = 0 then Inl (Error ''Denominator cannot be zero'')
          else Inr (promoteType (Rational (of_int (BigInt (sa @ da)) / of_int (BigInt e)) (BigInt e = 1))
                      defaultOptions))"
  proof -
    fix e :: string assume e: "e \<noteq> []" "list_all isDigit e"
    let ?X = "da @ CHR ''/'' # e"
    have n4: "n + 4 = Suc (Suc (Suc (Suc n)))" by simp
    have c: "CHR ''['' \<notin> set ?X" "CHR '':'' \<notin> set ?X"
      using dc(1,4) digits_no_special(1,4) [OF e(2)] by simp_all
    have pp: "preprocess (sa @ ?X) = sa @ ?X" using frac_text [OF e(2)] by simp
    have tr: "trim (sa @ ?X) \<noteq> []" using frac_trim [of e] by simp
    show "parse (n + 4) lib (sa @ da @ CHR ''/'' # e) defaultOptions
       = (if BigInt e = 0 then Inl (Error ''Denominator cannot be zero'')
          else Inr (promoteType (Rational (of_int (BigInt (sa @ da)) / of_int (BigInt e)) (BigInt e = 1))
                      defaultOptions))"
    proof (cases "BigInt e = 0")
      case True
      have "\<And>k. parseFactor (Suc k) lib ?X defaultOptions = Inl (Error ''Denominator cannot be zero'')"
        using parseFactor_fraction_text [OF a(2,3) e o(2,1)] True by simp
      then have "parseFactor (Suc (Suc n)) lib (sa @ ?X) defaultOptions
          = Inl (Error ''Denominator cannot be zero'')"
        by (rule parseFactor_signed_error [OF a(1) c])
      then have "parseFactor (Suc (Suc n)) lib (preprocess (sa @ ?X)) defaultOptions
          = Inl (Error ''Denominator cannot be zero'')"
        unfolding pp .
      then have "parse (Suc (Suc (Suc (Suc n)))) lib (sa @ ?X) defaultOptions
          = Inl (Error ''Denominator cannot be zero'')"
        using tr by (rule parse_factor_error)
      then show ?thesis using True unfolding n4 by simp
    next
      case False
      let ?q = "of_int (BigInt da) / of_int (BigInt e) :: rat"
      have "\<And>k. parseFactor (Suc k) lib ?X defaultOptions
          = Inr (promoteType (Rational ?q (BigInt e = 1)) defaultOptions, [])"
        using parseFactor_fraction_text [OF a(2,3) e o(2,1)] False by simp
      then have "parseFactor (Suc (Suc n)) lib (sa @ ?X) defaultOptions
          = Inr (promoteType (Rational (if sa = [] then ?q else - ?q) (BigInt e = 1)) defaultOptions, [])"
        by (rule parseFactor_signed [OF a(1) c o(1)])
      moreover have "(if sa = [] then ?q else - ?q) = of_int (BigInt (sa @ da)) / of_int (BigInt e)"
        by (simp add: BigInt_signed [OF a])
      ultimately have "parseFactor (Suc (Suc n)) lib (preprocess (sa @ ?X)) defaultOptions
          = Inr (promoteType (Rational (of_int (BigInt (sa @ da)) / of_int (BigInt e)) (BigInt e = 1))
                   defaultOptions, [])"
        unfolding pp by simp
      then have "parse (Suc (Suc (Suc (Suc n)))) lib (sa @ ?X) defaultOptions
          = Inr (promoteType (promoteType (promoteType
                   (Rational (of_int (BigInt (sa @ da)) / of_int (BigInt e)) (BigInt e = 1))
                   defaultOptions) defaultOptions) defaultOptions)"
        using tr by (rule parse_of_factor)
      then show ?thesis using False unfolding n4 promoteType_idem by simp
    qed
  qed

  have div_text: "\<And>v. (\<forall>c\<in>set v. \<not> isSpace c) \<Longrightarrow> v = [] \<or> hd v \<noteq> CHR ''E'' \<Longrightarrow>
      preprocess (sa @ da @ CHR ''/'' # CHR '' '' # v) = sa @ da @ CHR ''/'' # CHR ''S'' # v"
    using preprocess_division [OF asp ac(5)] by simp
  have div_rat: "\<And>t. CHR ''.'' \<notin> set t \<Longrightarrow> CHR ''#'' \<notin> set t \<Longrightarrow> t = [] \<or> \<not> isSpace (last t) \<Longrightarrow>
      parseRational n lib (da @ CHR ''/'' # CHR ''S'' # t) defaultOptions
       = Inr (Rational (of_int (BigInt da)) False, CHR ''/'' # CHR ''S'' # t)"
  proof -
    fix t :: string
    assume t: "CHR ''.'' \<notin> set t" "CHR ''#'' \<notin> set t" "t = [] \<or> \<not> isSpace (last t)"
    let ?r = "CHR ''/'' # CHR ''S'' # t"
    have l: "?r = [] \<or> (\<not> isLetter (hd ?r) \<and> \<not> isSpace (last ?r))"
      using t(3) by (auto simp: isLetter_def isLower_def isUpper_def isSpace_def)
    have rc: "CHR ''.'' \<notin> set ?r" "CHR ''#'' \<notin> set ?r" using t(1,2) by simp_all
    show "parseRational n lib (da @ ?r) defaultOptions = Inr (Rational (of_int (BigInt da)) False, ?r)"
      unfolding digits_then_plain [OF a(2,3) l rc o(2)]
      by (rule parseRational_plain_marker [OF a(2,3)])
  qed
  have div_parse: "\<And>sb db. sb = [] \<or> sb = ''-'' \<Longrightarrow> db \<noteq> [] \<Longrightarrow> list_all isDigit db \<Longrightarrow>
      parse (n + 5) lib (sa @ da @ CHR ''/'' # CHR '' '' # sb @ db) defaultOptions
       = value_divide (Integer (BigInt (sa @ da))) (Integer (BigInt (sb @ db)))"
  proof -
    fix sb db :: string
    assume b: "sb = [] \<or> sb = ''-''" "db \<noteq> []" "list_all isDigit db"
    let ?B = "sb @ db"
    note bc = signed_no_special [OF b(1,3)] and bsp = signed_no_space [OF b(1,3)]
    have lastB: "\<not> isSpace (last ?B)"
      using b(2) last_digits [OF b(2,3)] isDigit_other(7) by simp
    have hdB: "?B = [] \<or> hd ?B \<noteq> CHR ''E''"
      using b(1) hd_digits [OF b(2,3), of "[]"] isDigit_chars(4) by (elim disjE) auto
    let ?X = "da @ CHR ''/'' # CHR ''S'' # ?B"
    have n5: "n + 5 = Suc (Suc (Suc (Suc (Suc n))))" by simp
    have c: "CHR ''['' \<notin> set ?X" "CHR '':'' \<notin> set ?X"
      using dc(1,4) bc(1,4) by simp_all
    have pa: "\<And>k. parseFactor (Suc (Suc k)) lib ((sa @ da) @ CHR ''/'' # CHR ''S'' # ?B) defaultOptions
        = Inr (Integer (BigInt (sa @ da)), CHR ''/'' # CHR ''S'' # ?B)"
    proof -
      fix k
      have "\<And>k. parseFactor (Suc k) lib ?X defaultOptions
          = Inr (promoteType (Rational (of_int (BigInt da)) False) defaultOptions, CHR ''/'' # CHR ''S'' # ?B)"
        using parseFactor_marker_text [OF a(2,3) bc(1,2,3) _ o(2,1)] lastB by simp
      then have "parseFactor (Suc (Suc k)) lib (sa @ ?X) defaultOptions
          = Inr (promoteType (Rational (if sa = [] then of_int (BigInt da) else - of_int (BigInt da)) False)
                   defaultOptions, CHR ''/'' # CHR ''S'' # ?B)"
        by (rule parseFactor_signed [OF a(1) c o(1)])
      then show "parseFactor (Suc (Suc k)) lib ((sa @ da) @ CHR ''/'' # CHR ''S'' # ?B) defaultOptions
        = Inr (Integer (BigInt (sa @ da)), CHR ''/'' # CHR ''S'' # ?B)"
        unfolding integer_text_value [OF o(1) a] by simp
    qed
    have pb: "\<And>k. parseFactor (Suc (Suc k)) lib ?B defaultOptions = Inr (Integer (BigInt ?B), [])"
    proof -
      fix k
      have "\<And>k. parseFactor (Suc k) lib db defaultOptions
          = Inr (promoteType (Rational (of_int (BigInt db)) False) defaultOptions, [])"
        by (rule parseFactor_integer_text [OF b(2,3) o(2,1)])
      then have "parseFactor (Suc (Suc k)) lib (sb @ db) defaultOptions
          = Inr (promoteType (Rational (if sb = [] then of_int (BigInt db) else - of_int (BigInt db)) False)
                   defaultOptions, [])"
        by (rule parseFactor_signed [OF b(1) digits_no_special(1,4) [OF b(3)] o(1)])
      then show "parseFactor (Suc (Suc k)) lib ?B defaultOptions = Inr (Integer (BigInt ?B), [])"
        unfolding integer_text_value [OF o(1) b] .
    qed
    let ?s = "sa @ da @ CHR ''/'' # CHR '' '' # ?B"
    have pre: "preprocess ?s = (sa @ da) @ CHR ''/'' # CHR ''S'' # ?B"
      using div_text [OF bsp hdB] by simp
    have tr: "trim ?s \<noteq> []" using trim_text_nonempty [OF Ane asp] by simp
    have "parse (Suc (Suc (Suc (Suc (Suc n))))) lib ?s defaultOptions
        = rbind (value_divide (Integer (BigInt (sa @ da))) (Integer (BigInt ?B)))
            (\<lambda>r. Inr (promoteType (promoteType r defaultOptions) defaultOptions))"
      using pa pb pre tr by (rule parse_division)
    then show "parse (n + 5) lib (sa @ da @ CHR ''/'' # CHR '' '' # sb @ db) defaultOptions
       = value_divide (Integer (BigInt (sa @ da))) (Integer (BigInt (sb @ db)))"
      unfolding n5
      by (cases "value_divide (Integer (BigInt (sa @ da))) (Integer (BigInt ?B))")
         (simp_all add: rbind_def value_divide_promoted)
  qed

  have one: "''1'' \<noteq> []" "list_all isDigit ''1''" by (simp_all add: isDigit_def)
  have c1: "preprocess (sa @ da @ ''/'' @ db) = sa @ da @ ''/'' @ db"
    using frac_text [OF b(3)] by simp
  have c2: "parseRational n lib (da @ ''/'' @ db) defaultOptions
       = (if BigInt db = 0 then Inl (Error ''Denominator cannot be zero'')
          else Inr (Rational (of_int (BigInt da) / of_int (BigInt db)) (BigInt db = 1), []))"
    using frac_rat [OF b(2,3)] by simp
  have c3: "parse (n + 4) lib (sa @ da @ ''/'' @ db) defaultOptions
       = (if BigInt db = 0 then Inl (Error ''Denominator cannot be zero'')
          else Inr (promoteType (Rational (of_int (BigInt (sa @ da)) / of_int (BigInt db)) (BigInt db = 1))
                      defaultOptions))"
    using frac_parse [OF b(2,3)] by simp
  have c4: "preprocess (sa @ da @ ''/ '' @ sb @ db) = sa @ da @ ''/S'' @ sb @ db"
    using div_text [OF bsp] hdB b(2) by simp
  have c5: "parseRational n lib (da @ ''/S'' @ sb @ db) defaultOptions
       = Inr (Rational (of_int (BigInt da)) False, ''/S'' @ sb @ db)"
    using div_rat [OF bc(2,3)] lastB by simp
  have c6: "parse (n + 5) lib (sa @ da @ ''/ '' @ sb @ db) defaultOptions
       = value_divide (Integer (BigInt (sa @ da))) (Integer (BigInt (sb @ db)))"
    using div_parse [OF b] by simp
  have c7: "parse (n + 4) lib (sa @ da @ ''/1'') defaultOptions = Inr (Rational (of_int (BigInt (sa @ da))) True)"
    using frac_parse [OF one] o(1) by (simp add: BigInt_one promoteType_def)
  have c8: "parse (n + 5) lib (sa @ da @ ''/ 1'') defaultOptions = Inr (Integer (BigInt (sa @ da)))"
    using div_parse [of "[]" "''1''"] one by (simp add: BigInt_one value_divide_one)
  from c1 c2 c3 c4 c5 c6 c7 c8 show ?thesis by blast
qed

theorem fraction_versus_division_witness:
  "(''-'' = [] \<or> ''-'' = ''-'') \<and> ''3'' \<noteq> [] \<and> list_all isDigit ''3'' \<and> ''4'' \<noteq> [] \<and> list_all isDigit ''4'' \<and>
   preprocess ''-3/ -4'' = ''-3/S-4'' \<and>
   parseRational 0 exactPowerLibrary ''3/4'' defaultOptions = Inr (Rational (3 / 4) False, []) \<and>
   parseRational 0 exactPowerLibrary ''3/S-4'' defaultOptions = Inr (Rational 3 False, ''/S-4'') \<and>
   parse 4 exactPowerLibrary ''-3/4'' defaultOptions = Inr (Rational (- (3 / 4)) False) \<and>
   parse 5 exactPowerLibrary ''-3/ -4'' defaultOptions = Inr (Rational (3 / 4) False) \<and>
   parse 4 exactPowerLibrary ''-3/1'' defaultOptions = Inr (Rational (- 3) True) \<and>
   parse 5 exactPowerLibrary ''-3/ 1'' defaultOptions = Inr (Integer (- 3))"
proof -
  have h: "''-'' = [] \<or> ''-'' = ''-''" "''3'' \<noteq> []" "list_all isDigit ''3''"
    "''4'' \<noteq> []" "list_all isDigit ''4''"
    by (simp_all add: isDigit_def)
  have b: "BigInt ''3'' = 3" "BigInt ''4'' = 4" "BigInt ''-3'' = - 3" "BigInt ''-4'' = - 4"
    by code_simp+
  have p: "promoteType (Rational (- (3 / 4)) False) defaultOptions = Rational (- (3 / 4)) False"
    by code_simp
  have v: "value_divide (Integer (- 3)) (Integer (- 4)) = Inr (Rational (3 / 4) False)"
    by code_simp
  note t = fraction_versus_division [OF h(1,2,3) h(1,4,5), of 0 exactPowerLibrary]
  from t have 1: "preprocess ''-3/ -4'' = ''-3/S-4''" by simp
  from t have 2: "parseRational 0 exactPowerLibrary ''3/4'' defaultOptions = Inr (Rational (3 / 4) False, [])"
    by (simp add: b)
  from t have 3: "parseRational 0 exactPowerLibrary ''3/S-4'' defaultOptions = Inr (Rational 3 False, ''/S-4'')"
    by (simp add: b)
  from t have 4: "parse 4 exactPowerLibrary ''-3/4'' defaultOptions = Inr (Rational (- (3 / 4)) False)"
    by (simp add: b p)
  from t have 5: "parse 5 exactPowerLibrary ''-3/ -4'' defaultOptions = Inr (Rational (3 / 4) False)"
    by (simp add: b v)
  from t have 6: "parse 4 exactPowerLibrary ''-3/1'' defaultOptions = Inr (Rational (- 3) True)"
    by (simp add: b)
  from t have 7: "parse 5 exactPowerLibrary ''-3/ 1'' defaultOptions = Inr (Integer (- 3))"
    by (simp add: b)
  from h 1 2 3 4 5 6 7 show ?thesis by blast
qed

section \<open>Theorems: decimal literals in the two modes\<close>

lemma catch_Inr: "catch (Inr x) h = Inr x"
  by (simp add: catch_def)

lemma charMap_has_DECIMAL: "charMap_has DECIMAL c = isDigit c"
  by (simp add: charMap_has_def DECIMAL_def isDigit_def)

lemma inputBaseOf_decimal:
  "\<not> (case inputBase opts of Other b \<Rightarrow> True | _ \<Rightarrow> False) \<Longrightarrow> inputBaseOf opts = DECIMAL"
  by (cases "inputBase opts") (simp_all add: inputBaseOf_def)

lemma scanDecimal_digits:
  "list_all isDig fp \<Longrightarrow> scanDecimal isDig True fp = (length fp, True)"
  by (induction fp) auto

lemma scanDecimal_decimal:
  assumes "list_all isDig ip" "list_all isDig fp" "fp \<noteq> []" "\<not> isDig (CHR ''.'')"
  shows "scanDecimal isDig False (ip @ CHR ''.'' # fp) = (length ip + 1 + length fp, True)"
  using assms
proof (induction ip)
  case Nil
  then have "hd fp \<noteq> CHR ''.''" by (cases fp) auto
  with Nil show ?case by (simp add: scanDecimal_digits)
next
  case (Cons c ip)
  then show ?case by simp
qed

lemma decimalPrefix_decimal:
  assumes sg: "sg = [] \<or> sg = ''-''"
    and ip: "ip \<noteq> []" "list_all isDigit ip" and fp: "fp \<noteq> []" "list_all isDigit fp"
  shows "decimalPrefix isDigit (sg @ ip @ CHR ''.'' # fp) = Some (sg @ ip @ CHR ''.'' # fp)"
proof -
  have nd: "\<not> isDigit (CHR ''.'')" by (simp add: isDigit_def)
  note sc = scanDecimal_decimal [OF ip(2) fp(2) fp(1) nd]
  have h: "hd ip \<noteq> CHR ''-''" by (rule hd_digits_minus [OF ip])
  from sg show ?thesis
  proof
    assume "sg = []"
    then show ?thesis
      using ip(1) h sc by (simp add: decimalPrefix_def Let_def)
  next
    assume "sg = ''-''"
    then show ?thesis
      using ip(1) fp(1) sc by (simp add: decimalPrefix_def Let_def)
  qed
qed

lemma BigInt_nonneg: "list_all isDigit s \<Longrightarrow> 0 \<le> BigInt s"
  by (simp add: BigInt_digits_conv)

lemma newRationalInterval_ordered: "a \<le> b \<Longrightarrow> newRationalInterval a b = RationalInterval a b False False"
  by (simp add: newRationalInterval_def min_def max_def)

lemma halfUnit_pos: "0 < halfUnit fp"
  by (simp add: halfUnit_def)

lemma decimal_endpoints:
  fixes b :: int
  shows "of_int (b * 10 - 5) / of_int (10 ^ (k + 1)) = (of_int b / 10 ^ k - 5 / 10 ^ (k + 1) :: rat)"
    "of_int (b * 10 + 5) / of_int (10 ^ (k + 1)) = (of_int b / 10 ^ k + 5 / 10 ^ (k + 1) :: rat)"
    "of_int (- (b * 10 + 5)) / of_int (10 ^ (k + 1)) = (- (of_int b / 10 ^ k + 5 / 10 ^ (k + 1)) :: rat)"
    "of_int (- (b * 10 - 5)) / of_int (10 ^ (k + 1)) = (- (of_int b / 10 ^ k - 5 / 10 ^ (k + 1)) :: rat)"
  by (simp_all add: field_simps)

lemma parseNonRepeatingDecimal_decimal:
  assumes ip: "ip \<noteq> []" "list_all isDigit ip" and fp: "fp \<noteq> []" "list_all isDigit fp"
  shows "parseNonRepeatingDecimal (ip @ CHR ''.'' # fp) isNegative =
    Inr (if isNegative
         then RationalInterval (- (decimalValue ip fp + halfUnit fp)) (- (decimalValue ip fp - halfUnit fp)) False False
         else RationalInterval (decimalValue ip fp - halfUnit fp) (decimalValue ip fp + halfUnit fp) False False)"
proof -
  let ?b = "BigInt (ip @ fp)" and ?k = "length fp"
  have d: "decimalPartsOf (ip @ CHR ''.'' # fp) = Some (ip, fp)"
    using ip(2) fp(2) by (rule decimalPartsOf_dot)
  have oe: "orElse ip ''0'' = ip" using ip(1) by (simp add: orElse_def)
  have raw: "parseNonRepeatingDecimal (ip @ CHR ''.'' # fp) isNegative =
    Inr (if isNegative
         then newRationalInterval (of_int (- (?b * 10 + 5)) / of_int (10 ^ (?k + 1)))
                                  (of_int (- (?b * 10 - 5)) / of_int (10 ^ (?k + 1)))
         else newRationalInterval (of_int (?b * 10 - 5) / of_int (10 ^ (?k + 1)))
                                  (of_int (?b * 10 + 5) / of_int (10 ^ (?k + 1))))"
    unfolding parseNonRepeatingDecimal_def d
    using ip fp by (simp add: oe Let_def)
  have le: "decimalValue ip fp - halfUnit fp \<le> decimalValue ip fp + halfUnit fp"
    "- (decimalValue ip fp + halfUnit fp) \<le> - (decimalValue ip fp - halfUnit fp)"
    using halfUnit_pos [of fp] by simp_all
  show ?thesis
    unfolding raw decimal_endpoints
    unfolding decimalValue_def [symmetric] halfUnit_def [symmetric]
    unfolding newRationalInterval_ordered [OF le(1)] newRationalInterval_ordered [OF le(2)]
    by simp
qed

lemma Rational_fromString_decimal:
  assumes sg: "sg = [] \<or> sg = ''-''"
    and ip: "ip \<noteq> []" "list_all isDigit ip" and fp: "fp \<noteq> []" "list_all isDigit fp"
  shows "Rational_fromString (sg @ ip @ CHR ''.'' # fp)
         = Inr (if sg = ''-'' then - decimalValue ip fp else decimalValue ip fp)"
proof -
  have d: "decimalPartsOf (ip @ CHR ''.'' # fp) = Some (ip, fp)"
    using ip(2) fp(2) by (rule decimalPartsOf_dot)
  have h: "hd ip \<noteq> CHR ''-''" by (rule hd_digits_minus [OF ip])
  from sg show ?thesis
  proof
    assume e: "sg = []"
    have np: "\<not> prefix ''-'' (ip @ CHR ''.'' # fp)"
      using ip(1) h by (cases ip) auto
    show ?thesis
      unfolding e Rational_fromString_def using np ip fp
      by (simp add: d Let_def decimalValue_def)
  next
    assume e: "sg = ''-''"
    show ?thesis
      unfolding e Rational_fromString_def using ip fp
      by (simp add: d Let_def decimalValue_def)
  qed
qed

lemma decimal_text_chars:
  assumes sg: "sg = [] \<or> sg = ''-''" and ip: "list_all isDigit ip" and fp: "list_all isDigit fp"
  shows "CHR ''['' \<notin> set (sg @ ip @ CHR ''.'' # fp)" "CHR ''#'' \<notin> set (sg @ ip @ CHR ''.'' # fp)"
    "CHR '':'' \<notin> set (sg @ ip @ CHR ''.'' # fp)" "CHR ''~'' \<notin> set (sg @ ip @ CHR ''.'' # fp)"
    "\<forall>c\<in>set (sg @ ip @ CHR ''.'' # fp). \<not> isSpace c"
proof -
  have t: "\<not> isDigit (CHR ''~'')" by (simp add: isDigit_def)
  note a = signed_no_special [OF sg ip] digits_no_special [OF fp]
  show "CHR ''['' \<notin> set (sg @ ip @ CHR ''.'' # fp)" using a by simp
  show "CHR ''#'' \<notin> set (sg @ ip @ CHR ''.'' # fp)" using a by simp
  show "CHR '':'' \<notin> set (sg @ ip @ CHR ''.'' # fp)" using a by simp
  show "CHR ''~'' \<notin> set (sg @ ip @ CHR ''.'' # fp)"
    using sg digits_not_in [OF ip t] digits_not_in [OF fp t] by (elim disjE) simp_all
  have p: "\<not> isSpace (CHR ''.'')" by (simp add: isSpace_def)
  show "\<forall>c\<in>set (sg @ ip @ CHR ''.'' # fp). \<not> isSpace c"
    using signed_no_space [OF sg ip] digits_no_space [OF fp] p by (simp add: ball_Un)
qed

lemma parseInterval_decimal_typeAware:
  assumes "\<not> includes_str expr ''[''" "\<not> includes_str expr ''.~''" "includes_str expr ''.''"
    "\<not> includes_str expr ''#''" "\<not> includes_str expr '':''"
    and "decimalPrefix (charMap_has (inputBaseOf opts)) expr = Some decimalStr"
    and "\<not> (case inputBase opts of Other b \<Rightarrow> True | _ \<Rightarrow> False)" "typeAware opts"
    and "Rational_fromString decimalStr = Inr r"
  shows "parseInterval n lib expr opts = Inr (Rational r False, drop (length decimalStr) expr)"
  unfolding parseInterval_def
  using assms by (cases "inputBase opts") (simp_all add: Let_def catch_def rbind_def)

lemma parseInterval_decimal_interval:
  assumes "\<not> includes_str expr ''[''" "\<not> includes_str expr ''.~''" "includes_str expr ''.''"
    "\<not> includes_str expr ''#''" "\<not> includes_str expr '':''"
    and "decimalPrefix (charMap_has (inputBaseOf opts)) expr = Some decimalStr"
    and "\<not> (case inputBase opts of Other b \<Rightarrow> True | _ \<Rightarrow> False)" "\<not> typeAware opts"
    and "prefix ''-'' decimalStr = isNegative"
    and "(if isNegative then tl decimalStr else decimalStr) = absDecimalStr"
    and "parseNonRepeatingDecimal absDecimalStr isNegative = Inr v"
  shows "parseInterval n lib expr opts = Inr (v, drop (length decimalStr) expr)"
  unfolding parseInterval_def
  using assms by (cases "inputBase opts") (simp_all add: Let_def catch_def rbind_def)

lemma negate_interval:
  assumes "\<not> typeAware opts" "lo \<le> hi"
  shows "negateValue opts (RationalInterval lo hi False False) = Inr (RationalInterval (- hi) (- lo) False False)"
proof -
  have "Min {- lo, - hi} = - hi" "Max {- lo, - hi} = - lo"
    using assms(2) by (simp_all add: min_def max_def)
  then show ?thesis
    by (simp add: negateValue_def value_multiply_def intervalHull_def)
qed

lemma promoteType_not_typeAware: "\<not> typeAware opts \<Longrightarrow> promoteType v opts = v"
  by (simp add: promoteType_def)

lemma decimal_literal_parseInterval:
  assumes sg: "sg = [] \<or> sg = ''-''"
    and ip: "ip \<noteq> []" "list_all isDigit ip" and fp: "fp \<noteq> []" "list_all isDigit fp"
    and o: "\<not> (case inputBase opts of Other b \<Rightarrow> True | _ \<Rightarrow> False)"
  shows "typeAware opts \<Longrightarrow> parseInterval n lib (sg @ ip @ CHR ''.'' # fp) opts
           = Inr (Rational (if sg = ''-'' then - decimalValue ip fp else decimalValue ip fp) False, [])"
    and "\<not> typeAware opts \<Longrightarrow> parseInterval n lib (sg @ ip @ CHR ''.'' # fp) opts
           = Inr (if sg = ''-''
                  then RationalInterval (- (decimalValue ip fp + halfUnit fp)) (- (decimalValue ip fp - halfUnit fp)) False False
                  else RationalInterval (decimalValue ip fp - halfUnit fp) (decimalValue ip fp + halfUnit fp) False False, [])"
proof -
  let ?e = "sg @ ip @ CHR ''.'' # fp"
  note c = decimal_text_chars [OF sg ip(2) fp(2)]
  have i: "\<not> includes_str ?e ''[''" "\<not> includes_str ?e ''#''" "\<not> includes_str ?e '':''"
    "includes_str ?e ''.''"
    using c(1-3) by (simp_all only: includes_str_single, simp_all)
  have t: "\<not> includes_str ?e ''.~''"
    using includes_str_subset [of ?e "''.~''"] c(4) by auto
  have dg: "charMap_has (inputBaseOf opts) = isDigit"
    unfolding inputBaseOf_decimal [OF o] by (rule ext) (rule charMap_has_DECIMAL)
  have dp: "decimalPrefix (charMap_has (inputBaseOf opts)) ?e = Some ?e"
    unfolding dg by (rule decimalPrefix_decimal [OF sg ip fp])
  have h: "hd ip \<noteq> CHR ''-''" by (rule hd_digits_minus [OF ip])
  have pr: "prefix ''-'' ?e = (sg = ''-'')"
    using sg ip(1) h by (cases ip) auto
  have ab: "(if sg = ''-'' then tl ?e else ?e) = ip @ CHR ''.'' # fp"
    using sg by auto
  {
    assume ta: "typeAware opts"
    have "parseInterval n lib ?e opts
        = Inr (Rational (if sg = ''-'' then - decimalValue ip fp else decimalValue ip fp) False,
               drop (length ?e) ?e)"
      using i(1) t i(4) i(2) i(3) dp o ta Rational_fromString_decimal [OF sg ip fp]
      by (rule parseInterval_decimal_typeAware)
    then show "parseInterval n lib ?e opts
           = Inr (Rational (if sg = ''-'' then - decimalValue ip fp else decimalValue ip fp) False, [])"
      by simp
  }
  {
    assume ta: "\<not> typeAware opts"
    have "parseInterval n lib ?e opts
        = Inr (if sg = ''-''
                  then RationalInterval (- (decimalValue ip fp + halfUnit fp)) (- (decimalValue ip fp - halfUnit fp)) False False
                  else RationalInterval (decimalValue ip fp - halfUnit fp) (decimalValue ip fp + halfUnit fp) False False,
               drop (length ?e) ?e)"
      using i(1) t i(4) i(2) i(3) dp o ta pr ab parseNonRepeatingDecimal_decimal [OF ip fp]
      by (rule parseInterval_decimal_interval)
    then show "parseInterval n lib ?e opts
           = Inr (if sg = ''-''
                  then RationalInterval (- (decimalValue ip fp + halfUnit fp)) (- (decimalValue ip fp - halfUnit fp)) False False
                  else RationalInterval (decimalValue ip fp - halfUnit fp) (decimalValue ip fp + halfUnit fp) False False, [])"
      by simp
  }
qed

lemma decimal_literal_parseFactor:
  assumes sg: "sg = [] \<or> sg = ''-''"
    and ip: "ip \<noteq> []" "list_all isDigit ip" and fp: "fp \<noteq> []" "list_all isDigit fp"
    and o: "\<not> (case inputBase opts of Other b \<Rightarrow> True | _ \<Rightarrow> False)"
  shows "typeAware opts \<Longrightarrow> parseFactor (Suc (Suc n)) lib (sg @ ip @ CHR ''.'' # fp) opts
           = Inr (Rational (if sg = ''-'' then - decimalValue ip fp else decimalValue ip fp) False, [])"
    and "\<not> typeAware opts \<Longrightarrow> parseFactor (Suc (Suc n)) lib (sg @ ip @ CHR ''.'' # fp) opts
           = Inr (if sg = ''-''
                  then RationalInterval (- (decimalValue ip fp + halfUnit fp)) (- (decimalValue ip fp - halfUnit fp)) False False
                  else RationalInterval (decimalValue ip fp - halfUnit fp) (decimalValue ip fp + halfUnit fp) False False, [])"
proof -
  let ?u = "ip @ CHR ''.'' # fp"
  have e: "[] = [] \<or> [] = ''-''" by simp
  note c = decimal_text_chars [OF e ip(2) fp(2)]
  have rn: "readsNumber ?u"
    using ip by (rule readsNumber_digits) (use c(1) in simp)
  have cu: "CHR ''['' \<notin> set ?u" "CHR '':'' \<notin> set ?u" using c(1,3) by simp_all
  have le: "decimalValue ip fp - halfUnit fp \<le> decimalValue ip fp + halfUnit fp"
    using halfUnit_pos [of fp] by simp
  {
    assume ta: "typeAware opts"
    have pi: "parseInterval k lib ?u opts = Inr (Rational (decimalValue ip fp) False, [])" for k
      using decimal_literal_parseInterval(1) [OF e ip fp o ta, of k lib] by simp
    have pf: "parseFactor (Suc k) lib ?u opts = Inr (Rational (decimalValue ip fp) False, [])" for k
      using rn pi by (rule parseFactor_plain_number) simp
    show "parseFactor (Suc (Suc n)) lib (sg @ ?u) opts
           = Inr (Rational (if sg = ''-'' then - decimalValue ip fp else decimalValue ip fp) False, [])"
    proof (cases "sg = ''-''")
      case True
      show ?thesis
        unfolding True using ta
        by (simp add: parseFactor_negation [OF cu] pf rbind_def negateValue_def del: parseFactor.simps)
    next
      case False
      then have "sg = []" using sg by simp
      then show ?thesis using pf [of "Suc n"] by (simp del: parseFactor.simps)
    qed
  }
  {
    assume ta: "\<not> typeAware opts"
    let ?I = "RationalInterval (decimalValue ip fp - halfUnit fp) (decimalValue ip fp + halfUnit fp) False False"
    have pi: "parseInterval k lib ?u opts = Inr (?I, [])" for k
      using decimal_literal_parseInterval(2) [OF e ip fp o ta, of k lib] by simp
    have pf: "parseFactor (Suc k) lib ?u opts = Inr (?I, [])" for k
      using rn pi by (rule parseFactor_plain_number) simp
    show "parseFactor (Suc (Suc n)) lib (sg @ ?u) opts
           = Inr (if sg = ''-''
                  then RationalInterval (- (decimalValue ip fp + halfUnit fp)) (- (decimalValue ip fp - halfUnit fp)) False False
                  else ?I, [])"
    proof (cases "sg = ''-''")
      case True
      show ?thesis
        unfolding True
        by (simp add: parseFactor_negation [OF cu] pf rbind_def negate_interval [OF ta le]
            del: parseFactor.simps)
    next
      case False
      then have "sg = []" using sg by simp
      then show ?thesis using pf [of "Suc n"] by (simp del: parseFactor.simps)
    qed
  }
qed

text \<open>
  C4. Take the literal \<open>ip.fp\<close> of non-empty runs of decimal digits, with \<open>k\<close> digits in
  \<open>fp\<close>, an optional minus sign before it, and the decimal input base. Let \<open>x\<close> be the
  value of \<open>ip.fp\<close> and \<open>h = 5 * 10^-(k + 1)\<close>. parseNonRepeatingDecimal returns the
  interval from \<open>x - h\<close> to \<open>x + h\<close>, and for a negative number the interval from
  \<open>-(x + h)\<close> to \<open>-(x - h)\<close>: the endpoints negated and swapped. When the options are not
  type-aware, parseInterval and the whole parse return this interval. When they are
  type-aware, parseInterval returns the Rational of the exact value, with the sign, and
  the whole parse returns it after the promotion step. The fuel \<open>n + 4\<close> is any fuel from
  4 on.
\<close>

theorem decimal_literal_modes:
  assumes sg: "sg = [] \<or> sg = ''-''"
    and ip: "ip \<noteq> []" "list_all isDigit ip" and fp: "fp \<noteq> []" "list_all isDigit fp"
    and o: "\<not> (case inputBase opts of Other b \<Rightarrow> True | _ \<Rightarrow> False)"
  shows "parseNonRepeatingDecimal (ip @ ''.'' @ fp) False
           = Inr (RationalInterval (decimalValue ip fp - halfUnit fp) (decimalValue ip fp + halfUnit fp) False False) \<and>
         parseNonRepeatingDecimal (ip @ ''.'' @ fp) True
           = Inr (RationalInterval (- (decimalValue ip fp + halfUnit fp)) (- (decimalValue ip fp - halfUnit fp)) False False) \<and>
         (\<not> typeAware opts \<longrightarrow>
            parseInterval n lib (sg @ ip @ ''.'' @ fp) opts
              = Inr (if sg = ''-''
                     then RationalInterval (- (decimalValue ip fp + halfUnit fp)) (- (decimalValue ip fp - halfUnit fp)) False False
                     else RationalInterval (decimalValue ip fp - halfUnit fp) (decimalValue ip fp + halfUnit fp) False False, []) \<and>
            parse (n + 4) lib (sg @ ip @ ''.'' @ fp) opts
              = Inr (if sg = ''-''
                     then RationalInterval (- (decimalValue ip fp + halfUnit fp)) (- (decimalValue ip fp - halfUnit fp)) False False
                     else RationalInterval (decimalValue ip fp - halfUnit fp) (decimalValue ip fp + halfUnit fp) False False)) \<and>
         (typeAware opts \<longrightarrow>
            parseInterval n lib (sg @ ip @ ''.'' @ fp) opts
              = Inr (Rational (if sg = ''-'' then - decimalValue ip fp else decimalValue ip fp) False, []) \<and>
            parse (n + 4) lib (sg @ ip @ ''.'' @ fp) opts
              = Inr (promoteType (Rational (if sg = ''-'' then - decimalValue ip fp else decimalValue ip fp) False) opts))"
proof -
  let ?e = "sg @ ip @ CHR ''.'' # fp"
  let ?I = "if sg = ''-''
            then RationalInterval (- (decimalValue ip fp + halfUnit fp)) (- (decimalValue ip fp - halfUnit fp)) False False
            else RationalInterval (decimalValue ip fp - halfUnit fp) (decimalValue ip fp + halfUnit fp) False False"
  let ?R = "Rational (if sg = ''-'' then - decimalValue ip fp else decimalValue ip fp) False"
  note c = decimal_text_chars [OF sg ip(2) fp(2)]
  have pp: "preprocess ?e = ?e" using c(5) by (rule preprocess_nospace)
  have ne: "sg @ ip \<noteq> []" using ip(1) by simp
  have tr: "trim ?e \<noteq> []"
    using trim_text_nonempty [OF ne signed_no_space [OF sg ip(2)], of "CHR ''.'' # fp"] by simp
  have n4: "n + 4 = Suc (Suc (Suc (Suc n)))" by simp
  have a: "parseNonRepeatingDecimal (ip @ ''.'' @ fp) False
           = Inr (RationalInterval (decimalValue ip fp - halfUnit fp) (decimalValue ip fp + halfUnit fp) False False)"
    using parseNonRepeatingDecimal_decimal [OF ip fp, of False] by simp
  have b: "parseNonRepeatingDecimal (ip @ ''.'' @ fp) True
           = Inr (RationalInterval (- (decimalValue ip fp + halfUnit fp)) (- (decimalValue ip fp - halfUnit fp)) False False)"
    using parseNonRepeatingDecimal_decimal [OF ip fp, of True] by simp
  have u: "\<not> typeAware opts \<longrightarrow>
            parseInterval n lib (sg @ ip @ ''.'' @ fp) opts = Inr (?I, []) \<and>
            parse (n + 4) lib (sg @ ip @ ''.'' @ fp) opts = Inr ?I"
  proof
    assume ta: "\<not> typeAware opts"
    have 1: "parseInterval n lib ?e opts = Inr (?I, [])"
      by (rule decimal_literal_parseInterval(2) [OF sg ip fp o ta])
    have "parseFactor (Suc (Suc n)) lib (preprocess ?e) opts = Inr (?I, [])"
      unfolding pp by (rule decimal_literal_parseFactor(2) [OF sg ip fp o ta])
    then have "parse (Suc (Suc (Suc (Suc n)))) lib ?e opts
        = Inr (promoteType (promoteType ?I opts) opts)"
      using tr by (rule parse_of_factor)
    then have 2: "parse (n + 4) lib ?e opts = Inr ?I"
      unfolding n4 promoteType_not_typeAware [OF ta] .
    from 1 2 show "parseInterval n lib (sg @ ip @ ''.'' @ fp) opts = Inr (?I, []) \<and>
            parse (n + 4) lib (sg @ ip @ ''.'' @ fp) opts = Inr ?I"
      by simp
  qed
  have t: "typeAware opts \<longrightarrow>
            parseInterval n lib (sg @ ip @ ''.'' @ fp) opts = Inr (?R, []) \<and>
            parse (n + 4) lib (sg @ ip @ ''.'' @ fp) opts = Inr (promoteType ?R opts)"
  proof
    assume ta: "typeAware opts"
    have 1: "parseInterval n lib ?e opts = Inr (?R, [])"
      by (rule decimal_literal_parseInterval(1) [OF sg ip fp o ta])
    have "parseFactor (Suc (Suc n)) lib (preprocess ?e) opts = Inr (?R, [])"
      unfolding pp by (rule decimal_literal_parseFactor(1) [OF sg ip fp o ta])
    then have "parse (Suc (Suc (Suc (Suc n)))) lib ?e opts
        = Inr (promoteType (promoteType ?R opts) opts)"
      using tr by (rule parse_of_factor)
    then have 2: "parse (n + 4) lib ?e opts = Inr (promoteType ?R opts)"
      unfolding n4 promoteType_idem .
    from 1 2 show "parseInterval n lib (sg @ ip @ ''.'' @ fp) opts = Inr (?R, []) \<and>
            parse (n + 4) lib (sg @ ip @ ''.'' @ fp) opts = Inr (promoteType ?R opts)"
      by simp
  qed
  from a b u t show ?thesis by blast
qed

theorem decimal_literal_modes_witness:
  "(''-'' = [] \<or> ''-'' = ''-'') \<and> ''1'' \<noteq> [] \<and> list_all isDigit ''1'' \<and> ''25'' \<noteq> [] \<and> list_all isDigit ''25'' \<and>
   \<not> typeAware (defaultOptions\<lparr>typeAware := False\<rparr>) \<and> typeAware defaultOptions \<and>
   decimalValue ''1'' ''25'' = 5 / 4 \<and> halfUnit ''25'' = 5 / 1000 \<and>
   parseNonRepeatingDecimal ''1.25'' False = Inr (RationalInterval (249 / 200) (251 / 200) False False) \<and>
   parseNonRepeatingDecimal ''1.25'' True = Inr (RationalInterval (- (251 / 200)) (- (249 / 200)) False False) \<and>
   parse 4 exactPowerLibrary ''-1.25'' (defaultOptions\<lparr>typeAware := False\<rparr>)
     = Inr (RationalInterval (- (251 / 200)) (- (249 / 200)) False False) \<and>
   parseInterval 0 exactPowerLibrary ''-1.25'' (defaultOptions\<lparr>typeAware := False\<rparr>)
     = Inr (RationalInterval (- (251 / 200)) (- (249 / 200)) False False, []) \<and>
   parse 4 exactPowerLibrary ''-1.25'' defaultOptions = Inr (Rational (- (5 / 4)) False) \<and>
   parseInterval 0 exactPowerLibrary ''-1.25'' defaultOptions = Inr (Rational (- (5 / 4)) False, [])"
proof -
  let ?off = "defaultOptions\<lparr>typeAware := False\<rparr>"
  have h: "''-'' = [] \<or> ''-'' = ''-''" "''1'' \<noteq> []" "list_all isDigit ''1''"
    "''25'' \<noteq> []" "list_all isDigit ''25''"
    by (simp_all add: isDigit_def)
  have o: "\<not> (case inputBase ?off of Other b \<Rightarrow> True | _ \<Rightarrow> False)"
    "\<not> (case inputBase defaultOptions of Other b \<Rightarrow> True | _ \<Rightarrow> False)"
    by (simp_all add: defaultOptions_def)
  have ta: "\<not> typeAware ?off" "typeAware defaultOptions"
    by (simp_all add: defaultOptions_def)
  have v: "decimalValue ''1'' ''25'' = 5 / 4" "halfUnit ''25'' = 5 / 1000"
    by code_simp+
  have e: "- (5 / 4 + 5 / 1000) = (- (251 / 200) :: rat)" "- (5 / 4 - 5 / 1000) = (- (249 / 200) :: rat)"
    "5 / 4 - 5 / 1000 = (249 / 200 :: rat)" "5 / 4 + 5 / 1000 = (251 / 200 :: rat)"
    by simp_all
  have p: "promoteType (Rational (- (5 / 4)) False) defaultOptions = Rational (- (5 / 4)) False"
    by code_simp
  note t1 = decimal_literal_modes [OF h o(1), of 0 exactPowerLibrary]
  note t2 = decimal_literal_modes [OF h o(2), of 0 exactPowerLibrary]
  from t1 have 1: "parseNonRepeatingDecimal ''1.25'' False = Inr (RationalInterval (249 / 200) (251 / 200) False False)"
    unfolding v e by simp
  from t1 have 2: "parseNonRepeatingDecimal ''1.25'' True = Inr (RationalInterval (- (251 / 200)) (- (249 / 200)) False False)"
    unfolding v e by simp
  from t1 ta(1) have 3: "parse 4 exactPowerLibrary ''-1.25'' ?off
     = Inr (RationalInterval (- (251 / 200)) (- (249 / 200)) False False)"
    unfolding v e by simp
  from t1 ta(1) have 4: "parseInterval 0 exactPowerLibrary ''-1.25'' ?off
     = Inr (RationalInterval (- (251 / 200)) (- (249 / 200)) False False, [])"
    unfolding v e by simp
  from t2 ta(2) have 5: "parse 4 exactPowerLibrary ''-1.25'' defaultOptions = Inr (Rational (- (5 / 4)) False)"
    unfolding v by (simp add: p)
  from t2 ta(2) have 6: "parseInterval 0 exactPowerLibrary ''-1.25'' defaultOptions = Inr (Rational (- (5 / 4)) False, [])"
    unfolding v by simp
  from h ta v 1 2 3 4 5 6 show ?thesis by blast
qed

end
